theory Spec2Isabelle
  imports Main "HOL-Library.AList"
begin

unbundle bit_operations_syntax

section \<open>Python values and exceptions\<close>

text \<open>
  The emulator is a Python program. Its integers are unbounded and are modelled by
  \<open>int\<close>; the bitwise operators of Python act on the two's complement of their
  operands, as the bit operations of \<open>int\<close> do: \<open>&\<close> is \<open>AND\<close>, \<open>|\<close> is \<open>OR\<close>, \<open>^\<close> is
  \<open>XOR\<close> and \<open>~\<close> is \<open>NOT\<close>; \<open>x << n\<close> is \<open>push_bit n x\<close> and \<open>x >> n\<close> is
  \<open>drop_bit n x\<close>. An operation that raises returns the exception as a value, \<open>Inl e\<close>.
\<close>

datatype py_error = IndexError | ValueError

definition bindE :: "py_error + 'a \<Rightarrow> ('a \<Rightarrow> py_error + 'b) \<Rightarrow> py_error + 'b" where
  "bindE m f = (case m of Inl e \<Rightarrow> Inl e | Inr x \<Rightarrow> f x)"

text \<open>
  Indexing a \<open>bytes\<close> or a \<open>bytearray\<close> of length \<open>n\<close>: the indices \<open>0 .. n - 1\<close> count
  from the front, \<open>-n .. -1\<close> from the back, and every other index raises IndexError.
\<close>

definition getitem :: "int list \<Rightarrow> int \<Rightarrow> py_error + int" where
  "getitem xs i =
     (if 0 \<le> i \<and> i < int (length xs) then Inr (xs ! nat i)
      else if i < 0 \<and> - int (length xs) \<le> i then Inr (xs ! nat (int (length xs) + i))
      else Inl IndexError)"

text \<open>
  Storing into a \<open>bytearray\<close>: a value outside \<open>range(256)\<close> raises ValueError, then
  the index is resolved as above.
\<close>

definition setitem :: "int list \<Rightarrow> int \<Rightarrow> int \<Rightarrow> py_error + int list" where
  "setitem xs i v =
     (if v < 0 \<or> 255 < v then Inl ValueError
      else if 0 \<le> i \<and> i < int (length xs) then Inr (xs[nat i := v])
      else if i < 0 \<and> - int (length xs) \<le> i then Inr (xs[nat (int (length xs) + i) := v])
      else Inl IndexError)"

section \<open>The bus: class Memory\<close>

text \<open>
  \<open>ram\<close> is the \<open>bytearray\<close>, \<open>roms\<close> the dictionary \<open>addr: (data, size)\<close> in insertion
  order (the order \<open>items()\<close> iterates in), and the two handler dictionaries map an
  address to a callable. A handler is a closure over the peripherals; the state it
  reads and changes is the field \<open>io_state\<close>, so a read handler is a function from that
  state to the returned byte and the new state, and a write handler takes the written
  value first.
\<close>

record 'd Memory =
  ram :: "int list"
  roms :: "(int \<times> (int list \<times> int)) list"
  io_read_handlers :: "int \<rightharpoonup> ('d \<Rightarrow> int \<times> 'd)"
  io_write_handlers :: "int \<rightharpoonup> (int \<Rightarrow> 'd \<Rightarrow> 'd)"
  io_state :: 'd

definition Memory_init :: "int \<Rightarrow> 'd \<Rightarrow> py_error + 'd Memory" where
  "Memory_init size0 s =
     (if size0 < 0 then Inl ValueError
      else Inr \<lparr>ram = replicate (nat size0) 0, roms = [],
                io_read_handlers = Map.empty, io_write_handlers = Map.empty,
                io_state = s\<rparr>)"

text \<open>The body of the loop of \<open>load_rom\<close>, at address \<open>a = addr + i\<close>.\<close>

fun load_rom_loop :: "int list \<Rightarrow> int \<Rightarrow> int list \<Rightarrow> py_error + int list" where
  "load_rom_loop r a [] = Inr r"
| "load_rom_loop r a (b # bs) =
     (if a < int (length r)
      then bindE (setitem r a b) (\<lambda>r'. load_rom_loop r' (a + 1) bs)
      else load_rom_loop r (a + 1) bs)"

text \<open>
  \<open>load_rom(data, addr)\<close>. \<open>bytes(data)\<close> raises ValueError unless every element is in
  \<open>range(256)\<close>; \<open>self.roms[addr] = ...\<close> replaces the entry of an address already
  registered, in its place, and appends a new one otherwise.
\<close>

definition load_rom :: "'d Memory \<Rightarrow> int list \<Rightarrow> int \<Rightarrow> py_error + 'd Memory" where
  "load_rom m data addr =
     (let size0 = int (length data) in
      if \<not> list_all (\<lambda>b. 0 \<le> b \<and> b \<le> 255) data then Inl ValueError
      else
        let m1 = m\<lparr>roms := AList.update addr (data, size0) (roms m)\<rparr>
        in bindE (load_rom_loop (ram m1) addr data) (\<lambda>r. Inr (m1\<lparr>ram := r\<rparr>)))"

definition register_io_handler ::
  "'d Memory \<Rightarrow> int \<Rightarrow> ('d \<Rightarrow> int \<times> 'd) option \<Rightarrow> (int \<Rightarrow> 'd \<Rightarrow> 'd) option \<Rightarrow> 'd Memory" where
  "register_io_handler m addr read_handler write_handler =
     (let m1 = (case read_handler of
                  Some h \<Rightarrow> m\<lparr>io_read_handlers := (io_read_handlers m)(addr \<mapsto> h)\<rparr>
                | None \<Rightarrow> m)
      in case write_handler of
           Some h \<Rightarrow> m1\<lparr>io_write_handlers := (io_write_handlers m1)(addr \<mapsto> h)\<rparr>
         | None \<Rightarrow> m1)"

text \<open>The first overlay, in the dictionary's order, that contains the address.\<close>

definition find_rom :: "(int \<times> (int list \<times> int)) list \<Rightarrow> int \<Rightarrow> (int \<times> (int list \<times> int)) option" where
  "find_rom rs addr =
     List.find (\<lambda>(rom_addr, (data, size0)). rom_addr \<le> addr \<and> addr < rom_addr + size0) rs"

definition Memory_read :: "'d Memory \<Rightarrow> int \<Rightarrow> py_error + (int \<times> 'd Memory)" where
  "Memory_read m addr0 =
     (let addr = addr0 AND 0xFFFF in
      case io_read_handlers m addr of
        Some h \<Rightarrow> (let (v, s) = h (io_state m) in Inr (v, m\<lparr>io_state := s\<rparr>))
      | None \<Rightarrow>
          (case find_rom (roms m) addr of
             Some (rom_addr, (data, size0)) \<Rightarrow>
               bindE (getitem data (addr - rom_addr)) (\<lambda>v. Inr (v, m))
           | None \<Rightarrow> bindE (getitem (ram m) addr) (\<lambda>v. Inr (v, m))))"

definition Memory_write :: "'d Memory \<Rightarrow> int \<Rightarrow> int \<Rightarrow> py_error + 'd Memory" where
  "Memory_write m addr0 value0 =
     (let addr = addr0 AND 0xFFFF; val = value0 AND 0xFF in
      case io_write_handlers m addr of
        Some h \<Rightarrow> Inr (m\<lparr>io_state := h val (io_state m)\<rparr>)
      | None \<Rightarrow>
          (case find_rom (roms m) addr of
             Some _ \<Rightarrow> Inr m
           | None \<Rightarrow> bindE (setitem (ram m) addr val) (\<lambda>r. Inr (m\<lparr>ram := r\<rparr>))))"

section \<open>Screen memory: class VideoRAM\<close>

record VideoRAM =
  width :: int
  height :: int
  size_v :: int
  memory :: "int list"
  dirty :: bool

definition VideoRAM_init :: "int \<Rightarrow> int \<Rightarrow> py_error + VideoRAM" where
  "VideoRAM_init w h =
     (if w * h < 0 then Inl ValueError
      else Inr \<lparr>width = w, height = h, size_v = w * h,
                memory = replicate (nat (w * h)) 0, dirty = True\<rparr>)"

definition VideoRAM_read :: "VideoRAM \<Rightarrow> int \<Rightarrow> py_error + int" where
  "VideoRAM_read v addr =
     (if 0 \<le> addr \<and> addr < size_v v then getitem (memory v) addr else Inr 0)"

definition VideoRAM_write :: "VideoRAM \<Rightarrow> int \<Rightarrow> int \<Rightarrow> py_error + VideoRAM" where
  "VideoRAM_write v addr val =
     (if 0 \<le> addr \<and> addr < size_v v
      then bindE (getitem (memory v) addr) (\<lambda>old.
             if old \<noteq> val
             then bindE (setitem (memory v) addr val) (\<lambda>mem'. Inr (v\<lparr>memory := mem', dirty := True\<rparr>))
             else Inr v)
      else Inr v)"

section \<open>The processor: class CPU6502\<close>

text \<open>
  The registers, the seven flags (Python integers), the per-instruction and the running
  cycle counters and the two interrupt latches. Nothing in the class bounds a field:
  \<open>PC += 1\<close> is an addition on unbounded integers.
\<close>

record CPU6502 =
  A :: int
  X :: int
  Y :: int
  PC :: int
  SP :: int
  C :: int
  Z :: int
  I :: int
  D :: int
  B :: int
  V :: int
  N :: int
  cycles :: int
  total_cycles :: int
  irq_pending :: bool
  nmi_pending :: bool

definition CPU6502_init :: CPU6502 where
  "CPU6502_init =
     \<lparr>A = 0, X = 0, Y = 0, PC = 0, SP = 0xFF,
      C = 0, Z = 0, I = 0, D = 0, B = 0, V = 0, N = 0,
      cycles = 0, total_cycles = 0, irq_pending = False, nmi_pending = False\<rparr>"

text \<open>
  A method that takes \<open>memory\<close> returns the processor and the bus it leaves, or the
  exception a bus access raised. A handler of the bus acts on the peripherals only, so
  a field of the processor read before a bus access has the same value after it.
\<close>

type_synonym 'd handler = "CPU6502 \<Rightarrow> 'd Memory \<Rightarrow> py_error + (CPU6502 \<times> 'd Memory)"

subsection \<open>Status byte and flags\<close>

definition get_status :: "CPU6502 \<Rightarrow> int" where
  "get_status cpu =
    (let status = ((((((C cpu OR (push_bit 1 (Z cpu))) OR (push_bit 2 (I cpu))) OR (push_bit 3 (D cpu))) OR (push_bit 5 1)) OR (push_bit 6 (V cpu))) OR (push_bit 7 (N cpu))) in
     status)"

definition set_status :: "CPU6502 \<Rightarrow> int \<Rightarrow> CPU6502" where
  "set_status cpu val =
    (let cpu = cpu\<lparr>C := (val AND 1)\<rparr> in
     let cpu = cpu\<lparr>Z := ((drop_bit 1 val) AND 1)\<rparr> in
     let cpu = cpu\<lparr>I := ((drop_bit 2 val) AND 1)\<rparr> in
     let cpu = cpu\<lparr>D := ((drop_bit 3 val) AND 1)\<rparr> in
     let cpu = cpu\<lparr>B := ((drop_bit 4 val) AND 1)\<rparr> in
     let cpu = cpu\<lparr>V := ((drop_bit 6 val) AND 1)\<rparr> in
     let cpu = cpu\<lparr>N := ((drop_bit 7 val) AND 1)\<rparr> in
     cpu)"

definition update_ZN :: "CPU6502 \<Rightarrow> int \<Rightarrow> CPU6502" where
  "update_ZN cpu val =
    (let cpu = cpu\<lparr>Z := (if (val AND 0xFF) = 0 then 1 else 0)\<rparr> in
     let cpu = cpu\<lparr>N := (if (val AND 0x80) \<noteq> 0 then 1 else 0)\<rparr> in
     cpu)"

subsection \<open>Addressing modes\<close>

definition immediate :: "CPU6502 \<Rightarrow> 'd Memory \<Rightarrow> py_error + (int \<times> CPU6502 \<times> 'd Memory)" where
  "immediate cpu mem =
    (bindE (Memory_read mem (PC cpu)) (\<lambda>(val, mem).
     let cpu = cpu\<lparr>PC := PC cpu + 1\<rparr> in
     Inr (val, cpu, mem)))"

definition zeropage :: "CPU6502 \<Rightarrow> 'd Memory \<Rightarrow> py_error + (int \<times> CPU6502 \<times> 'd Memory)" where
  "zeropage cpu mem =
    (bindE (Memory_read mem (PC cpu)) (\<lambda>(addr, mem).
     let cpu = cpu\<lparr>PC := PC cpu + 1\<rparr> in
     Inr (addr, cpu, mem)))"

definition zeropageX :: "CPU6502 \<Rightarrow> 'd Memory \<Rightarrow> py_error + (int \<times> CPU6502 \<times> 'd Memory)" where
  "zeropageX cpu mem =
    (bindE (Memory_read mem (PC cpu)) (\<lambda>(b1, mem).
     let addr = ((b1 + X cpu) AND 0xFF) in
     let cpu = cpu\<lparr>PC := PC cpu + 1\<rparr> in
     Inr (addr, cpu, mem)))"

definition zeropageY :: "CPU6502 \<Rightarrow> 'd Memory \<Rightarrow> py_error + (int \<times> CPU6502 \<times> 'd Memory)" where
  "zeropageY cpu mem =
    (bindE (Memory_read mem (PC cpu)) (\<lambda>(b1, mem).
     let addr = ((b1 + Y cpu) AND 0xFF) in
     let cpu = cpu\<lparr>PC := PC cpu + 1\<rparr> in
     Inr (addr, cpu, mem)))"

definition absolute :: "CPU6502 \<Rightarrow> 'd Memory \<Rightarrow> py_error + (int \<times> CPU6502 \<times> 'd Memory)" where
  "absolute cpu mem =
    (bindE (Memory_read mem (PC cpu)) (\<lambda>(low, mem).
     let cpu = cpu\<lparr>PC := PC cpu + 1\<rparr> in
     bindE (Memory_read mem (PC cpu)) (\<lambda>(high, mem).
     let cpu = cpu\<lparr>PC := PC cpu + 1\<rparr> in
     Inr (((push_bit 8 high) OR low), cpu, mem))))"

definition absoluteX :: "CPU6502 \<Rightarrow> 'd Memory \<Rightarrow> bool \<Rightarrow> py_error + ((int \<times> bool) \<times> CPU6502 \<times> 'd Memory)" where
  "absoluteX cpu mem check_page_cross =
    (bindE (Memory_read mem (PC cpu)) (\<lambda>(low, mem).
     let cpu = cpu\<lparr>PC := PC cpu + 1\<rparr> in
     bindE (Memory_read mem (PC cpu)) (\<lambda>(high, mem).
     let cpu = cpu\<lparr>PC := PC cpu + 1\<rparr> in
     let base = ((push_bit 8 high) OR low) in
     let addr = ((base + X cpu) AND 0xFFFF) in
     let page_crossed = False in
     let page_crossed =
       (if check_page_cross then (base AND 0xFF00) \<noteq> (addr AND 0xFF00) else page_crossed) in
     Inr ((addr, page_crossed), cpu, mem))))"

definition absoluteY :: "CPU6502 \<Rightarrow> 'd Memory \<Rightarrow> bool \<Rightarrow> py_error + ((int \<times> bool) \<times> CPU6502 \<times> 'd Memory)" where
  "absoluteY cpu mem check_page_cross =
    (bindE (Memory_read mem (PC cpu)) (\<lambda>(low, mem).
     let cpu = cpu\<lparr>PC := PC cpu + 1\<rparr> in
     bindE (Memory_read mem (PC cpu)) (\<lambda>(high, mem).
     let cpu = cpu\<lparr>PC := PC cpu + 1\<rparr> in
     let base = ((push_bit 8 high) OR low) in
     let addr = ((base + Y cpu) AND 0xFFFF) in
     let page_crossed = False in
     let page_crossed =
       (if check_page_cross then (base AND 0xFF00) \<noteq> (addr AND 0xFF00) else page_crossed) in
     Inr ((addr, page_crossed), cpu, mem))))"

definition indirect :: "CPU6502 \<Rightarrow> 'd Memory \<Rightarrow> py_error + (int \<times> CPU6502 \<times> 'd Memory)" where
  "indirect cpu mem =
    (bindE (absolute cpu mem) (\<lambda>(addr_ptr, cpu, mem).
     if (addr_ptr AND 0xFF) = 0xFF then
       bindE (Memory_read mem addr_ptr) (\<lambda>(low, mem).
       bindE (Memory_read mem (addr_ptr AND 0xFF00)) (\<lambda>(high, mem).
       Inr (((push_bit 8 high) OR low), cpu, mem)))
     else
       bindE (Memory_read mem addr_ptr) (\<lambda>(low, mem).
       bindE (Memory_read mem (addr_ptr + 1)) (\<lambda>(high, mem).
       Inr (((push_bit 8 high) OR low), cpu, mem)))))"

definition indirectX :: "CPU6502 \<Rightarrow> 'd Memory \<Rightarrow> py_error + (int \<times> CPU6502 \<times> 'd Memory)" where
  "indirectX cpu mem =
    (bindE (Memory_read mem (PC cpu)) (\<lambda>(b1, mem).
     let ptr = ((b1 + X cpu) AND 0xFF) in
     let cpu = cpu\<lparr>PC := PC cpu + 1\<rparr> in
     bindE (Memory_read mem (ptr AND 0xFF)) (\<lambda>(low, mem).
     bindE (Memory_read mem ((ptr + 1) AND 0xFF)) (\<lambda>(high, mem).
     Inr (((push_bit 8 high) OR low), cpu, mem)))))"

definition indirectY :: "CPU6502 \<Rightarrow> 'd Memory \<Rightarrow> bool \<Rightarrow> py_error + ((int \<times> bool) \<times> CPU6502 \<times> 'd Memory)" where
  "indirectY cpu mem check_page_cross =
    (bindE (Memory_read mem (PC cpu)) (\<lambda>(ptr, mem).
     let cpu = cpu\<lparr>PC := PC cpu + 1\<rparr> in
     bindE (Memory_read mem (ptr AND 0xFF)) (\<lambda>(low, mem).
     bindE (Memory_read mem ((ptr + 1) AND 0xFF)) (\<lambda>(high, mem).
     let base = ((push_bit 8 high) OR low) in
     let addr = ((base + Y cpu) AND 0xFFFF) in
     let page_crossed = False in
     let page_crossed =
       (if check_page_cross then (base AND 0xFF00) \<noteq> (addr AND 0xFF00) else page_crossed) in
     Inr ((addr, page_crossed), cpu, mem)))))"

subsection \<open>Arithmetic, comparison and branch logic\<close>

definition add_with_carry :: "CPU6502 \<Rightarrow> int \<Rightarrow> CPU6502" where
  "add_with_carry cpu val =
    (if D cpu \<noteq> 0 then
       let a_lo = (A cpu AND 0x0F) in
       let a_hi = (drop_bit 4 (A cpu)) in
       let val_lo = (val AND 0x0F) in
       let val_hi = (drop_bit 4 val) in
       let result_lo = a_lo + val_lo + C cpu in
       let (result_lo, carry_lo) =
         (if result_lo > 9 then (((result_lo + 6) AND 0x0F), 1) else (result_lo, 0)) in
       let result_hi = a_hi + val_hi + carry_lo in
       let (result_hi, cpu) =
         (if result_hi > 9 then (((result_hi + 6) AND 0x0F), cpu\<lparr>C := 1\<rparr>)
          else (result_hi, cpu\<lparr>C := 0\<rparr>)) in
       let result = ((push_bit 4 result_hi) OR result_lo) in
       let cpu = cpu\<lparr>Z := (if (result AND 0xFF) = 0 then 1 else 0)\<rparr> in
       let cpu = cpu\<lparr>N := (if (result AND 0x80) \<noteq> 0 then 1 else 0)\<rparr> in
       let cpu = cpu\<lparr>V := 0\<rparr> in
       cpu
     else
       let temp = A cpu + val + C cpu in
       let cpu = cpu\<lparr>C := (if temp > 0xFF then 1 else 0)\<rparr> in
       let cpu = cpu\<lparr>V := (if (((NOT (A cpu XOR val)) AND (A cpu XOR temp)) AND 0x80) \<noteq> 0
                            then 1 else 0)\<rparr> in
       let cpu = cpu\<lparr>A := (temp AND 0xFF)\<rparr> in
       let cpu = update_ZN cpu (A cpu) in
       cpu)"

definition subtract_with_carry :: "CPU6502 \<Rightarrow> int \<Rightarrow> CPU6502" where
  "subtract_with_carry cpu val =
    (if D cpu \<noteq> 0 then
       let a_lo = (A cpu AND 0x0F) in
       let a_hi = (drop_bit 4 (A cpu)) in
       let val_lo = (val AND 0x0F) in
       let val_hi = (drop_bit 4 val) in
       let borrow = 1 - C cpu in
       let result_lo = a_lo - val_lo - borrow in
       let (result_lo, borrow_lo) =
         (if result_lo < 0 then (result_lo + 10, 1) else (result_lo, 0)) in
       let result_hi = a_hi - val_hi - borrow_lo in
       let (result_hi, cpu) =
         (if result_hi < 0 then (result_hi + 10, cpu\<lparr>C := 0\<rparr>)
          else (result_hi, cpu\<lparr>C := 1\<rparr>)) in
       let result = ((push_bit 4 result_hi) OR result_lo) in
       let cpu = cpu\<lparr>Z := (if (result AND 0xFF) = 0 then 1 else 0)\<rparr> in
       let cpu = cpu\<lparr>N := (if (result AND 0x80) \<noteq> 0 then 1 else 0)\<rparr> in
       let cpu = cpu\<lparr>V := 0\<rparr> in
       cpu
     else
       add_with_carry cpu (val XOR 0xFF))"

definition compare :: "CPU6502 \<Rightarrow> int \<Rightarrow> int \<Rightarrow> CPU6502" where
  "compare cpu reg val =
    (let result = ((reg - val) AND 0xFF) in
     let cpu = cpu\<lparr>C := (if reg \<ge> val then 1 else 0)\<rparr> in
     let cpu = cpu\<lparr>Z := (if reg = val then 1 else 0)\<rparr> in
     let cpu = cpu\<lparr>N := (if (result AND 0x80) \<noteq> 0 then 1 else 0)\<rparr> in
     cpu)"

definition branch :: "CPU6502 \<Rightarrow> 'd Memory \<Rightarrow> bool \<Rightarrow> py_error + (CPU6502 \<times> 'd Memory)" where
  "branch cpu mem condition =
    (bindE (immediate cpu mem) (\<lambda>(offset, cpu, mem).
     let cpu =
       (if condition then
          let offset = (if (offset AND 0x80) \<noteq> 0 then (- (256 - offset)) else offset) in
          let old_pc = PC cpu in
          let cpu = cpu\<lparr>PC := ((PC cpu + offset) AND 0xFFFF)\<rparr> in
          let cpu = cpu\<lparr>cycles := cycles cpu + 1\<rparr> in
          (if (old_pc AND 0xFF00) \<noteq> (PC cpu AND 0xFF00)
           then cpu\<lparr>cycles := cycles cpu + 1\<rparr> else cpu)
        else cpu) in
     let cpu = cpu\<lparr>cycles := cycles cpu + 2\<rparr> in
     Inr (cpu, mem)))"

subsection \<open>Load and store\<close>

definition LDA_immediate :: "'d handler" where
  "LDA_immediate cpu mem =
    (bindE (immediate cpu mem) (\<lambda>(b1, cpu, mem).
     let cpu = cpu\<lparr>A := b1\<rparr> in
     let cpu = update_ZN cpu (A cpu) in
     let cpu = cpu\<lparr>cycles := cycles cpu + 2\<rparr> in
     Inr (cpu, mem)))"

definition LDA_zeropage :: "'d handler" where
  "LDA_zeropage cpu mem =
    (bindE (zeropage cpu mem) (\<lambda>(addr, cpu, mem).
     bindE (Memory_read mem addr) (\<lambda>(b1, mem).
     let cpu = cpu\<lparr>A := b1\<rparr> in
     let cpu = update_ZN cpu (A cpu) in
     let cpu = cpu\<lparr>cycles := cycles cpu + 3\<rparr> in
     Inr (cpu, mem))))"

definition LDA_zeropageX :: "'d handler" where
  "LDA_zeropageX cpu mem =
    (bindE (zeropageX cpu mem) (\<lambda>(addr, cpu, mem).
     bindE (Memory_read mem addr) (\<lambda>(b1, mem).
     let cpu = cpu\<lparr>A := b1\<rparr> in
     let cpu = update_ZN cpu (A cpu) in
     let cpu = cpu\<lparr>cycles := cycles cpu + 4\<rparr> in
     Inr (cpu, mem))))"

definition LDA_absolute :: "'d handler" where
  "LDA_absolute cpu mem =
    (bindE (absolute cpu mem) (\<lambda>(addr, cpu, mem).
     bindE (Memory_read mem addr) (\<lambda>(b1, mem).
     let cpu = cpu\<lparr>A := b1\<rparr> in
     let cpu = update_ZN cpu (A cpu) in
     let cpu = cpu\<lparr>cycles := cycles cpu + 4\<rparr> in
     Inr (cpu, mem))))"

definition LDA_absoluteX :: "'d handler" where
  "LDA_absoluteX cpu mem =
    (bindE (absoluteX cpu mem True) (\<lambda>((addr, page_crossed), cpu, mem).
     bindE (Memory_read mem addr) (\<lambda>(b1, mem).
     let cpu = cpu\<lparr>A := b1\<rparr> in
     let cpu = update_ZN cpu (A cpu) in
     let cpu = cpu\<lparr>cycles := cycles cpu + (4 + (if page_crossed then 1 else 0))\<rparr> in
     Inr (cpu, mem))))"

definition LDA_absoluteY :: "'d handler" where
  "LDA_absoluteY cpu mem =
    (bindE (absoluteY cpu mem True) (\<lambda>((addr, page_crossed), cpu, mem).
     bindE (Memory_read mem addr) (\<lambda>(b1, mem).
     let cpu = cpu\<lparr>A := b1\<rparr> in
     let cpu = update_ZN cpu (A cpu) in
     let cpu = cpu\<lparr>cycles := cycles cpu + (4 + (if page_crossed then 1 else 0))\<rparr> in
     Inr (cpu, mem))))"

definition LDA_indirectX :: "'d handler" where
  "LDA_indirectX cpu mem =
    (bindE (indirectX cpu mem) (\<lambda>(addr, cpu, mem).
     bindE (Memory_read mem addr) (\<lambda>(b1, mem).
     let cpu = cpu\<lparr>A := b1\<rparr> in
     let cpu = update_ZN cpu (A cpu) in
     let cpu = cpu\<lparr>cycles := cycles cpu + 6\<rparr> in
     Inr (cpu, mem))))"

definition LDA_indirectY :: "'d handler" where
  "LDA_indirectY cpu mem =
    (bindE (indirectY cpu mem True) (\<lambda>((addr, page_crossed), cpu, mem).
     bindE (Memory_read mem addr) (\<lambda>(b1, mem).
     let cpu = cpu\<lparr>A := b1\<rparr> in
     let cpu = update_ZN cpu (A cpu) in
     let cpu = cpu\<lparr>cycles := cycles cpu + (5 + (if page_crossed then 1 else 0))\<rparr> in
     Inr (cpu, mem))))"

definition LDX_immediate :: "'d handler" where
  "LDX_immediate cpu mem =
    (bindE (immediate cpu mem) (\<lambda>(b1, cpu, mem).
     let cpu = cpu\<lparr>X := b1\<rparr> in
     let cpu = update_ZN cpu (X cpu) in
     let cpu = cpu\<lparr>cycles := cycles cpu + 2\<rparr> in
     Inr (cpu, mem)))"

definition LDX_zeropage :: "'d handler" where
  "LDX_zeropage cpu mem =
    (bindE (zeropage cpu mem) (\<lambda>(addr, cpu, mem).
     bindE (Memory_read mem addr) (\<lambda>(b1, mem).
     let cpu = cpu\<lparr>X := b1\<rparr> in
     let cpu = update_ZN cpu (X cpu) in
     let cpu = cpu\<lparr>cycles := cycles cpu + 3\<rparr> in
     Inr (cpu, mem))))"

definition LDX_zeropageY :: "'d handler" where
  "LDX_zeropageY cpu mem =
    (bindE (zeropageY cpu mem) (\<lambda>(addr, cpu, mem).
     bindE (Memory_read mem addr) (\<lambda>(b1, mem).
     let cpu = cpu\<lparr>X := b1\<rparr> in
     let cpu = update_ZN cpu (X cpu) in
     let cpu = cpu\<lparr>cycles := cycles cpu + 4\<rparr> in
     Inr (cpu, mem))))"

definition LDX_absolute :: "'d handler" where
  "LDX_absolute cpu mem =
    (bindE (absolute cpu mem) (\<lambda>(addr, cpu, mem).
     bindE (Memory_read mem addr) (\<lambda>(b1, mem).
     let cpu = cpu\<lparr>X := b1\<rparr> in
     let cpu = update_ZN cpu (X cpu) in
     let cpu = cpu\<lparr>cycles := cycles cpu + 4\<rparr> in
     Inr (cpu, mem))))"

definition LDX_absoluteY :: "'d handler" where
  "LDX_absoluteY cpu mem =
    (bindE (absoluteY cpu mem True) (\<lambda>((addr, page_crossed), cpu, mem).
     bindE (Memory_read mem addr) (\<lambda>(b1, mem).
     let cpu = cpu\<lparr>X := b1\<rparr> in
     let cpu = update_ZN cpu (X cpu) in
     let cpu = cpu\<lparr>cycles := cycles cpu + (4 + (if page_crossed then 1 else 0))\<rparr> in
     Inr (cpu, mem))))"

definition LDY_immediate :: "'d handler" where
  "LDY_immediate cpu mem =
    (bindE (immediate cpu mem) (\<lambda>(b1, cpu, mem).
     let cpu = cpu\<lparr>Y := b1\<rparr> in
     let cpu = update_ZN cpu (Y cpu) in
     let cpu = cpu\<lparr>cycles := cycles cpu + 2\<rparr> in
     Inr (cpu, mem)))"

definition LDY_zeropage :: "'d handler" where
  "LDY_zeropage cpu mem =
    (bindE (zeropage cpu mem) (\<lambda>(addr, cpu, mem).
     bindE (Memory_read mem addr) (\<lambda>(b1, mem).
     let cpu = cpu\<lparr>Y := b1\<rparr> in
     let cpu = update_ZN cpu (Y cpu) in
     let cpu = cpu\<lparr>cycles := cycles cpu + 3\<rparr> in
     Inr (cpu, mem))))"

definition LDY_zeropageX :: "'d handler" where
  "LDY_zeropageX cpu mem =
    (bindE (zeropageX cpu mem) (\<lambda>(addr, cpu, mem).
     bindE (Memory_read mem addr) (\<lambda>(b1, mem).
     let cpu = cpu\<lparr>Y := b1\<rparr> in
     let cpu = update_ZN cpu (Y cpu) in
     let cpu = cpu\<lparr>cycles := cycles cpu + 4\<rparr> in
     Inr (cpu, mem))))"

definition LDY_absolute :: "'d handler" where
  "LDY_absolute cpu mem =
    (bindE (absolute cpu mem) (\<lambda>(addr, cpu, mem).
     bindE (Memory_read mem addr) (\<lambda>(b1, mem).
     let cpu = cpu\<lparr>Y := b1\<rparr> in
     let cpu = update_ZN cpu (Y cpu) in
     let cpu = cpu\<lparr>cycles := cycles cpu + 4\<rparr> in
     Inr (cpu, mem))))"

definition LDY_absoluteX :: "'d handler" where
  "LDY_absoluteX cpu mem =
    (bindE (absoluteX cpu mem True) (\<lambda>((addr, page_crossed), cpu, mem).
     bindE (Memory_read mem addr) (\<lambda>(b1, mem).
     let cpu = cpu\<lparr>Y := b1\<rparr> in
     let cpu = update_ZN cpu (Y cpu) in
     let cpu = cpu\<lparr>cycles := cycles cpu + (4 + (if page_crossed then 1 else 0))\<rparr> in
     Inr (cpu, mem))))"

definition STA_zeropage :: "'d handler" where
  "STA_zeropage cpu mem =
    (bindE (zeropage cpu mem) (\<lambda>(addr, cpu, mem).
     bindE (Memory_write mem addr (A cpu)) (\<lambda>mem.
     let cpu = cpu\<lparr>cycles := cycles cpu + 3\<rparr> in
     Inr (cpu, mem))))"

definition STA_zeropageX :: "'d handler" where
  "STA_zeropageX cpu mem =
    (bindE (zeropageX cpu mem) (\<lambda>(addr, cpu, mem).
     bindE (Memory_write mem addr (A cpu)) (\<lambda>mem.
     let cpu = cpu\<lparr>cycles := cycles cpu + 4\<rparr> in
     Inr (cpu, mem))))"

definition STA_absolute :: "'d handler" where
  "STA_absolute cpu mem =
    (bindE (absolute cpu mem) (\<lambda>(addr, cpu, mem).
     bindE (Memory_write mem addr (A cpu)) (\<lambda>mem.
     let cpu = cpu\<lparr>cycles := cycles cpu + 4\<rparr> in
     Inr (cpu, mem))))"

definition STA_absoluteX :: "'d handler" where
  "STA_absoluteX cpu mem =
    (bindE (absoluteX cpu mem False) (\<lambda>((addr, _), cpu, mem).
     bindE (Memory_write mem addr (A cpu)) (\<lambda>mem.
     let cpu = cpu\<lparr>cycles := cycles cpu + 5\<rparr> in
     Inr (cpu, mem))))"

definition STA_absoluteY :: "'d handler" where
  "STA_absoluteY cpu mem =
    (bindE (absoluteY cpu mem False) (\<lambda>((addr, _), cpu, mem).
     bindE (Memory_write mem addr (A cpu)) (\<lambda>mem.
     let cpu = cpu\<lparr>cycles := cycles cpu + 5\<rparr> in
     Inr (cpu, mem))))"

definition STA_indirectX :: "'d handler" where
  "STA_indirectX cpu mem =
    (bindE (indirectX cpu mem) (\<lambda>(addr, cpu, mem).
     bindE (Memory_write mem addr (A cpu)) (\<lambda>mem.
     let cpu = cpu\<lparr>cycles := cycles cpu + 6\<rparr> in
     Inr (cpu, mem))))"

definition STA_indirectY :: "'d handler" where
  "STA_indirectY cpu mem =
    (bindE (indirectY cpu mem False) (\<lambda>((addr, _), cpu, mem).
     bindE (Memory_write mem addr (A cpu)) (\<lambda>mem.
     let cpu = cpu\<lparr>cycles := cycles cpu + 6\<rparr> in
     Inr (cpu, mem))))"

definition STX_zeropage :: "'d handler" where
  "STX_zeropage cpu mem =
    (bindE (zeropage cpu mem) (\<lambda>(addr, cpu, mem).
     bindE (Memory_write mem addr (X cpu)) (\<lambda>mem.
     let cpu = cpu\<lparr>cycles := cycles cpu + 3\<rparr> in
     Inr (cpu, mem))))"

definition STX_zeropageY :: "'d handler" where
  "STX_zeropageY cpu mem =
    (bindE (zeropageY cpu mem) (\<lambda>(addr, cpu, mem).
     bindE (Memory_write mem addr (X cpu)) (\<lambda>mem.
     let cpu = cpu\<lparr>cycles := cycles cpu + 4\<rparr> in
     Inr (cpu, mem))))"

definition STX_absolute :: "'d handler" where
  "STX_absolute cpu mem =
    (bindE (absolute cpu mem) (\<lambda>(addr, cpu, mem).
     bindE (Memory_write mem addr (X cpu)) (\<lambda>mem.
     let cpu = cpu\<lparr>cycles := cycles cpu + 4\<rparr> in
     Inr (cpu, mem))))"

definition STY_zeropage :: "'d handler" where
  "STY_zeropage cpu mem =
    (bindE (zeropage cpu mem) (\<lambda>(addr, cpu, mem).
     bindE (Memory_write mem addr (Y cpu)) (\<lambda>mem.
     let cpu = cpu\<lparr>cycles := cycles cpu + 3\<rparr> in
     Inr (cpu, mem))))"

definition STY_zeropageX :: "'d handler" where
  "STY_zeropageX cpu mem =
    (bindE (zeropageX cpu mem) (\<lambda>(addr, cpu, mem).
     bindE (Memory_write mem addr (Y cpu)) (\<lambda>mem.
     let cpu = cpu\<lparr>cycles := cycles cpu + 4\<rparr> in
     Inr (cpu, mem))))"

definition STY_absolute :: "'d handler" where
  "STY_absolute cpu mem =
    (bindE (absolute cpu mem) (\<lambda>(addr, cpu, mem).
     bindE (Memory_write mem addr (Y cpu)) (\<lambda>mem.
     let cpu = cpu\<lparr>cycles := cycles cpu + 4\<rparr> in
     Inr (cpu, mem))))"

subsection \<open>Register transfers\<close>

definition TAX :: "'d handler" where
  "TAX cpu mem =
    (let cpu = cpu\<lparr>X := A cpu\<rparr> in
     let cpu = update_ZN cpu (X cpu) in
     let cpu = cpu\<lparr>cycles := cycles cpu + 2\<rparr> in
     Inr (cpu, mem))"

definition TXA :: "'d handler" where
  "TXA cpu mem =
    (let cpu = cpu\<lparr>A := X cpu\<rparr> in
     let cpu = update_ZN cpu (A cpu) in
     let cpu = cpu\<lparr>cycles := cycles cpu + 2\<rparr> in
     Inr (cpu, mem))"

definition TAY :: "'d handler" where
  "TAY cpu mem =
    (let cpu = cpu\<lparr>Y := A cpu\<rparr> in
     let cpu = update_ZN cpu (Y cpu) in
     let cpu = cpu\<lparr>cycles := cycles cpu + 2\<rparr> in
     Inr (cpu, mem))"

definition TYA :: "'d handler" where
  "TYA cpu mem =
    (let cpu = cpu\<lparr>A := Y cpu\<rparr> in
     let cpu = update_ZN cpu (A cpu) in
     let cpu = cpu\<lparr>cycles := cycles cpu + 2\<rparr> in
     Inr (cpu, mem))"

definition TSX :: "'d handler" where
  "TSX cpu mem =
    (let cpu = cpu\<lparr>X := SP cpu\<rparr> in
     let cpu = update_ZN cpu (X cpu) in
     let cpu = cpu\<lparr>cycles := cycles cpu + 2\<rparr> in
     Inr (cpu, mem))"

definition TXS :: "'d handler" where
  "TXS cpu mem =
    (let cpu = cpu\<lparr>SP := X cpu\<rparr> in
     let cpu = cpu\<lparr>cycles := cycles cpu + 2\<rparr> in
     Inr (cpu, mem))"

subsection \<open>Stack operations\<close>

definition PHA :: "'d handler" where
  "PHA cpu mem =
    (bindE (Memory_write mem (0x100 + SP cpu) (A cpu)) (\<lambda>mem.
     let cpu = cpu\<lparr>SP := ((SP cpu - 1) AND 0xFF)\<rparr> in
     let cpu = cpu\<lparr>cycles := cycles cpu + 3\<rparr> in
     Inr (cpu, mem)))"

definition PLA :: "'d handler" where
  "PLA cpu mem =
    (let cpu = cpu\<lparr>SP := ((SP cpu + 1) AND 0xFF)\<rparr> in
     bindE (Memory_read mem (0x100 + SP cpu)) (\<lambda>(b1, mem).
     let cpu = cpu\<lparr>A := b1\<rparr> in
     let cpu = update_ZN cpu (A cpu) in
     let cpu = cpu\<lparr>cycles := cycles cpu + 4\<rparr> in
     Inr (cpu, mem)))"

definition PHP :: "'d handler" where
  "PHP cpu mem =
    (let status = ((get_status cpu) OR 0x10) in
     bindE (Memory_write mem (0x100 + SP cpu) status) (\<lambda>mem.
     let cpu = cpu\<lparr>SP := ((SP cpu - 1) AND 0xFF)\<rparr> in
     let cpu = cpu\<lparr>cycles := cycles cpu + 3\<rparr> in
     Inr (cpu, mem)))"

definition PLP :: "'d handler" where
  "PLP cpu mem =
    (let cpu = cpu\<lparr>SP := ((SP cpu + 1) AND 0xFF)\<rparr> in
     bindE (Memory_read mem (0x100 + SP cpu)) (\<lambda>(status, mem).
     let cpu = set_status cpu status in
     let cpu = cpu\<lparr>cycles := cycles cpu + 4\<rparr> in
     Inr (cpu, mem)))"

subsection \<open>Logical operations\<close>

definition AND_immediate :: "'d handler" where
  "AND_immediate cpu mem =
    (bindE (immediate cpu mem) (\<lambda>(b1, cpu, mem).
     let cpu = cpu\<lparr>A := A cpu AND b1\<rparr> in
     let cpu = update_ZN cpu (A cpu) in
     let cpu = cpu\<lparr>cycles := cycles cpu + 2\<rparr> in
     Inr (cpu, mem)))"

definition AND_zeropage :: "'d handler" where
  "AND_zeropage cpu mem =
    (bindE (zeropage cpu mem) (\<lambda>(addr, cpu, mem).
     bindE (Memory_read mem addr) (\<lambda>(b1, mem).
     let cpu = cpu\<lparr>A := A cpu AND b1\<rparr> in
     let cpu = update_ZN cpu (A cpu) in
     let cpu = cpu\<lparr>cycles := cycles cpu + 3\<rparr> in
     Inr (cpu, mem))))"

definition AND_zeropageX :: "'d handler" where
  "AND_zeropageX cpu mem =
    (bindE (zeropageX cpu mem) (\<lambda>(addr, cpu, mem).
     bindE (Memory_read mem addr) (\<lambda>(b1, mem).
     let cpu = cpu\<lparr>A := A cpu AND b1\<rparr> in
     let cpu = update_ZN cpu (A cpu) in
     let cpu = cpu\<lparr>cycles := cycles cpu + 4\<rparr> in
     Inr (cpu, mem))))"

definition AND_absolute :: "'d handler" where
  "AND_absolute cpu mem =
    (bindE (absolute cpu mem) (\<lambda>(addr, cpu, mem).
     bindE (Memory_read mem addr) (\<lambda>(b1, mem).
     let cpu = cpu\<lparr>A := A cpu AND b1\<rparr> in
     let cpu = update_ZN cpu (A cpu) in
     let cpu = cpu\<lparr>cycles := cycles cpu + 4\<rparr> in
     Inr (cpu, mem))))"

definition AND_absoluteX :: "'d handler" where
  "AND_absoluteX cpu mem =
    (bindE (absoluteX cpu mem True) (\<lambda>((addr, page_crossed), cpu, mem).
     bindE (Memory_read mem addr) (\<lambda>(b1, mem).
     let cpu = cpu\<lparr>A := A cpu AND b1\<rparr> in
     let cpu = update_ZN cpu (A cpu) in
     let cpu = cpu\<lparr>cycles := cycles cpu + (4 + (if page_crossed then 1 else 0))\<rparr> in
     Inr (cpu, mem))))"

definition AND_absoluteY :: "'d handler" where
  "AND_absoluteY cpu mem =
    (bindE (absoluteY cpu mem True) (\<lambda>((addr, page_crossed), cpu, mem).
     bindE (Memory_read mem addr) (\<lambda>(b1, mem).
     let cpu = cpu\<lparr>A := A cpu AND b1\<rparr> in
     let cpu = update_ZN cpu (A cpu) in
     let cpu = cpu\<lparr>cycles := cycles cpu + (4 + (if page_crossed then 1 else 0))\<rparr> in
     Inr (cpu, mem))))"

definition AND_indirectX :: "'d handler" where
  "AND_indirectX cpu mem =
    (bindE (indirectX cpu mem) (\<lambda>(addr, cpu, mem).
     bindE (Memory_read mem addr) (\<lambda>(b1, mem).
     let cpu = cpu\<lparr>A := A cpu AND b1\<rparr> in
     let cpu = update_ZN cpu (A cpu) in
     let cpu = cpu\<lparr>cycles := cycles cpu + 6\<rparr> in
     Inr (cpu, mem))))"

definition AND_indirectY :: "'d handler" where
  "AND_indirectY cpu mem =
    (bindE (indirectY cpu mem True) (\<lambda>((addr, page_crossed), cpu, mem).
     bindE (Memory_read mem addr) (\<lambda>(b1, mem).
     let cpu = cpu\<lparr>A := A cpu AND b1\<rparr> in
     let cpu = update_ZN cpu (A cpu) in
     let cpu = cpu\<lparr>cycles := cycles cpu + (5 + (if page_crossed then 1 else 0))\<rparr> in
     Inr (cpu, mem))))"

definition ORA_immediate :: "'d handler" where
  "ORA_immediate cpu mem =
    (bindE (immediate cpu mem) (\<lambda>(b1, cpu, mem).
     let cpu = cpu\<lparr>A := A cpu OR b1\<rparr> in
     let cpu = update_ZN cpu (A cpu) in
     let cpu = cpu\<lparr>cycles := cycles cpu + 2\<rparr> in
     Inr (cpu, mem)))"

definition ORA_zeropage :: "'d handler" where
  "ORA_zeropage cpu mem =
    (bindE (zeropage cpu mem) (\<lambda>(addr, cpu, mem).
     bindE (Memory_read mem addr) (\<lambda>(b1, mem).
     let cpu = cpu\<lparr>A := A cpu OR b1\<rparr> in
     let cpu = update_ZN cpu (A cpu) in
     let cpu = cpu\<lparr>cycles := cycles cpu + 3\<rparr> in
     Inr (cpu, mem))))"

definition ORA_zeropageX :: "'d handler" where
  "ORA_zeropageX cpu mem =
    (bindE (zeropageX cpu mem) (\<lambda>(addr, cpu, mem).
     bindE (Memory_read mem addr) (\<lambda>(b1, mem).
     let cpu = cpu\<lparr>A := A cpu OR b1\<rparr> in
     let cpu = update_ZN cpu (A cpu) in
     let cpu = cpu\<lparr>cycles := cycles cpu + 4\<rparr> in
     Inr (cpu, mem))))"

definition ORA_absolute :: "'d handler" where
  "ORA_absolute cpu mem =
    (bindE (absolute cpu mem) (\<lambda>(addr, cpu, mem).
     bindE (Memory_read mem addr) (\<lambda>(b1, mem).
     let cpu = cpu\<lparr>A := A cpu OR b1\<rparr> in
     let cpu = update_ZN cpu (A cpu) in
     let cpu = cpu\<lparr>cycles := cycles cpu + 4\<rparr> in
     Inr (cpu, mem))))"

definition ORA_absoluteX :: "'d handler" where
  "ORA_absoluteX cpu mem =
    (bindE (absoluteX cpu mem True) (\<lambda>((addr, page_crossed), cpu, mem).
     bindE (Memory_read mem addr) (\<lambda>(b1, mem).
     let cpu = cpu\<lparr>A := A cpu OR b1\<rparr> in
     let cpu = update_ZN cpu (A cpu) in
     let cpu = cpu\<lparr>cycles := cycles cpu + (4 + (if page_crossed then 1 else 0))\<rparr> in
     Inr (cpu, mem))))"

definition ORA_absoluteY :: "'d handler" where
  "ORA_absoluteY cpu mem =
    (bindE (absoluteY cpu mem True) (\<lambda>((addr, page_crossed), cpu, mem).
     bindE (Memory_read mem addr) (\<lambda>(b1, mem).
     let cpu = cpu\<lparr>A := A cpu OR b1\<rparr> in
     let cpu = update_ZN cpu (A cpu) in
     let cpu = cpu\<lparr>cycles := cycles cpu + (4 + (if page_crossed then 1 else 0))\<rparr> in
     Inr (cpu, mem))))"

definition ORA_indirectX :: "'d handler" where
  "ORA_indirectX cpu mem =
    (bindE (indirectX cpu mem) (\<lambda>(addr, cpu, mem).
     bindE (Memory_read mem addr) (\<lambda>(b1, mem).
     let cpu = cpu\<lparr>A := A cpu OR b1\<rparr> in
     let cpu = update_ZN cpu (A cpu) in
     let cpu = cpu\<lparr>cycles := cycles cpu + 6\<rparr> in
     Inr (cpu, mem))))"

definition ORA_indirectY :: "'d handler" where
  "ORA_indirectY cpu mem =
    (bindE (indirectY cpu mem True) (\<lambda>((addr, page_crossed), cpu, mem).
     bindE (Memory_read mem addr) (\<lambda>(b1, mem).
     let cpu = cpu\<lparr>A := A cpu OR b1\<rparr> in
     let cpu = update_ZN cpu (A cpu) in
     let cpu = cpu\<lparr>cycles := cycles cpu + (5 + (if page_crossed then 1 else 0))\<rparr> in
     Inr (cpu, mem))))"

definition EOR_immediate :: "'d handler" where
  "EOR_immediate cpu mem =
    (bindE (immediate cpu mem) (\<lambda>(b1, cpu, mem).
     let cpu = cpu\<lparr>A := A cpu XOR b1\<rparr> in
     let cpu = update_ZN cpu (A cpu) in
     let cpu = cpu\<lparr>cycles := cycles cpu + 2\<rparr> in
     Inr (cpu, mem)))"

definition EOR_zeropage :: "'d handler" where
  "EOR_zeropage cpu mem =
    (bindE (zeropage cpu mem) (\<lambda>(addr, cpu, mem).
     bindE (Memory_read mem addr) (\<lambda>(b1, mem).
     let cpu = cpu\<lparr>A := A cpu XOR b1\<rparr> in
     let cpu = update_ZN cpu (A cpu) in
     let cpu = cpu\<lparr>cycles := cycles cpu + 3\<rparr> in
     Inr (cpu, mem))))"

definition EOR_zeropageX :: "'d handler" where
  "EOR_zeropageX cpu mem =
    (bindE (zeropageX cpu mem) (\<lambda>(addr, cpu, mem).
     bindE (Memory_read mem addr) (\<lambda>(b1, mem).
     let cpu = cpu\<lparr>A := A cpu XOR b1\<rparr> in
     let cpu = update_ZN cpu (A cpu) in
     let cpu = cpu\<lparr>cycles := cycles cpu + 4\<rparr> in
     Inr (cpu, mem))))"

definition EOR_absolute :: "'d handler" where
  "EOR_absolute cpu mem =
    (bindE (absolute cpu mem) (\<lambda>(addr, cpu, mem).
     bindE (Memory_read mem addr) (\<lambda>(b1, mem).
     let cpu = cpu\<lparr>A := A cpu XOR b1\<rparr> in
     let cpu = update_ZN cpu (A cpu) in
     let cpu = cpu\<lparr>cycles := cycles cpu + 4\<rparr> in
     Inr (cpu, mem))))"

definition EOR_absoluteX :: "'d handler" where
  "EOR_absoluteX cpu mem =
    (bindE (absoluteX cpu mem True) (\<lambda>((addr, page_crossed), cpu, mem).
     bindE (Memory_read mem addr) (\<lambda>(b1, mem).
     let cpu = cpu\<lparr>A := A cpu XOR b1\<rparr> in
     let cpu = update_ZN cpu (A cpu) in
     let cpu = cpu\<lparr>cycles := cycles cpu + (4 + (if page_crossed then 1 else 0))\<rparr> in
     Inr (cpu, mem))))"

definition EOR_absoluteY :: "'d handler" where
  "EOR_absoluteY cpu mem =
    (bindE (absoluteY cpu mem True) (\<lambda>((addr, page_crossed), cpu, mem).
     bindE (Memory_read mem addr) (\<lambda>(b1, mem).
     let cpu = cpu\<lparr>A := A cpu XOR b1\<rparr> in
     let cpu = update_ZN cpu (A cpu) in
     let cpu = cpu\<lparr>cycles := cycles cpu + (4 + (if page_crossed then 1 else 0))\<rparr> in
     Inr (cpu, mem))))"

definition EOR_indirectX :: "'d handler" where
  "EOR_indirectX cpu mem =
    (bindE (indirectX cpu mem) (\<lambda>(addr, cpu, mem).
     bindE (Memory_read mem addr) (\<lambda>(b1, mem).
     let cpu = cpu\<lparr>A := A cpu XOR b1\<rparr> in
     let cpu = update_ZN cpu (A cpu) in
     let cpu = cpu\<lparr>cycles := cycles cpu + 6\<rparr> in
     Inr (cpu, mem))))"

definition EOR_indirectY :: "'d handler" where
  "EOR_indirectY cpu mem =
    (bindE (indirectY cpu mem True) (\<lambda>((addr, page_crossed), cpu, mem).
     bindE (Memory_read mem addr) (\<lambda>(b1, mem).
     let cpu = cpu\<lparr>A := A cpu XOR b1\<rparr> in
     let cpu = update_ZN cpu (A cpu) in
     let cpu = cpu\<lparr>cycles := cycles cpu + (5 + (if page_crossed then 1 else 0))\<rparr> in
     Inr (cpu, mem))))"

definition BIT_zeropage :: "'d handler" where
  "BIT_zeropage cpu mem =
    (bindE (zeropage cpu mem) (\<lambda>(addr, cpu, mem).
     bindE (Memory_read mem addr) (\<lambda>(val, mem).
     let cpu = cpu\<lparr>Z := (if (A cpu AND val) = 0 then 1 else 0)\<rparr> in
     let cpu = cpu\<lparr>V := ((drop_bit 6 val) AND 1)\<rparr> in
     let cpu = cpu\<lparr>N := ((drop_bit 7 val) AND 1)\<rparr> in
     let cpu = cpu\<lparr>cycles := cycles cpu + 3\<rparr> in
     Inr (cpu, mem))))"

definition BIT_absolute :: "'d handler" where
  "BIT_absolute cpu mem =
    (bindE (absolute cpu mem) (\<lambda>(addr, cpu, mem).
     bindE (Memory_read mem addr) (\<lambda>(val, mem).
     let cpu = cpu\<lparr>Z := (if (A cpu AND val) = 0 then 1 else 0)\<rparr> in
     let cpu = cpu\<lparr>V := ((drop_bit 6 val) AND 1)\<rparr> in
     let cpu = cpu\<lparr>N := ((drop_bit 7 val) AND 1)\<rparr> in
     let cpu = cpu\<lparr>cycles := cycles cpu + 4\<rparr> in
     Inr (cpu, mem))))"

subsection \<open>Arithmetic\<close>

definition ADC_immediate :: "'d handler" where
  "ADC_immediate cpu mem =
    (bindE (immediate cpu mem) (\<lambda>(val, cpu, mem).
     let cpu = add_with_carry cpu val in
     let cpu = cpu\<lparr>cycles := cycles cpu + 2\<rparr> in
     Inr (cpu, mem)))"

definition ADC_zeropage :: "'d handler" where
  "ADC_zeropage cpu mem =
    (bindE (zeropage cpu mem) (\<lambda>(addr, cpu, mem).
     bindE (Memory_read mem addr) (\<lambda>(val, mem).
     let cpu = add_with_carry cpu val in
     let cpu = cpu\<lparr>cycles := cycles cpu + 3\<rparr> in
     Inr (cpu, mem))))"

definition ADC_zeropageX :: "'d handler" where
  "ADC_zeropageX cpu mem =
    (bindE (zeropageX cpu mem) (\<lambda>(addr, cpu, mem).
     bindE (Memory_read mem addr) (\<lambda>(val, mem).
     let cpu = add_with_carry cpu val in
     let cpu = cpu\<lparr>cycles := cycles cpu + 4\<rparr> in
     Inr (cpu, mem))))"

definition ADC_absolute :: "'d handler" where
  "ADC_absolute cpu mem =
    (bindE (absolute cpu mem) (\<lambda>(addr, cpu, mem).
     bindE (Memory_read mem addr) (\<lambda>(val, mem).
     let cpu = add_with_carry cpu val in
     let cpu = cpu\<lparr>cycles := cycles cpu + 4\<rparr> in
     Inr (cpu, mem))))"

definition ADC_absoluteX :: "'d handler" where
  "ADC_absoluteX cpu mem =
    (bindE (absoluteX cpu mem True) (\<lambda>((addr, page_crossed), cpu, mem).
     bindE (Memory_read mem addr) (\<lambda>(val, mem).
     let cpu = add_with_carry cpu val in
     let cpu = cpu\<lparr>cycles := cycles cpu + (4 + (if page_crossed then 1 else 0))\<rparr> in
     Inr (cpu, mem))))"

definition ADC_absoluteY :: "'d handler" where
  "ADC_absoluteY cpu mem =
    (bindE (absoluteY cpu mem True) (\<lambda>((addr, page_crossed), cpu, mem).
     bindE (Memory_read mem addr) (\<lambda>(val, mem).
     let cpu = add_with_carry cpu val in
     let cpu = cpu\<lparr>cycles := cycles cpu + (4 + (if page_crossed then 1 else 0))\<rparr> in
     Inr (cpu, mem))))"

definition ADC_indirectX :: "'d handler" where
  "ADC_indirectX cpu mem =
    (bindE (indirectX cpu mem) (\<lambda>(addr, cpu, mem).
     bindE (Memory_read mem addr) (\<lambda>(val, mem).
     let cpu = add_with_carry cpu val in
     let cpu = cpu\<lparr>cycles := cycles cpu + 6\<rparr> in
     Inr (cpu, mem))))"

definition ADC_indirectY :: "'d handler" where
  "ADC_indirectY cpu mem =
    (bindE (indirectY cpu mem True) (\<lambda>((addr, page_crossed), cpu, mem).
     bindE (Memory_read mem addr) (\<lambda>(val, mem).
     let cpu = add_with_carry cpu val in
     let cpu = cpu\<lparr>cycles := cycles cpu + (5 + (if page_crossed then 1 else 0))\<rparr> in
     Inr (cpu, mem))))"

definition SBC_immediate :: "'d handler" where
  "SBC_immediate cpu mem =
    (bindE (immediate cpu mem) (\<lambda>(val, cpu, mem).
     let cpu = subtract_with_carry cpu val in
     let cpu = cpu\<lparr>cycles := cycles cpu + 2\<rparr> in
     Inr (cpu, mem)))"

definition SBC_zeropage :: "'d handler" where
  "SBC_zeropage cpu mem =
    (bindE (zeropage cpu mem) (\<lambda>(addr, cpu, mem).
     bindE (Memory_read mem addr) (\<lambda>(val, mem).
     let cpu = subtract_with_carry cpu val in
     let cpu = cpu\<lparr>cycles := cycles cpu + 3\<rparr> in
     Inr (cpu, mem))))"

definition SBC_zeropageX :: "'d handler" where
  "SBC_zeropageX cpu mem =
    (bindE (zeropageX cpu mem) (\<lambda>(addr, cpu, mem).
     bindE (Memory_read mem addr) (\<lambda>(val, mem).
     let cpu = subtract_with_carry cpu val in
     let cpu = cpu\<lparr>cycles := cycles cpu + 4\<rparr> in
     Inr (cpu, mem))))"

definition SBC_absolute :: "'d handler" where
  "SBC_absolute cpu mem =
    (bindE (absolute cpu mem) (\<lambda>(addr, cpu, mem).
     bindE (Memory_read mem addr) (\<lambda>(val, mem).
     let cpu = subtract_with_carry cpu val in
     let cpu = cpu\<lparr>cycles := cycles cpu + 4\<rparr> in
     Inr (cpu, mem))))"

definition SBC_absoluteX :: "'d handler" where
  "SBC_absoluteX cpu mem =
    (bindE (absoluteX cpu mem True) (\<lambda>((addr, page_crossed), cpu, mem).
     bindE (Memory_read mem addr) (\<lambda>(val, mem).
     let cpu = subtract_with_carry cpu val in
     let cpu = cpu\<lparr>cycles := cycles cpu + (4 + (if page_crossed then 1 else 0))\<rparr> in
     Inr (cpu, mem))))"

definition SBC_absoluteY :: "'d handler" where
  "SBC_absoluteY cpu mem =
    (bindE (absoluteY cpu mem True) (\<lambda>((addr, page_crossed), cpu, mem).
     bindE (Memory_read mem addr) (\<lambda>(val, mem).
     let cpu = subtract_with_carry cpu val in
     let cpu = cpu\<lparr>cycles := cycles cpu + (4 + (if page_crossed then 1 else 0))\<rparr> in
     Inr (cpu, mem))))"

definition SBC_indirectX :: "'d handler" where
  "SBC_indirectX cpu mem =
    (bindE (indirectX cpu mem) (\<lambda>(addr, cpu, mem).
     bindE (Memory_read mem addr) (\<lambda>(val, mem).
     let cpu = subtract_with_carry cpu val in
     let cpu = cpu\<lparr>cycles := cycles cpu + 6\<rparr> in
     Inr (cpu, mem))))"

definition SBC_indirectY :: "'d handler" where
  "SBC_indirectY cpu mem =
    (bindE (indirectY cpu mem True) (\<lambda>((addr, page_crossed), cpu, mem).
     bindE (Memory_read mem addr) (\<lambda>(val, mem).
     let cpu = subtract_with_carry cpu val in
     let cpu = cpu\<lparr>cycles := cycles cpu + (5 + (if page_crossed then 1 else 0))\<rparr> in
     Inr (cpu, mem))))"

definition CMP_immediate :: "'d handler" where
  "CMP_immediate cpu mem =
    (bindE (immediate cpu mem) (\<lambda>(val, cpu, mem).
     let cpu = compare cpu (A cpu) val in
     let cpu = cpu\<lparr>cycles := cycles cpu + 2\<rparr> in
     Inr (cpu, mem)))"

definition CMP_zeropage :: "'d handler" where
  "CMP_zeropage cpu mem =
    (bindE (zeropage cpu mem) (\<lambda>(addr, cpu, mem).
     bindE (Memory_read mem addr) (\<lambda>(val, mem).
     let cpu = compare cpu (A cpu) val in
     let cpu = cpu\<lparr>cycles := cycles cpu + 3\<rparr> in
     Inr (cpu, mem))))"

definition CMP_zeropageX :: "'d handler" where
  "CMP_zeropageX cpu mem =
    (bindE (zeropageX cpu mem) (\<lambda>(addr, cpu, mem).
     bindE (Memory_read mem addr) (\<lambda>(val, mem).
     let cpu = compare cpu (A cpu) val in
     let cpu = cpu\<lparr>cycles := cycles cpu + 4\<rparr> in
     Inr (cpu, mem))))"

definition CMP_absolute :: "'d handler" where
  "CMP_absolute cpu mem =
    (bindE (absolute cpu mem) (\<lambda>(addr, cpu, mem).
     bindE (Memory_read mem addr) (\<lambda>(val, mem).
     let cpu = compare cpu (A cpu) val in
     let cpu = cpu\<lparr>cycles := cycles cpu + 4\<rparr> in
     Inr (cpu, mem))))"

definition CMP_absoluteX :: "'d handler" where
  "CMP_absoluteX cpu mem =
    (bindE (absoluteX cpu mem True) (\<lambda>((addr, page_crossed), cpu, mem).
     bindE (Memory_read mem addr) (\<lambda>(val, mem).
     let cpu = compare cpu (A cpu) val in
     let cpu = cpu\<lparr>cycles := cycles cpu + (4 + (if page_crossed then 1 else 0))\<rparr> in
     Inr (cpu, mem))))"

definition CMP_absoluteY :: "'d handler" where
  "CMP_absoluteY cpu mem =
    (bindE (absoluteY cpu mem True) (\<lambda>((addr, page_crossed), cpu, mem).
     bindE (Memory_read mem addr) (\<lambda>(val, mem).
     let cpu = compare cpu (A cpu) val in
     let cpu = cpu\<lparr>cycles := cycles cpu + (4 + (if page_crossed then 1 else 0))\<rparr> in
     Inr (cpu, mem))))"

definition CMP_indirectX :: "'d handler" where
  "CMP_indirectX cpu mem =
    (bindE (indirectX cpu mem) (\<lambda>(addr, cpu, mem).
     bindE (Memory_read mem addr) (\<lambda>(val, mem).
     let cpu = compare cpu (A cpu) val in
     let cpu = cpu\<lparr>cycles := cycles cpu + 6\<rparr> in
     Inr (cpu, mem))))"

definition CMP_indirectY :: "'d handler" where
  "CMP_indirectY cpu mem =
    (bindE (indirectY cpu mem True) (\<lambda>((addr, page_crossed), cpu, mem).
     bindE (Memory_read mem addr) (\<lambda>(val, mem).
     let cpu = compare cpu (A cpu) val in
     let cpu = cpu\<lparr>cycles := cycles cpu + (5 + (if page_crossed then 1 else 0))\<rparr> in
     Inr (cpu, mem))))"

definition CPX_immediate :: "'d handler" where
  "CPX_immediate cpu mem =
    (bindE (immediate cpu mem) (\<lambda>(val, cpu, mem).
     let cpu = compare cpu (X cpu) val in
     let cpu = cpu\<lparr>cycles := cycles cpu + 2\<rparr> in
     Inr (cpu, mem)))"

definition CPX_zeropage :: "'d handler" where
  "CPX_zeropage cpu mem =
    (bindE (zeropage cpu mem) (\<lambda>(addr, cpu, mem).
     bindE (Memory_read mem addr) (\<lambda>(val, mem).
     let cpu = compare cpu (X cpu) val in
     let cpu = cpu\<lparr>cycles := cycles cpu + 3\<rparr> in
     Inr (cpu, mem))))"

definition CPX_absolute :: "'d handler" where
  "CPX_absolute cpu mem =
    (bindE (absolute cpu mem) (\<lambda>(addr, cpu, mem).
     bindE (Memory_read mem addr) (\<lambda>(val, mem).
     let cpu = compare cpu (X cpu) val in
     let cpu = cpu\<lparr>cycles := cycles cpu + 4\<rparr> in
     Inr (cpu, mem))))"

definition CPY_immediate :: "'d handler" where
  "CPY_immediate cpu mem =
    (bindE (immediate cpu mem) (\<lambda>(val, cpu, mem).
     let cpu = compare cpu (Y cpu) val in
     let cpu = cpu\<lparr>cycles := cycles cpu + 2\<rparr> in
     Inr (cpu, mem)))"

definition CPY_zeropage :: "'d handler" where
  "CPY_zeropage cpu mem =
    (bindE (zeropage cpu mem) (\<lambda>(addr, cpu, mem).
     bindE (Memory_read mem addr) (\<lambda>(val, mem).
     let cpu = compare cpu (Y cpu) val in
     let cpu = cpu\<lparr>cycles := cycles cpu + 3\<rparr> in
     Inr (cpu, mem))))"

definition CPY_absolute :: "'d handler" where
  "CPY_absolute cpu mem =
    (bindE (absolute cpu mem) (\<lambda>(addr, cpu, mem).
     bindE (Memory_read mem addr) (\<lambda>(val, mem).
     let cpu = compare cpu (Y cpu) val in
     let cpu = cpu\<lparr>cycles := cycles cpu + 4\<rparr> in
     Inr (cpu, mem))))"

subsection \<open>Increments and decrements\<close>

definition INC_zeropage :: "'d handler" where
  "INC_zeropage cpu mem =
    (bindE (zeropage cpu mem) (\<lambda>(addr, cpu, mem).
     bindE (Memory_read mem addr) (\<lambda>(b1, mem).
     let val = ((b1 + 1) AND 0xFF) in
     bindE (Memory_write mem addr val) (\<lambda>mem.
     let cpu = update_ZN cpu val in
     let cpu = cpu\<lparr>cycles := cycles cpu + 5\<rparr> in
     Inr (cpu, mem)))))"

definition INC_zeropageX :: "'d handler" where
  "INC_zeropageX cpu mem =
    (bindE (zeropageX cpu mem) (\<lambda>(addr, cpu, mem).
     bindE (Memory_read mem addr) (\<lambda>(b1, mem).
     let val = ((b1 + 1) AND 0xFF) in
     bindE (Memory_write mem addr val) (\<lambda>mem.
     let cpu = update_ZN cpu val in
     let cpu = cpu\<lparr>cycles := cycles cpu + 6\<rparr> in
     Inr (cpu, mem)))))"

definition INC_absolute :: "'d handler" where
  "INC_absolute cpu mem =
    (bindE (absolute cpu mem) (\<lambda>(addr, cpu, mem).
     bindE (Memory_read mem addr) (\<lambda>(b1, mem).
     let val = ((b1 + 1) AND 0xFF) in
     bindE (Memory_write mem addr val) (\<lambda>mem.
     let cpu = update_ZN cpu val in
     let cpu = cpu\<lparr>cycles := cycles cpu + 6\<rparr> in
     Inr (cpu, mem)))))"

definition INC_absoluteX :: "'d handler" where
  "INC_absoluteX cpu mem =
    (bindE (absoluteX cpu mem False) (\<lambda>((addr, _), cpu, mem).
     bindE (Memory_read mem addr) (\<lambda>(b1, mem).
     let val = ((b1 + 1) AND 0xFF) in
     bindE (Memory_write mem addr val) (\<lambda>mem.
     let cpu = update_ZN cpu val in
     let cpu = cpu\<lparr>cycles := cycles cpu + 7\<rparr> in
     Inr (cpu, mem)))))"

definition INX :: "'d handler" where
  "INX cpu mem =
    (let cpu = cpu\<lparr>X := ((X cpu + 1) AND 0xFF)\<rparr> in
     let cpu = update_ZN cpu (X cpu) in
     let cpu = cpu\<lparr>cycles := cycles cpu + 2\<rparr> in
     Inr (cpu, mem))"

definition INY :: "'d handler" where
  "INY cpu mem =
    (let cpu = cpu\<lparr>Y := ((Y cpu + 1) AND 0xFF)\<rparr> in
     let cpu = update_ZN cpu (Y cpu) in
     let cpu = cpu\<lparr>cycles := cycles cpu + 2\<rparr> in
     Inr (cpu, mem))"

definition DEC_zeropage :: "'d handler" where
  "DEC_zeropage cpu mem =
    (bindE (zeropage cpu mem) (\<lambda>(addr, cpu, mem).
     bindE (Memory_read mem addr) (\<lambda>(b1, mem).
     let val = ((b1 - 1) AND 0xFF) in
     bindE (Memory_write mem addr val) (\<lambda>mem.
     let cpu = update_ZN cpu val in
     let cpu = cpu\<lparr>cycles := cycles cpu + 5\<rparr> in
     Inr (cpu, mem)))))"

definition DEC_zeropageX :: "'d handler" where
  "DEC_zeropageX cpu mem =
    (bindE (zeropageX cpu mem) (\<lambda>(addr, cpu, mem).
     bindE (Memory_read mem addr) (\<lambda>(b1, mem).
     let val = ((b1 - 1) AND 0xFF) in
     bindE (Memory_write mem addr val) (\<lambda>mem.
     let cpu = update_ZN cpu val in
     let cpu = cpu\<lparr>cycles := cycles cpu + 6\<rparr> in
     Inr (cpu, mem)))))"

definition DEC_absolute :: "'d handler" where
  "DEC_absolute cpu mem =
    (bindE (absolute cpu mem) (\<lambda>(addr, cpu, mem).
     bindE (Memory_read mem addr) (\<lambda>(b1, mem).
     let val = ((b1 - 1) AND 0xFF) in
     bindE (Memory_write mem addr val) (\<lambda>mem.
     let cpu = update_ZN cpu val in
     let cpu = cpu\<lparr>cycles := cycles cpu + 6\<rparr> in
     Inr (cpu, mem)))))"

definition DEC_absoluteX :: "'d handler" where
  "DEC_absoluteX cpu mem =
    (bindE (absoluteX cpu mem False) (\<lambda>((addr, _), cpu, mem).
     bindE (Memory_read mem addr) (\<lambda>(b1, mem).
     let val = ((b1 - 1) AND 0xFF) in
     bindE (Memory_write mem addr val) (\<lambda>mem.
     let cpu = update_ZN cpu val in
     let cpu = cpu\<lparr>cycles := cycles cpu + 7\<rparr> in
     Inr (cpu, mem)))))"

definition DEX :: "'d handler" where
  "DEX cpu mem =
    (let cpu = cpu\<lparr>X := ((X cpu - 1) AND 0xFF)\<rparr> in
     let cpu = update_ZN cpu (X cpu) in
     let cpu = cpu\<lparr>cycles := cycles cpu + 2\<rparr> in
     Inr (cpu, mem))"

definition DEY :: "'d handler" where
  "DEY cpu mem =
    (let cpu = cpu\<lparr>Y := ((Y cpu - 1) AND 0xFF)\<rparr> in
     let cpu = update_ZN cpu (Y cpu) in
     let cpu = cpu\<lparr>cycles := cycles cpu + 2\<rparr> in
     Inr (cpu, mem))"

subsection \<open>Shifts and rotates\<close>

definition ASL_accumulator :: "'d handler" where
  "ASL_accumulator cpu mem =
    (let cpu = cpu\<lparr>C := ((drop_bit 7 (A cpu)) AND 1)\<rparr> in
     let cpu = cpu\<lparr>A := ((push_bit 1 (A cpu)) AND 0xFF)\<rparr> in
     let cpu = update_ZN cpu (A cpu) in
     let cpu = cpu\<lparr>cycles := cycles cpu + 2\<rparr> in
     Inr (cpu, mem))"

definition ASL_zeropage :: "'d handler" where
  "ASL_zeropage cpu mem =
    (bindE (zeropage cpu mem) (\<lambda>(addr, cpu, mem).
     bindE (Memory_read mem addr) (\<lambda>(val, mem).
     let cpu = cpu\<lparr>C := ((drop_bit 7 val) AND 1)\<rparr> in
     let val = ((push_bit 1 val) AND 0xFF) in
     bindE (Memory_write mem addr val) (\<lambda>mem.
     let cpu = update_ZN cpu val in
     let cpu = cpu\<lparr>cycles := cycles cpu + 5\<rparr> in
     Inr (cpu, mem)))))"

definition ASL_zeropageX :: "'d handler" where
  "ASL_zeropageX cpu mem =
    (bindE (zeropageX cpu mem) (\<lambda>(addr, cpu, mem).
     bindE (Memory_read mem addr) (\<lambda>(val, mem).
     let cpu = cpu\<lparr>C := ((drop_bit 7 val) AND 1)\<rparr> in
     let val = ((push_bit 1 val) AND 0xFF) in
     bindE (Memory_write mem addr val) (\<lambda>mem.
     let cpu = update_ZN cpu val in
     let cpu = cpu\<lparr>cycles := cycles cpu + 6\<rparr> in
     Inr (cpu, mem)))))"

definition ASL_absolute :: "'d handler" where
  "ASL_absolute cpu mem =
    (bindE (absolute cpu mem) (\<lambda>(addr, cpu, mem).
     bindE (Memory_read mem addr) (\<lambda>(val, mem).
     let cpu = cpu\<lparr>C := ((drop_bit 7 val) AND 1)\<rparr> in
     let val = ((push_bit 1 val) AND 0xFF) in
     bindE (Memory_write mem addr val) (\<lambda>mem.
     let cpu = update_ZN cpu val in
     let cpu = cpu\<lparr>cycles := cycles cpu + 6\<rparr> in
     Inr (cpu, mem)))))"

definition ASL_absoluteX :: "'d handler" where
  "ASL_absoluteX cpu mem =
    (bindE (absoluteX cpu mem False) (\<lambda>((addr, _), cpu, mem).
     bindE (Memory_read mem addr) (\<lambda>(val, mem).
     let cpu = cpu\<lparr>C := ((drop_bit 7 val) AND 1)\<rparr> in
     let val = ((push_bit 1 val) AND 0xFF) in
     bindE (Memory_write mem addr val) (\<lambda>mem.
     let cpu = update_ZN cpu val in
     let cpu = cpu\<lparr>cycles := cycles cpu + 7\<rparr> in
     Inr (cpu, mem)))))"

definition LSR_accumulator :: "'d handler" where
  "LSR_accumulator cpu mem =
    (let cpu = cpu\<lparr>C := (A cpu AND 1)\<rparr> in
     let cpu = cpu\<lparr>A := (drop_bit 1 (A cpu))\<rparr> in
     let cpu = update_ZN cpu (A cpu) in
     let cpu = cpu\<lparr>cycles := cycles cpu + 2\<rparr> in
     Inr (cpu, mem))"

definition LSR_zeropage :: "'d handler" where
  "LSR_zeropage cpu mem =
    (bindE (zeropage cpu mem) (\<lambda>(addr, cpu, mem).
     bindE (Memory_read mem addr) (\<lambda>(val, mem).
     let cpu = cpu\<lparr>C := (val AND 1)\<rparr> in
     let val = (drop_bit 1 val) in
     bindE (Memory_write mem addr val) (\<lambda>mem.
     let cpu = update_ZN cpu val in
     let cpu = cpu\<lparr>cycles := cycles cpu + 5\<rparr> in
     Inr (cpu, mem)))))"

definition LSR_zeropageX :: "'d handler" where
  "LSR_zeropageX cpu mem =
    (bindE (zeropageX cpu mem) (\<lambda>(addr, cpu, mem).
     bindE (Memory_read mem addr) (\<lambda>(val, mem).
     let cpu = cpu\<lparr>C := (val AND 1)\<rparr> in
     let val = (drop_bit 1 val) in
     bindE (Memory_write mem addr val) (\<lambda>mem.
     let cpu = update_ZN cpu val in
     let cpu = cpu\<lparr>cycles := cycles cpu + 6\<rparr> in
     Inr (cpu, mem)))))"

definition LSR_absolute :: "'d handler" where
  "LSR_absolute cpu mem =
    (bindE (absolute cpu mem) (\<lambda>(addr, cpu, mem).
     bindE (Memory_read mem addr) (\<lambda>(val, mem).
     let cpu = cpu\<lparr>C := (val AND 1)\<rparr> in
     let val = (drop_bit 1 val) in
     bindE (Memory_write mem addr val) (\<lambda>mem.
     let cpu = update_ZN cpu val in
     let cpu = cpu\<lparr>cycles := cycles cpu + 6\<rparr> in
     Inr (cpu, mem)))))"

definition LSR_absoluteX :: "'d handler" where
  "LSR_absoluteX cpu mem =
    (bindE (absoluteX cpu mem False) (\<lambda>((addr, _), cpu, mem).
     bindE (Memory_read mem addr) (\<lambda>(val, mem).
     let cpu = cpu\<lparr>C := (val AND 1)\<rparr> in
     let val = (drop_bit 1 val) in
     bindE (Memory_write mem addr val) (\<lambda>mem.
     let cpu = update_ZN cpu val in
     let cpu = cpu\<lparr>cycles := cycles cpu + 7\<rparr> in
     Inr (cpu, mem)))))"

definition ROL_accumulator :: "'d handler" where
  "ROL_accumulator cpu mem =
    (let old_carry = C cpu in
     let cpu = cpu\<lparr>C := ((drop_bit 7 (A cpu)) AND 1)\<rparr> in
     let cpu = cpu\<lparr>A := (((push_bit 1 (A cpu)) OR old_carry) AND 0xFF)\<rparr> in
     let cpu = update_ZN cpu (A cpu) in
     let cpu = cpu\<lparr>cycles := cycles cpu + 2\<rparr> in
     Inr (cpu, mem))"

definition ROL_zeropage :: "'d handler" where
  "ROL_zeropage cpu mem =
    (bindE (zeropage cpu mem) (\<lambda>(addr, cpu, mem).
     bindE (Memory_read mem addr) (\<lambda>(val, mem).
     let old_carry = C cpu in
     let cpu = cpu\<lparr>C := ((drop_bit 7 val) AND 1)\<rparr> in
     let val = (((push_bit 1 val) OR old_carry) AND 0xFF) in
     bindE (Memory_write mem addr val) (\<lambda>mem.
     let cpu = update_ZN cpu val in
     let cpu = cpu\<lparr>cycles := cycles cpu + 5\<rparr> in
     Inr (cpu, mem)))))"

definition ROL_zeropageX :: "'d handler" where
  "ROL_zeropageX cpu mem =
    (bindE (zeropageX cpu mem) (\<lambda>(addr, cpu, mem).
     bindE (Memory_read mem addr) (\<lambda>(val, mem).
     let old_carry = C cpu in
     let cpu = cpu\<lparr>C := ((drop_bit 7 val) AND 1)\<rparr> in
     let val = (((push_bit 1 val) OR old_carry) AND 0xFF) in
     bindE (Memory_write mem addr val) (\<lambda>mem.
     let cpu = update_ZN cpu val in
     let cpu = cpu\<lparr>cycles := cycles cpu + 6\<rparr> in
     Inr (cpu, mem)))))"

definition ROL_absolute :: "'d handler" where
  "ROL_absolute cpu mem =
    (bindE (absolute cpu mem) (\<lambda>(addr, cpu, mem).
     bindE (Memory_read mem addr) (\<lambda>(val, mem).
     let old_carry = C cpu in
     let cpu = cpu\<lparr>C := ((drop_bit 7 val) AND 1)\<rparr> in
     let val = (((push_bit 1 val) OR old_carry) AND 0xFF) in
     bindE (Memory_write mem addr val) (\<lambda>mem.
     let cpu = update_ZN cpu val in
     let cpu = cpu\<lparr>cycles := cycles cpu + 6\<rparr> in
     Inr (cpu, mem)))))"

definition ROL_absoluteX :: "'d handler" where
  "ROL_absoluteX cpu mem =
    (bindE (absoluteX cpu mem False) (\<lambda>((addr, _), cpu, mem).
     bindE (Memory_read mem addr) (\<lambda>(val, mem).
     let old_carry = C cpu in
     let cpu = cpu\<lparr>C := ((drop_bit 7 val) AND 1)\<rparr> in
     let val = (((push_bit 1 val) OR old_carry) AND 0xFF) in
     bindE (Memory_write mem addr val) (\<lambda>mem.
     let cpu = update_ZN cpu val in
     let cpu = cpu\<lparr>cycles := cycles cpu + 7\<rparr> in
     Inr (cpu, mem)))))"

definition ROR_accumulator :: "'d handler" where
  "ROR_accumulator cpu mem =
    (let old_carry = C cpu in
     let cpu = cpu\<lparr>C := (A cpu AND 1)\<rparr> in
     let cpu = cpu\<lparr>A := ((drop_bit 1 (A cpu)) OR (push_bit 7 old_carry))\<rparr> in
     let cpu = update_ZN cpu (A cpu) in
     let cpu = cpu\<lparr>cycles := cycles cpu + 2\<rparr> in
     Inr (cpu, mem))"

definition ROR_zeropage :: "'d handler" where
  "ROR_zeropage cpu mem =
    (bindE (zeropage cpu mem) (\<lambda>(addr, cpu, mem).
     bindE (Memory_read mem addr) (\<lambda>(val, mem).
     let old_carry = C cpu in
     let cpu = cpu\<lparr>C := (val AND 1)\<rparr> in
     let val = ((drop_bit 1 val) OR (push_bit 7 old_carry)) in
     bindE (Memory_write mem addr val) (\<lambda>mem.
     let cpu = update_ZN cpu val in
     let cpu = cpu\<lparr>cycles := cycles cpu + 5\<rparr> in
     Inr (cpu, mem)))))"

definition ROR_zeropageX :: "'d handler" where
  "ROR_zeropageX cpu mem =
    (bindE (zeropageX cpu mem) (\<lambda>(addr, cpu, mem).
     bindE (Memory_read mem addr) (\<lambda>(val, mem).
     let old_carry = C cpu in
     let cpu = cpu\<lparr>C := (val AND 1)\<rparr> in
     let val = ((drop_bit 1 val) OR (push_bit 7 old_carry)) in
     bindE (Memory_write mem addr val) (\<lambda>mem.
     let cpu = update_ZN cpu val in
     let cpu = cpu\<lparr>cycles := cycles cpu + 6\<rparr> in
     Inr (cpu, mem)))))"

definition ROR_absolute :: "'d handler" where
  "ROR_absolute cpu mem =
    (bindE (absolute cpu mem) (\<lambda>(addr, cpu, mem).
     bindE (Memory_read mem addr) (\<lambda>(val, mem).
     let old_carry = C cpu in
     let cpu = cpu\<lparr>C := (val AND 1)\<rparr> in
     let val = ((drop_bit 1 val) OR (push_bit 7 old_carry)) in
     bindE (Memory_write mem addr val) (\<lambda>mem.
     let cpu = update_ZN cpu val in
     let cpu = cpu\<lparr>cycles := cycles cpu + 6\<rparr> in
     Inr (cpu, mem)))))"

definition ROR_absoluteX :: "'d handler" where
  "ROR_absoluteX cpu mem =
    (bindE (absoluteX cpu mem False) (\<lambda>((addr, _), cpu, mem).
     bindE (Memory_read mem addr) (\<lambda>(val, mem).
     let old_carry = C cpu in
     let cpu = cpu\<lparr>C := (val AND 1)\<rparr> in
     let val = ((drop_bit 1 val) OR (push_bit 7 old_carry)) in
     bindE (Memory_write mem addr val) (\<lambda>mem.
     let cpu = update_ZN cpu val in
     let cpu = cpu\<lparr>cycles := cycles cpu + 7\<rparr> in
     Inr (cpu, mem)))))"

subsection \<open>Jumps and calls\<close>

definition JMP_absolute :: "'d handler" where
  "JMP_absolute cpu mem =
    (bindE (absolute cpu mem) (\<lambda>(b1, cpu, mem).
     let cpu = cpu\<lparr>PC := b1\<rparr> in
     let cpu = cpu\<lparr>cycles := cycles cpu + 3\<rparr> in
     Inr (cpu, mem)))"

definition JMP_indirect :: "'d handler" where
  "JMP_indirect cpu mem =
    (bindE (indirect cpu mem) (\<lambda>(b1, cpu, mem).
     let cpu = cpu\<lparr>PC := b1\<rparr> in
     let cpu = cpu\<lparr>cycles := cycles cpu + 5\<rparr> in
     Inr (cpu, mem)))"

definition JSR_absolute :: "'d handler" where
  "JSR_absolute cpu mem =
    (bindE (absolute cpu mem) (\<lambda>(addr, cpu, mem).
     let return_addr = (PC cpu - 1) in
     bindE (Memory_write mem (0x100 + SP cpu) ((drop_bit 8 return_addr) AND 0xFF)) (\<lambda>mem.
     let cpu = cpu\<lparr>SP := ((SP cpu - 1) AND 0xFF)\<rparr> in
     bindE (Memory_write mem (0x100 + SP cpu) (return_addr AND 0xFF)) (\<lambda>mem.
     let cpu = cpu\<lparr>SP := ((SP cpu - 1) AND 0xFF)\<rparr> in
     let cpu = cpu\<lparr>PC := addr\<rparr> in
     let cpu = cpu\<lparr>cycles := cycles cpu + 6\<rparr> in
     Inr (cpu, mem)))))"

definition RTS :: "'d handler" where
  "RTS cpu mem =
    (let cpu = cpu\<lparr>SP := ((SP cpu + 1) AND 0xFF)\<rparr> in
     bindE (Memory_read mem (0x100 + SP cpu)) (\<lambda>(low, mem).
     let cpu = cpu\<lparr>SP := ((SP cpu + 1) AND 0xFF)\<rparr> in
     bindE (Memory_read mem (0x100 + SP cpu)) (\<lambda>(high, mem).
     let cpu = cpu\<lparr>PC := (((push_bit 8 high) OR low) + 1)\<rparr> in
     let cpu = cpu\<lparr>cycles := cycles cpu + 6\<rparr> in
     Inr (cpu, mem))))"

subsection \<open>Branches\<close>

definition BCC :: "'d handler" where
  "BCC cpu mem =
    (branch cpu mem (C cpu = 0))"

definition BCS :: "'d handler" where
  "BCS cpu mem =
    (branch cpu mem (C cpu = 1))"

definition BEQ :: "'d handler" where
  "BEQ cpu mem =
    (branch cpu mem (Z cpu = 1))"

definition BMI :: "'d handler" where
  "BMI cpu mem =
    (branch cpu mem (N cpu = 1))"

definition BNE :: "'d handler" where
  "BNE cpu mem =
    (branch cpu mem (Z cpu = 0))"

definition BPL :: "'d handler" where
  "BPL cpu mem =
    (branch cpu mem (N cpu = 0))"

definition BVC :: "'d handler" where
  "BVC cpu mem =
    (branch cpu mem (V cpu = 0))"

definition BVS :: "'d handler" where
  "BVS cpu mem =
    (branch cpu mem (V cpu = 1))"

subsection \<open>Status flag changes\<close>

definition CLC :: "'d handler" where
  "CLC cpu mem =
    (let cpu = cpu\<lparr>C := 0\<rparr> in
     let cpu = cpu\<lparr>cycles := cycles cpu + 2\<rparr> in
     Inr (cpu, mem))"

definition SEC :: "'d handler" where
  "SEC cpu mem =
    (let cpu = cpu\<lparr>C := 1\<rparr> in
     let cpu = cpu\<lparr>cycles := cycles cpu + 2\<rparr> in
     Inr (cpu, mem))"

definition CLI :: "'d handler" where
  "CLI cpu mem =
    (let cpu = cpu\<lparr>I := 0\<rparr> in
     let cpu = cpu\<lparr>cycles := cycles cpu + 2\<rparr> in
     Inr (cpu, mem))"

definition SEI :: "'d handler" where
  "SEI cpu mem =
    (let cpu = cpu\<lparr>I := 1\<rparr> in
     let cpu = cpu\<lparr>cycles := cycles cpu + 2\<rparr> in
     Inr (cpu, mem))"

definition CLV :: "'d handler" where
  "CLV cpu mem =
    (let cpu = cpu\<lparr>V := 0\<rparr> in
     let cpu = cpu\<lparr>cycles := cycles cpu + 2\<rparr> in
     Inr (cpu, mem))"

definition CLD :: "'d handler" where
  "CLD cpu mem =
    (let cpu = cpu\<lparr>D := 0\<rparr> in
     let cpu = cpu\<lparr>cycles := cycles cpu + 2\<rparr> in
     Inr (cpu, mem))"

definition SED :: "'d handler" where
  "SED cpu mem =
    (let cpu = cpu\<lparr>D := 1\<rparr> in
     let cpu = cpu\<lparr>cycles := cycles cpu + 2\<rparr> in
     Inr (cpu, mem))"

subsection \<open>System functions\<close>

definition BRK :: "'d handler" where
  "BRK cpu mem =
    (bindE (Memory_write mem (0x100 + SP cpu) ((drop_bit 8 (PC cpu + 1)) AND 0xFF)) (\<lambda>mem.
     let cpu = cpu\<lparr>SP := ((SP cpu - 1) AND 0xFF)\<rparr> in
     bindE (Memory_write mem (0x100 + SP cpu) ((PC cpu + 1) AND 0xFF)) (\<lambda>mem.
     let cpu = cpu\<lparr>SP := ((SP cpu - 1) AND 0xFF)\<rparr> in
     bindE (Memory_write mem (0x100 + SP cpu) ((get_status cpu) OR 0x10)) (\<lambda>mem.
     let cpu = cpu\<lparr>SP := ((SP cpu - 1) AND 0xFF)\<rparr> in
     let cpu = cpu\<lparr>I := 1\<rparr> in
     bindE (Memory_read mem 0xFFFE) (\<lambda>(b1, mem).
     bindE (Memory_read mem 0xFFFF) (\<lambda>(b2, mem).
     let cpu = cpu\<lparr>PC := (b1 OR (push_bit 8 b2))\<rparr> in
     let cpu = cpu\<lparr>cycles := cycles cpu + 7\<rparr> in
     Inr (cpu, mem)))))))"

definition RTI :: "'d handler" where
  "RTI cpu mem =
    (let cpu = cpu\<lparr>SP := ((SP cpu + 1) AND 0xFF)\<rparr> in
     bindE (Memory_read mem (0x100 + SP cpu)) (\<lambda>(b1, mem).
     let cpu = set_status cpu b1 in
     let cpu = cpu\<lparr>SP := ((SP cpu + 1) AND 0xFF)\<rparr> in
     bindE (Memory_read mem (0x100 + SP cpu)) (\<lambda>(low, mem).
     let cpu = cpu\<lparr>SP := ((SP cpu + 1) AND 0xFF)\<rparr> in
     bindE (Memory_read mem (0x100 + SP cpu)) (\<lambda>(high, mem).
     let cpu = cpu\<lparr>PC := ((push_bit 8 high) OR low)\<rparr> in
     let cpu = cpu\<lparr>cycles := cycles cpu + 6\<rparr> in
     Inr (cpu, mem)))))"

definition NOP :: "'d handler" where
  "NOP cpu mem =
    (let cpu = cpu\<lparr>cycles := cycles cpu + 2\<rparr> in
     Inr (cpu, mem))"

subsection \<open>Interrupt entry\<close>

definition handle_nmi :: "'d handler" where
  "handle_nmi cpu mem =
    (bindE (Memory_write mem (0x100 + SP cpu) ((drop_bit 8 (PC cpu)) AND 0xFF)) (\<lambda>mem.
     let cpu = cpu\<lparr>SP := ((SP cpu - 1) AND 0xFF)\<rparr> in
     bindE (Memory_write mem (0x100 + SP cpu) (PC cpu AND 0xFF)) (\<lambda>mem.
     let cpu = cpu\<lparr>SP := ((SP cpu - 1) AND 0xFF)\<rparr> in
     bindE (Memory_write mem (0x100 + SP cpu) ((get_status cpu) AND (NOT 0x10))) (\<lambda>mem.
     let cpu = cpu\<lparr>SP := ((SP cpu - 1) AND 0xFF)\<rparr> in
     let cpu = cpu\<lparr>I := 1\<rparr> in
     bindE (Memory_read mem 0xFFFA) (\<lambda>(b1, mem).
     bindE (Memory_read mem 0xFFFB) (\<lambda>(b2, mem).
     let cpu = cpu\<lparr>PC := (b1 OR (push_bit 8 b2))\<rparr> in
     let cpu = cpu\<lparr>cycles := cycles cpu + 7\<rparr> in
     let cpu = cpu\<lparr>nmi_pending := False\<rparr> in
     Inr (cpu, mem)))))))"

definition handle_irq :: "'d handler" where
  "handle_irq cpu mem =
    (bindE (Memory_write mem (0x100 + SP cpu) ((drop_bit 8 (PC cpu)) AND 0xFF)) (\<lambda>mem.
     let cpu = cpu\<lparr>SP := ((SP cpu - 1) AND 0xFF)\<rparr> in
     bindE (Memory_write mem (0x100 + SP cpu) (PC cpu AND 0xFF)) (\<lambda>mem.
     let cpu = cpu\<lparr>SP := ((SP cpu - 1) AND 0xFF)\<rparr> in
     bindE (Memory_write mem (0x100 + SP cpu) ((get_status cpu) AND (NOT 0x10))) (\<lambda>mem.
     let cpu = cpu\<lparr>SP := ((SP cpu - 1) AND 0xFF)\<rparr> in
     let cpu = cpu\<lparr>I := 1\<rparr> in
     bindE (Memory_read mem 0xFFFE) (\<lambda>(b1, mem).
     bindE (Memory_read mem 0xFFFF) (\<lambda>(b2, mem).
     let cpu = cpu\<lparr>PC := (b1 OR (push_bit 8 b2))\<rparr> in
     let cpu = cpu\<lparr>cycles := cycles cpu + 7\<rparr> in
     let cpu = cpu\<lparr>irq_pending := False\<rparr> in
     Inr (cpu, mem)))))))"

subsection \<open>Dispatch and the instruction step\<close>

text \<open>The dictionary built by \<open>_init_instruction_table\<close>; its keys are distinct.\<close>

definition instructions :: "int \<Rightarrow> 'd handler option" where
  "instructions = map_of [
     (0xA9, LDA_immediate),
     (0xA5, LDA_zeropage),
     (0xB5, LDA_zeropageX),
     (0xAD, LDA_absolute),
     (0xBD, LDA_absoluteX),
     (0xB9, LDA_absoluteY),
     (0xA1, LDA_indirectX),
     (0xB1, LDA_indirectY),
     (0xA2, LDX_immediate),
     (0xA6, LDX_zeropage),
     (0xB6, LDX_zeropageY),
     (0xAE, LDX_absolute),
     (0xBE, LDX_absoluteY),
     (0xA0, LDY_immediate),
     (0xA4, LDY_zeropage),
     (0xB4, LDY_zeropageX),
     (0xAC, LDY_absolute),
     (0xBC, LDY_absoluteX),
     (0x85, STA_zeropage),
     (0x95, STA_zeropageX),
     (0x8D, STA_absolute),
     (0x9D, STA_absoluteX),
     (0x99, STA_absoluteY),
     (0x81, STA_indirectX),
     (0x91, STA_indirectY),
     (0x86, STX_zeropage),
     (0x96, STX_zeropageY),
     (0x8E, STX_absolute),
     (0x84, STY_zeropage),
     (0x94, STY_zeropageX),
     (0x8C, STY_absolute),
     (0xAA, TAX),
     (0x8A, TXA),
     (0xA8, TAY),
     (0x98, TYA),
     (0xBA, TSX),
     (0x9A, TXS),
     (0x48, PHA),
     (0x68, PLA),
     (0x08, PHP),
     (0x28, PLP),
     (0x29, AND_immediate),
     (0x25, AND_zeropage),
     (0x35, AND_zeropageX),
     (0x2D, AND_absolute),
     (0x3D, AND_absoluteX),
     (0x39, AND_absoluteY),
     (0x21, AND_indirectX),
     (0x31, AND_indirectY),
     (0x09, ORA_immediate),
     (0x05, ORA_zeropage),
     (0x15, ORA_zeropageX),
     (0x0D, ORA_absolute),
     (0x1D, ORA_absoluteX),
     (0x19, ORA_absoluteY),
     (0x01, ORA_indirectX),
     (0x11, ORA_indirectY),
     (0x49, EOR_immediate),
     (0x45, EOR_zeropage),
     (0x55, EOR_zeropageX),
     (0x4D, EOR_absolute),
     (0x5D, EOR_absoluteX),
     (0x59, EOR_absoluteY),
     (0x41, EOR_indirectX),
     (0x51, EOR_indirectY),
     (0x24, BIT_zeropage),
     (0x2C, BIT_absolute),
     (0x69, ADC_immediate),
     (0x65, ADC_zeropage),
     (0x75, ADC_zeropageX),
     (0x6D, ADC_absolute),
     (0x7D, ADC_absoluteX),
     (0x79, ADC_absoluteY),
     (0x61, ADC_indirectX),
     (0x71, ADC_indirectY),
     (0xE9, SBC_immediate),
     (0xE5, SBC_zeropage),
     (0xF5, SBC_zeropageX),
     (0xED, SBC_absolute),
     (0xFD, SBC_absoluteX),
     (0xF9, SBC_absoluteY),
     (0xE1, SBC_indirectX),
     (0xF1, SBC_indirectY),
     (0xC9, CMP_immediate),
     (0xC5, CMP_zeropage),
     (0xD5, CMP_zeropageX),
     (0xCD, CMP_absolute),
     (0xDD, CMP_absoluteX),
     (0xD9, CMP_absoluteY),
     (0xC1, CMP_indirectX),
     (0xD1, CMP_indirectY),
     (0xE0, CPX_immediate),
     (0xE4, CPX_zeropage),
     (0xEC, CPX_absolute),
     (0xC0, CPY_immediate),
     (0xC4, CPY_zeropage),
     (0xCC, CPY_absolute),
     (0xE6, INC_zeropage),
     (0xF6, INC_zeropageX),
     (0xEE, INC_absolute),
     (0xFE, INC_absoluteX),
     (0xE8, INX),
     (0xC8, INY),
     (0xC6, DEC_zeropage),
     (0xD6, DEC_zeropageX),
     (0xCE, DEC_absolute),
     (0xDE, DEC_absoluteX),
     (0xCA, DEX),
     (0x88, DEY),
     (0x0A, ASL_accumulator),
     (0x06, ASL_zeropage),
     (0x16, ASL_zeropageX),
     (0x0E, ASL_absolute),
     (0x1E, ASL_absoluteX),
     (0x4A, LSR_accumulator),
     (0x46, LSR_zeropage),
     (0x56, LSR_zeropageX),
     (0x4E, LSR_absolute),
     (0x5E, LSR_absoluteX),
     (0x2A, ROL_accumulator),
     (0x26, ROL_zeropage),
     (0x36, ROL_zeropageX),
     (0x2E, ROL_absolute),
     (0x3E, ROL_absoluteX),
     (0x6A, ROR_accumulator),
     (0x66, ROR_zeropage),
     (0x76, ROR_zeropageX),
     (0x6E, ROR_absolute),
     (0x7E, ROR_absoluteX),
     (0x4C, JMP_absolute),
     (0x6C, JMP_indirect),
     (0x20, JSR_absolute),
     (0x60, RTS),
     (0x90, BCC),
     (0xB0, BCS),
     (0xF0, BEQ),
     (0x30, BMI),
     (0xD0, BNE),
     (0x10, BPL),
     (0x50, BVC),
     (0x70, BVS),
     (0x18, CLC),
     (0x38, SEC),
     (0x58, CLI),
     (0x78, SEI),
     (0xB8, CLV),
     (0xD8, CLD),
     (0xF8, SED),
     (0x00, BRK),
     (0x40, RTI),
     (0xEA, NOP)]"

text \<open>
  \<open>step\<close> returns the cycle counter of the instruction. The counter is set to zero after
  the interrupt entry and the opcode fetch, before the instruction runs.
\<close>

definition step :: "CPU6502 \<Rightarrow> 'd Memory \<Rightarrow> py_error + (int \<times> CPU6502 \<times> 'd Memory)" where
  "step cpu mem =
    (bindE (if nmi_pending cpu then handle_nmi cpu mem
            else if irq_pending cpu \<and> I cpu = 0 then handle_irq cpu mem
            else Inr (cpu, mem)) (\<lambda>(cpu, mem).
     bindE (Memory_read mem (PC cpu)) (\<lambda>(opcode, mem).
     let cpu = cpu\<lparr>PC := PC cpu + 1\<rparr> in
     let cpu = cpu\<lparr>cycles := 0\<rparr> in
     bindE (case instructions opcode of
              Some h \<Rightarrow> h cpu mem
            | None \<Rightarrow> Inr (cpu\<lparr>cycles := cycles cpu + 2\<rparr>, mem)) (\<lambda>(cpu, mem).
     let cpu = cpu\<lparr>total_cycles := total_cycles cpu + cycles cpu\<rparr> in
     Inr (cycles cpu, cpu, mem)))))"

definition trigger_nmi :: "CPU6502 \<Rightarrow> CPU6502" where
  "trigger_nmi cpu = cpu\<lparr>nmi_pending := True\<rparr>"

definition trigger_irq :: "CPU6502 \<Rightarrow> CPU6502" where
  "trigger_irq cpu = cpu\<lparr>irq_pending := True\<rparr>"

section \<open>The interface adapter: class VIA\<close>

text \<open>
  The four port callbacks are closures over the keyboard; as for the bus, the state they
  act on is passed in and returned (\<open>ext\<close>).
\<close>

record 'd VIA =
  registers :: "int list"
  port_a :: int
  port_b :: int
  ddr_a :: int
  ddr_b :: int
  timer1_counter :: int
  timer1_latch :: int
  timer2_counter :: int
  shift_register :: int
  irq_status :: int
  irq_enable :: int
  read_port_a :: "('d \<Rightarrow> int \<times> 'd) option"
  read_port_b :: "('d \<Rightarrow> int \<times> 'd) option"
  write_port_a :: "(int \<Rightarrow> 'd \<Rightarrow> 'd) option"
  write_port_b :: "(int \<Rightarrow> 'd \<Rightarrow> 'd) option"

definition VIA_init :: "'d VIA" where
  "VIA_init =
     \<lparr>registers = replicate 16 0, port_a = 0xFF, port_b = 0xFF, ddr_a = 0x00, ddr_b = 0x00,
      timer1_counter = 0, timer1_latch = 0, timer2_counter = 0, shift_register = 0,
      irq_status = 0, irq_enable = 0,
      read_port_a = None, read_port_b = None, write_port_a = None, write_port_b = None\<rparr>"

definition VIA_write :: "'d VIA \<Rightarrow> int \<Rightarrow> int \<Rightarrow> 'd \<Rightarrow> py_error + ('d VIA \<times> 'd)" where
  "VIA_write via addr value0 ext =
    (let reg = (addr AND 0x0F) in
     let val = (value0 AND 0xFF) in
     let (via, ext) =
       (if reg = 0x0 then
          (let via = via\<lparr>port_b := val\<rparr> in
           case write_port_b via of
             Some f \<Rightarrow> (let output_value = (val AND ddr_b via) in (via, f output_value ext))
           | None \<Rightarrow> (via, ext))
        else if reg = 0x1 then
          (let via = via\<lparr>port_a := val\<rparr> in
           case write_port_a via of
             Some f \<Rightarrow> (let output_value = (val AND ddr_a via) in (via, f output_value ext))
           | None \<Rightarrow> (via, ext))
        else if reg = 0x2 then (via\<lparr>ddr_b := val\<rparr>, ext)
        else if reg = 0x3 then (via\<lparr>ddr_a := val\<rparr>, ext)
        else if reg = 0x4 then
          (via\<lparr>timer1_latch := ((timer1_latch via AND 0xFF00) OR val)\<rparr>, ext)
        else if reg = 0x5 then
          (let via = via\<lparr>timer1_latch := ((push_bit 8 val) OR (timer1_latch via AND 0xFF))\<rparr> in
           let via = via\<lparr>timer1_counter := timer1_latch via\<rparr> in
           let via = via\<lparr>irq_status := irq_status via AND (NOT 0x40)\<rparr> in
           (via, ext))
        else if reg = 0x6 then
          (via\<lparr>timer1_latch := ((timer1_latch via AND 0xFF00) OR val)\<rparr>, ext)
        else if reg = 0x7 then
          (via\<lparr>timer1_latch := ((push_bit 8 val) OR (timer1_latch via AND 0xFF))\<rparr>, ext)
        else if reg = 0x8 then
          (via\<lparr>timer2_counter := ((timer2_counter via AND 0xFF00) OR val)\<rparr>, ext)
        else if reg = 0x9 then
          (let via = via\<lparr>timer2_counter := ((push_bit 8 val) OR (timer2_counter via AND 0xFF))\<rparr> in
           let via = via\<lparr>irq_status := irq_status via AND (NOT 0x20)\<rparr> in
           (via, ext))
        else if reg = 0xA then (via\<lparr>shift_register := val\<rparr>, ext)
        else if reg = 0xD then (via\<lparr>irq_status := irq_status via AND (NOT val)\<rparr>, ext)
        else if reg = 0xE then
          (if (val AND 0x80) \<noteq> 0
           then (via\<lparr>irq_enable := irq_enable via OR (val AND 0x7F)\<rparr>, ext)
           else (via\<lparr>irq_enable := irq_enable via AND (NOT (val AND 0x7F))\<rparr>, ext))
        else (via, ext)) in
     bindE (setitem (registers via) reg val) (\<lambda>r. Inr (via\<lparr>registers := r\<rparr>, ext)))"

text \<open>\<open>update_timers(cycles)\<close> returns \<open>irq_triggered\<close> and leaves the adapter changed.\<close>

definition update_timers :: "'d VIA \<Rightarrow> int \<Rightarrow> bool \<times> 'd VIA" where
  "update_timers via c =
    (let irq_triggered = False in
     let (via, irq_triggered) =
       (if timer1_counter via > 0 then
          (if timer1_counter via \<le> c then
             let via = via\<lparr>timer1_counter := timer1_latch via\<rparr> in
             let via = via\<lparr>irq_status := irq_status via OR 0x40\<rparr> in
             (via, (if (irq_enable via AND 0x40) \<noteq> 0 then True else irq_triggered))
           else (via\<lparr>timer1_counter := timer1_counter via - c\<rparr>, irq_triggered))
        else (via, irq_triggered)) in
     let (via, irq_triggered) =
       (if timer2_counter via > 0 then
          (if timer2_counter via \<le> c then
             let via = via\<lparr>timer2_counter := 0\<rparr> in
             let via = via\<lparr>irq_status := irq_status via OR 0x20\<rparr> in
             (via, (if (irq_enable via AND 0x20) \<noteq> 0 then True else irq_triggered))
           else (via\<lparr>timer2_counter := timer2_counter via - c\<rparr>, irq_triggered))
        else (via, irq_triggered)) in
     (irq_triggered, via))"

section \<open>Predicates and scenarios of the statements\<close>

text \<open>
  A screen memory as \<open>VideoRAM.__init__\<close> builds it and \<open>write\<close> keeps it: \<open>size\<close> is
  \<open>width * height\<close> and the byte array has that length.
\<close>

definition VideoRAM_wf :: "VideoRAM \<Rightarrow> bool" where
  "VideoRAM_wf v \<longleftrightarrow> size_v v = width v * height v \<and> int (length (memory v)) = size_v v"

text \<open>A bus of 64 KiB of RAM with no overlay and no handler, as \<open>Memory()\<close> builds it.\<close>

definition plain_ram :: "'d Memory \<Rightarrow> bool" where
  "plain_ram m \<longleftrightarrow> length (ram m) = 65536 \<and> roms m = [] \<and>
     io_read_handlers m = Map.empty \<and> io_write_handlers m = Map.empty"

definition mem64k :: "unit Memory" where
  "mem64k = \<lparr>ram = replicate 65536 0, roms = [], io_read_handlers = Map.empty,
             io_write_handlers = Map.empty, io_state = ()\<rparr>"

text \<open>A bus with one overlay of two bytes at \<open>$C000\<close> and a read handler at \<open>$8000\<close>.\<close>

definition rom_io_mem :: "int Memory" where
  "rom_io_mem = \<lparr>ram = replicate 65536 0, roms = [(0xC000, ([0xA9, 0x93], 2))],
                 io_read_handlers = [0x8000 \<mapsto> (\<lambda>s. (s, s + 1))],
                 io_write_handlers = Map.empty, io_state = 7\<rparr>"

definition video40x25 :: VideoRAM where
  "video40x25 = \<lparr>width = 40, height = 25, size_v = 1000, memory = replicate 1000 0, dirty = True\<rparr>"

text \<open>
  The bounds of the registers and the flags, a RAM-only bus whose cells hold bytes, and
  what reading and writing such a bus amounts to.
\<close>

definition byte :: "int \<Rightarrow> bool" where
  "byte b \<longleftrightarrow> 0 \<le> b \<and> b \<le> 255"

definition flag :: "int \<Rightarrow> bool" where
  "flag f \<longleftrightarrow> f = 0 \<or> f = 1"

definition regs_in_range :: "CPU6502 \<Rightarrow> bool" where
  "regs_in_range cpu \<longleftrightarrow>
     byte (A cpu) \<and> byte (X cpu) \<and> byte (Y cpu) \<and> byte (SP cpu) \<and>
     flag (C cpu) \<and> flag (Z cpu) \<and> flag (I cpu) \<and> flag (D cpu) \<and>
     flag (B cpu) \<and> flag (V cpu) \<and> flag (N cpu)"

definition byte_ram :: "'d Memory \<Rightarrow> bool" where
  "byte_ram m \<longleftrightarrow> plain_ram m \<and> list_all byte (ram m)"

definition peek :: "'d Memory \<Rightarrow> int \<Rightarrow> int" where
  "peek m a = ram m ! nat (a AND 0xFFFF)"

definition poke :: "'d Memory \<Rightarrow> int \<Rightarrow> int \<Rightarrow> 'd Memory" where
  "poke m a v = m\<lparr>ram := (ram m)[nat (a AND 0xFFFF) := v AND 0xFF]\<rparr>"

text \<open>
  An instruction handler is well behaved when, from registers within their bounds and a
  RAM-only bus of bytes, it returns, keeps both, and leaves a program counter that is
  at most two above the one it found or at most 65536.
\<close>

definition handler_ok :: "'d handler \<Rightarrow> bool" where
  "handler_ok h \<longleftrightarrow>
     (\<forall>cpu mem. regs_in_range cpu \<and> byte_ram mem \<and> 0 \<le> PC cpu \<longrightarrow>
        (case h cpu mem of
           Inl e \<Rightarrow> False
         | Inr (cpu', mem') \<Rightarrow>
             regs_in_range cpu' \<and> byte_ram mem' \<and> 0 \<le> PC cpu' \<and>
             (PC cpu' \<le> PC cpu + 2 \<or> PC cpu' \<le> 65536)))"

text \<open>Pending NMI, and pending IRQ with \<open>I = 0\<close>; the vector leads to a NOP at \<open>$0300\<close>.\<close>

definition nmi_cpu :: CPU6502 where
  "nmi_cpu = CPU6502_init\<lparr>PC := 0x0200, nmi_pending := True\<rparr>"

definition nmi_mem :: "unit Memory" where
  "nmi_mem = mem64k\<lparr>ram := (ram mem64k)[0x0300 := 0xEA, 0xFFFA := 0x00, 0xFFFB := 0x03]\<rparr>"

definition irq_cpu :: CPU6502 where
  "irq_cpu = CPU6502_init\<lparr>PC := 0x0200, irq_pending := True\<rparr>"

definition irq_mem :: "unit Memory" where
  "irq_mem = mem64k\<lparr>ram := (ram mem64k)[0x0300 := 0xEA, 0xFFFE := 0x00, 0xFFFF := 0x03]\<rparr>"

text \<open>RTS with \<open>$FF, $FF\<close> on the stack, and a NOP at \<open>$FFFF\<close>.\<close>

definition rts_cpu :: CPU6502 where
  "rts_cpu = CPU6502_init\<lparr>PC := 0x0200, SP := 0xFD\<rparr>"

definition rts_mem :: "unit Memory" where
  "rts_mem = mem64k\<lparr>ram := (ram mem64k)[0x0200 := 0x60, 0x01FE := 0xFF, 0x01FF := 0xFF]\<rparr>"

definition top_cpu :: CPU6502 where
  "top_cpu = CPU6502_init\<lparr>PC := 0xFFFF\<rparr>"

definition top_mem :: "unit Memory" where
  "top_mem = mem64k\<lparr>ram := (ram mem64k)[0xFFFF := 0xEA]\<rparr>"

text \<open>Decimal mode: \<open>ADC #$27\<close> with \<open>A = $15\<close>, and \<open>SBC #$15\<close> with \<open>A = $42\<close> and carry set.\<close>

definition bcd_add_cpu :: CPU6502 where
  "bcd_add_cpu = CPU6502_init\<lparr>PC := 0x0200, A := 0x15, D := 1\<rparr>"

definition bcd_add_mem :: "unit Memory" where
  "bcd_add_mem = mem64k\<lparr>ram := (ram mem64k)[0x0200 := 0x69, 0x0201 := 0x27]\<rparr>"

definition bcd_sub_cpu :: CPU6502 where
  "bcd_sub_cpu = CPU6502_init\<lparr>PC := 0x0200, A := 0x42, C := 1, D := 1\<rparr>"

definition bcd_sub_mem :: "unit Memory" where
  "bcd_sub_mem = mem64k\<lparr>ram := (ram mem64k)[0x0200 := 0xE9, 0x0201 := 0x15]\<rparr>"

text \<open>Scenario 5 of the specification: \<open>00 00\<close> at \<open>$0200\<close>, the vector \<open>$1234\<close>.\<close>

definition brk_cpu :: CPU6502 where
  "brk_cpu = CPU6502_init\<lparr>PC := 0x0200\<rparr>"

definition brk_mem :: "unit Memory" where
  "brk_mem = mem64k\<lparr>ram := (ram mem64k)[0x0200 := 0x00, 0x0201 := 0x00,
                                        0xFFFE := 0x34, 0xFFFF := 0x12]\<rparr>"

text \<open>Scenario 3: \<open>6C FF 30\<close> at \<open>$0200\<close>; \<open>$3100\<close> holds a byte that must not be read.\<close>

definition jmp_cpu :: CPU6502 where
  "jmp_cpu = CPU6502_init\<lparr>PC := 0x0200\<rparr>"

definition jmp_mem :: "unit Memory" where
  "jmp_mem = mem64k\<lparr>ram := (ram mem64k)[0x0200 := 0x6C, 0x0201 := 0xFF, 0x0202 := 0x30,
                                        0x30FF := 0x40, 0x3000 := 0x80, 0x3100 := 0x99]\<rparr>"

text \<open>\<open>CLC; LDA #200; ADC #100\<close> at \<open>$0200\<close>.\<close>

definition adc_cpu :: CPU6502 where
  "adc_cpu = CPU6502_init\<lparr>PC := 0x0200\<rparr>"

definition adc_mem :: "unit Memory" where
  "adc_mem = mem64k\<lparr>ram := (ram mem64k)[0x0200 := 0x18, 0x0201 := 0xA9, 0x0202 := 200,
                                        0x0203 := 0x69, 0x0204 := 100]\<rparr>"

text \<open>A timer 1 about to expire, its interrupt enabled.\<close>

definition via_t1 :: "unit VIA" where
  "via_t1 = VIA_init\<lparr>timer1_counter := 2, timer1_latch := 2, irq_enable := 0x40\<rparr>"

section \<open>Basic facts\<close>

lemma bindE_simps [simp]:
  "bindE (Inl e) f = Inl e"
  "bindE (Inr x) f = f x"
  by (simp_all add: bindE_def)

lemma and_mask8: "(a::int) AND 0xFF = a mod 256"
proof -
  have "a AND mask 8 = a mod 2 ^ 8"
    by (simp flip: take_bit_eq_mask add: take_bit_eq_mod)
  then show ?thesis by (simp add: mask_eq_exp_minus_1)
qed

lemma and_mask16: "(a::int) AND 0xFFFF = a mod 65536"
proof -
  have "a AND mask 16 = a mod 2 ^ 16"
    by (simp flip: take_bit_eq_mask add: take_bit_eq_mod)
  then show ?thesis by (simp add: mask_eq_exp_minus_1)
qed

lemma mask16_id: "0 \<le> a \<Longrightarrow> a \<le> 0xFFFF \<Longrightarrow> (a::int) AND 0xFFFF = a"
  by (simp add: and_mask16)

lemma byte_bounds: "0 \<le> (x::int) AND 0xFF" "(x::int) AND 0xFF \<le> 255"
  by (simp_all add: and_mask8)

lemma byte_idem: "((x::int) AND 0xFF) AND 0xFF = x AND 0xFF"
  by (simp add: and_mask8)

lemma dec_byte: "(((x::int) AND 0xFF) - 1) AND 0xFF = (x - 1) AND 0xFF"
  by (simp add: and_mask8 mod_diff_left_eq)

lemma or_and_same: "((x::int) OR m) AND m = m"
  by (simp add: bit_eq_iff bit_simps) blast

lemma or_or_and_same: "(((x::int) OR m) OR k) AND m = m"
  by (simp add: bit_eq_iff bit_simps) blast

lemma getitem_in_range:
  assumes "0 \<le> i" and "i < int (length xs)"
  shows "getitem xs i = Inr (xs ! nat i)"
  using assms by (simp add: getitem_def)

lemma setitem_in_range:
  assumes "0 \<le> i" and "i < int (length xs)" and "0 \<le> v" and "v \<le> 255"
  shows "setitem xs i v = Inr (xs[nat i := v])"
  using assms by (simp add: setitem_def)

text \<open>The definitions a concrete run unfolds.\<close>

lemmas eval_defs =
  Memory_read_def Memory_write_def find_rom_def getitem_def setitem_def Let_def mem64k_def
  CPU6502_init_def

lemma instr_00: "instructions 0x00 = Some BRK" by (simp add: instructions_def)
lemma instr_18: "instructions 0x18 = Some CLC" by (simp add: instructions_def)
lemma instr_60: "instructions 0x60 = Some RTS" by (simp add: instructions_def)
lemma instr_69: "instructions 0x69 = Some ADC_immediate" by (simp add: instructions_def)
lemma instr_6C: "instructions 0x6C = Some JMP_indirect" by (simp add: instructions_def)
lemma instr_A9: "instructions 0xA9 = Some LDA_immediate" by (simp add: instructions_def)
lemma instr_E9: "instructions 0xE9 = Some SBC_immediate" by (simp add: instructions_def)
lemma instr_EA: "instructions 0xEA = Some NOP" by (simp add: instructions_def)

subsection \<open>The bus without overlays and handlers\<close>

lemma read_plain:
  "plain_ram m \<Longrightarrow> 0 \<le> a \<Longrightarrow> a \<le> 0xFFFF \<Longrightarrow> Memory_read m a = Inr (ram m ! nat a, m)"
  by (simp add: Memory_read_def plain_ram_def mask16_id find_rom_def getitem_in_range Let_def)

lemma write_plain:
  "plain_ram m \<Longrightarrow> 0 \<le> a \<Longrightarrow> a \<le> 0xFFFF \<Longrightarrow>
     Memory_write m a v = Inr (m\<lparr>ram := (ram m)[nat a := v AND 0xFF]\<rparr>)"
  by (simp add: Memory_write_def plain_ram_def mask16_id find_rom_def setitem_in_range
      byte_bounds Let_def)

lemma plain_ram_update [simp]:
  "length r = length (ram m) \<Longrightarrow> plain_ram (m\<lparr>ram := r\<rparr>) = plain_ram m"
  by (simp add: plain_ram_def)

lemma plain_ram_mem64k: "plain_ram mem64k"
  by (simp add: plain_ram_def mem64k_def)

subsection \<open>A step that services no interrupt\<close>

lemma step_no_interrupt:
  assumes "\<not> nmi_pending cpu" and "\<not> (irq_pending cpu \<and> I cpu = 0)"
    and "Memory_read mem (PC cpu) = Inr (opcode, mem')"
  shows "step cpu mem =
     bindE (case instructions opcode of
              Some h \<Rightarrow> h (cpu\<lparr>PC := PC cpu + 1, cycles := 0\<rparr>) mem'
            | None \<Rightarrow> Inr (cpu\<lparr>PC := PC cpu + 1, cycles := 2\<rparr>, mem'))
           (\<lambda>(cpu, mem). Inr (cycles cpu, cpu\<lparr>total_cycles := total_cycles cpu + cycles cpu\<rparr>, mem))"
proof -
  from assms(1,2)
  have "(if nmi_pending cpu then handle_nmi cpu mem
         else if irq_pending cpu \<and> I cpu = 0 then handle_irq cpu mem
         else Inr (cpu, mem)) = Inr (cpu, mem)"
    by auto
  with assms(3) show ?thesis
    by (simp add: step_def Let_def split: option.split)
qed

section \<open>Interrupt entry and the cycle count of a step\<close>

lemma nmi_scenario:
  "step nmi_cpu nmi_mem =
     Inr (2, nmi_cpu\<lparr>PC := 0x0301, SP := 0xFC, I := 1, cycles := 2, total_cycles := 2,
                      nmi_pending := False\<rparr>,
          nmi_mem\<lparr>ram := (ram nmi_mem)[0x01FF := 0x02, 0x01FE := 0x00, 0x01FD := 0x20]\<rparr>)"
  by (simp add: step_def nmi_cpu_def nmi_mem_def instr_EA NOP_def handle_nmi_def get_status_def
      eval_defs)

lemma irq_scenario:
  "step irq_cpu irq_mem =
     Inr (2, irq_cpu\<lparr>PC := 0x0301, SP := 0xFC, I := 1, cycles := 2, total_cycles := 2,
                      irq_pending := False\<rparr>,
          irq_mem\<lparr>ram := (ram irq_mem)[0x01FF := 0x02, 0x01FE := 0x00, 0x01FD := 0x20]\<rparr>)"
  by (simp add: step_def irq_cpu_def irq_mem_def instr_EA NOP_def handle_irq_def get_status_def
      eval_defs)

text \<open>
  Claim C1. When \<open>step\<close> services a pending NMI, or a pending IRQ while \<open>I = 0\<close>, the value
  it returns should be the cycles of the executed instruction plus the 7 cycles of the
  interrupt entry. In the code the entry adds 7 to the counter and \<open>step\<close> sets the
  counter to zero afterwards: with a pending NMI (and with a pending IRQ) whose vector
  leads to a NOP, the entry is performed (the return address \<open>$0200\<close> and the status
  \<open>$20\<close> are pushed, \<open>I\<close> is set, the latch is cleared) and the call returns 2, not 9;
  the running total grows by 2 as well.
\<close>

theorem step_drops_interrupt_cycles:
  "step nmi_cpu nmi_mem =
     Inr (2, nmi_cpu\<lparr>PC := 0x0301, SP := 0xFC, I := 1, cycles := 2, total_cycles := 2,
                      nmi_pending := False\<rparr>,
          nmi_mem\<lparr>ram := (ram nmi_mem)[0x01FF := 0x02, 0x01FE := 0x00, 0x01FD := 0x20]\<rparr>)
   \<and> step irq_cpu irq_mem =
     Inr (2, irq_cpu\<lparr>PC := 0x0301, SP := 0xFC, I := 1, cycles := 2, total_cycles := 2,
                      irq_pending := False\<rparr>,
          irq_mem\<lparr>ram := (ram irq_mem)[0x01FF := 0x02, 0x01FE := 0x00, 0x01FD := 0x20]\<rparr>)"
  by (simp only: nmi_scenario irq_scenario)

section \<open>Register bounds\<close>

text \<open>
  What a step keeps: on a RAM-only bus of bytes, from registers and flags within their
  bounds and a program counter in \<open>[0, 65535]\<close>, a step raises nothing and leaves
  \<open>A\<close>, \<open>X\<close>, \<open>Y\<close>, \<open>SP\<close> in \<open>[0, 255]\<close>, every flag in \<open>{0, 1}\<close> and the program counter in
  \<open>[0, 65538]\<close>. Every handler of the dispatch table is well behaved.
\<close>

lemma mask16_bounds: "0 \<le> (a::int) AND 0xFFFF" "(a::int) AND 0xFFFF \<le> 65535"
  by (simp_all add: and_mask16)

lemma byte_and_FF [simp]: "byte (x AND 0xFF)"
  by (simp add: byte_def byte_bounds)

lemma flag_simps [simp]: "flag 0" "flag 1" "flag (x AND 1)"
  by (auto simp: flag_def and_one_eq)

lemma flag_byte: "flag f \<Longrightarrow> byte f"
  by (auto simp: flag_def byte_def)

lemma byte_numeral [simp]: "byte 0" "byte 1"
  by (simp_all add: byte_def)

lemma byte_AND [simp]: "byte a \<Longrightarrow> byte (a AND b)" "byte b \<Longrightarrow> byte (a AND b)"
  by (auto simp: byte_def intro: order_trans [OF AND_upper1] order_trans [OF AND_upper2])

lemma byte_OR [simp]: "byte a \<Longrightarrow> byte b \<Longrightarrow> byte (a OR b)"
  using OR_upper [of a 8 b] by (auto simp: byte_def)

lemma byte_XOR [simp]: "byte a \<Longrightarrow> byte b \<Longrightarrow> byte (a XOR b)"
  using XOR_upper [of a 8 b] by (auto simp: byte_def)

lemma byte_drop_bit [simp]: "byte a \<Longrightarrow> byte (drop_bit n a)"
proof -
  assume a: "byte a"
  then have "0 \<le> drop_bit n a" by (simp add: byte_def)
  moreover have "drop_bit n a \<le> a"
  proof (cases "a = 0")
    case True
    then show ?thesis by simp
  next
    case False
    with a have "0 < a" by (simp add: byte_def)
    then show ?thesis by (simp add: drop_bit_eq_div int_div_le_self)
  qed
  ultimately show ?thesis using a by (simp add: byte_def)
qed

lemma byte_push7 [simp]: "flag c \<Longrightarrow> byte (push_bit 7 c)"
  by (auto simp: flag_def byte_def)

lemma word16_bounds:
  assumes "byte hi" "byte lo"
  shows "0 \<le> push_bit 8 hi OR lo" "push_bit 8 hi OR lo \<le> 65535"
proof -
  have h: "0 \<le> push_bit 8 hi" "push_bit 8 hi < 2 ^ 16"
    using assms by (simp_all add: byte_def push_bit_eq_mult)
  have l: "0 \<le> lo" "lo < 2 ^ 16"
    using assms by (simp_all add: byte_def)
  from h l show "0 \<le> push_bit 8 hi OR lo" by simp
  from OR_upper [OF h(1) h(2) l(2)] show "push_bit 8 hi OR lo \<le> 65535" by simp
qed

lemma byte_peek [simp]: "byte_ram m \<Longrightarrow> byte (peek m a)"
proof -
  assume b: "byte_ram m"
  then have "length (ram m) = 65536" by (simp add: byte_ram_def plain_ram_def)
  with mask16_bounds [of a] have "nat (a AND 0xFFFF) < length (ram m)" by arith
  with b show ?thesis
    by (simp add: byte_ram_def peek_def list_all_length)
qed

lemma read_byte_ram [simp]: "byte_ram m \<Longrightarrow> Memory_read m a = Inr (peek m a, m)"
proof -
  assume b: "byte_ram m"
  then have p: "plain_ram m" by (simp add: byte_ram_def)
  have "Memory_read m a = Memory_read m (a AND 0xFFFF)"
    by (simp add: Memory_read_def Let_def and_mask16)
  also have "\<dots> = Inr (ram m ! nat (a AND 0xFFFF), m)"
    by (rule read_plain [OF p]) (simp_all add: mask16_bounds)
  finally show ?thesis by (simp add: peek_def)
qed

lemma write_byte_ram [simp]: "byte_ram m \<Longrightarrow> Memory_write m a v = Inr (poke m a v)"
proof -
  assume b: "byte_ram m"
  then have p: "plain_ram m" by (simp add: byte_ram_def)
  have "Memory_write m a v = Memory_write m (a AND 0xFFFF) v"
    by (simp add: Memory_write_def Let_def and_mask16)
  also have "\<dots> = Inr (m\<lparr>ram := (ram m)[nat (a AND 0xFFFF) := v AND 0xFF]\<rparr>)"
    by (rule write_plain [OF p]) (simp_all add: mask16_bounds)
  finally show ?thesis by (simp add: poke_def)
qed

lemma byte_ram_poke [simp]: "byte_ram m \<Longrightarrow> byte_ram (poke m a v)"
proof -
  assume b: "byte_ram m"
  have "byte ((ram m)[i := v AND 0xFF] ! n)" if "n < length (ram m)" for i n
  proof (cases "i = n")
    case True
    with that show ?thesis by simp
  next
    case False
    with that b show ?thesis by (simp add: byte_ram_def list_all_length)
  qed
  with b show ?thesis
    by (simp add: byte_ram_def poke_def list_all_length)
qed

lemma regs_in_range_frame [simp]:
  "regs_in_range (cpu\<lparr>PC := p\<rparr>) = regs_in_range cpu"
  "regs_in_range (cpu\<lparr>cycles := k\<rparr>) = regs_in_range cpu"
  "regs_in_range (cpu\<lparr>total_cycles := k\<rparr>) = regs_in_range cpu"
  "regs_in_range (cpu\<lparr>irq_pending := q\<rparr>) = regs_in_range cpu"
  "regs_in_range (cpu\<lparr>nmi_pending := q\<rparr>) = regs_in_range cpu"
  by (simp_all add: regs_in_range_def)

lemma regs_in_range_update [simp]:
  "regs_in_range cpu \<Longrightarrow> regs_in_range (cpu\<lparr>A := v\<rparr>) = byte v"
  "regs_in_range cpu \<Longrightarrow> regs_in_range (cpu\<lparr>X := v\<rparr>) = byte v"
  "regs_in_range cpu \<Longrightarrow> regs_in_range (cpu\<lparr>Y := v\<rparr>) = byte v"
  "regs_in_range cpu \<Longrightarrow> regs_in_range (cpu\<lparr>SP := v\<rparr>) = byte v"
  "regs_in_range cpu \<Longrightarrow> regs_in_range (cpu\<lparr>C := f\<rparr>) = flag f"
  "regs_in_range cpu \<Longrightarrow> regs_in_range (cpu\<lparr>Z := f\<rparr>) = flag f"
  "regs_in_range cpu \<Longrightarrow> regs_in_range (cpu\<lparr>I := f\<rparr>) = flag f"
  "regs_in_range cpu \<Longrightarrow> regs_in_range (cpu\<lparr>D := f\<rparr>) = flag f"
  "regs_in_range cpu \<Longrightarrow> regs_in_range (cpu\<lparr>B := f\<rparr>) = flag f"
  "regs_in_range cpu \<Longrightarrow> regs_in_range (cpu\<lparr>V := f\<rparr>) = flag f"
  "regs_in_range cpu \<Longrightarrow> regs_in_range (cpu\<lparr>N := f\<rparr>) = flag f"
  by (simp_all add: regs_in_range_def)

lemma regs_in_range_fields [simp]:
  "regs_in_range cpu \<Longrightarrow> byte (A cpu)" "regs_in_range cpu \<Longrightarrow> byte (X cpu)"
  "regs_in_range cpu \<Longrightarrow> byte (Y cpu)" "regs_in_range cpu \<Longrightarrow> byte (SP cpu)"
  "regs_in_range cpu \<Longrightarrow> flag (C cpu)" "regs_in_range cpu \<Longrightarrow> flag (Z cpu)"
  "regs_in_range cpu \<Longrightarrow> flag (I cpu)" "regs_in_range cpu \<Longrightarrow> flag (D cpu)"
  "regs_in_range cpu \<Longrightarrow> flag (B cpu)" "regs_in_range cpu \<Longrightarrow> flag (V cpu)"
  "regs_in_range cpu \<Longrightarrow> flag (N cpu)"
  by (simp_all add: regs_in_range_def)

lemma update_ZN_frame [simp]:
  "A (update_ZN cpu v) = A cpu" "X (update_ZN cpu v) = X cpu" "Y (update_ZN cpu v) = Y cpu"
  "PC (update_ZN cpu v) = PC cpu" "SP (update_ZN cpu v) = SP cpu" "C (update_ZN cpu v) = C cpu"
  "I (update_ZN cpu v) = I cpu" "D (update_ZN cpu v) = D cpu" "V (update_ZN cpu v) = V cpu"
  by (simp_all add: update_ZN_def Let_def)

lemma update_ZN_range [simp]: "regs_in_range cpu \<Longrightarrow> regs_in_range (update_ZN cpu v)"
  by (simp add: update_ZN_def Let_def)

lemma compare_frame [simp]: "PC (compare cpu r v) = PC cpu"
  by (simp add: compare_def Let_def)

lemma compare_range [simp]: "regs_in_range cpu \<Longrightarrow> regs_in_range (compare cpu r v)"
  by (simp add: compare_def Let_def)

lemma set_status_frame [simp]: "PC (set_status cpu v) = PC cpu" "SP (set_status cpu v) = SP cpu"
  by (simp_all add: set_status_def Let_def)

lemma set_status_range [simp]: "regs_in_range cpu \<Longrightarrow> regs_in_range (set_status cpu v)"
  by (simp add: set_status_def Let_def)

lemma add_with_carry_frame [simp]: "PC (add_with_carry cpu v) = PC cpu"
  by (simp add: add_with_carry_def Let_def split_beta)

lemma add_with_carry_range [simp]:
  "regs_in_range cpu \<Longrightarrow> regs_in_range (add_with_carry cpu v)"
  by (simp add: add_with_carry_def Let_def split_beta)

lemma subtract_with_carry_frame [simp]: "PC (subtract_with_carry cpu v) = PC cpu"
  by (simp add: subtract_with_carry_def Let_def split_beta)

lemma subtract_with_carry_range [simp]:
  "regs_in_range cpu \<Longrightarrow> regs_in_range (subtract_with_carry cpu v)"
  by (simp add: subtract_with_carry_def Let_def split_beta)

lemma word16_simps [simp]:
  "byte hi \<Longrightarrow> byte lo \<Longrightarrow> 0 \<le> push_bit 8 hi OR lo"
  "byte hi \<Longrightarrow> byte lo \<Longrightarrow> push_bit 8 hi OR lo \<le> 65535"
  "byte hi \<Longrightarrow> byte lo \<Longrightarrow> 0 \<le> lo OR push_bit 8 hi"
  "byte hi \<Longrightarrow> byte lo \<Longrightarrow> lo OR push_bit 8 hi \<le> 65535"
  using word16_bounds [of hi lo] by (simp_all add: or.commute)

lemma word16_le [simp]:
  assumes "byte hi" and "byte lo"
  shows "push_bit 8 hi OR lo \<le> 65536" and "lo OR push_bit 8 hi \<le> 65536"
proof -
  from word16_bounds(2) [OF assms] show "push_bit 8 hi OR lo \<le> 65536" by simp
  then show "lo OR push_bit 8 hi \<le> 65536" by (simp only: or.commute)
qed

lemma mask16_le [simp]: "(a::int) AND 0xFFFF \<le> 65536"
  using mask16_bounds(2) [of a] by simp

lemma mask16_simps [simp]: "0 \<le> (a::int) AND 0xFFFF" "(a::int) AND 0xFFFF \<le> 65535"
  by (rule mask16_bounds)+

lemma peek_bounds [simp]: "byte_ram m \<Longrightarrow> 0 \<le> peek m a" "byte_ram m \<Longrightarrow> peek m a \<le> 255"
  using byte_peek [of m a] by (simp_all add: byte_def)

lemmas mode_defs = immediate_def zeropage_def zeropageX_def zeropageY_def absolute_def
  absoluteX_def absoluteY_def indirect_def indirectX_def indirectY_def

lemma LDA_immediate_ok: "handler_ok LDA_immediate"
  unfolding handler_ok_def by (simp add: LDA_immediate_def mode_defs Let_def)

lemma LDA_zeropage_ok: "handler_ok LDA_zeropage"
  unfolding handler_ok_def by (simp add: LDA_zeropage_def mode_defs Let_def)

lemma LDA_zeropageX_ok: "handler_ok LDA_zeropageX"
  unfolding handler_ok_def by (simp add: LDA_zeropageX_def mode_defs Let_def)

lemma LDA_absolute_ok: "handler_ok LDA_absolute"
  unfolding handler_ok_def by (simp add: LDA_absolute_def mode_defs Let_def)

lemma LDA_absoluteX_ok: "handler_ok LDA_absoluteX"
  unfolding handler_ok_def by (simp add: LDA_absoluteX_def mode_defs Let_def)

lemma LDA_absoluteY_ok: "handler_ok LDA_absoluteY"
  unfolding handler_ok_def by (simp add: LDA_absoluteY_def mode_defs Let_def)

lemma LDA_indirectX_ok: "handler_ok LDA_indirectX"
  unfolding handler_ok_def by (simp add: LDA_indirectX_def mode_defs Let_def)

lemma LDA_indirectY_ok: "handler_ok LDA_indirectY"
  unfolding handler_ok_def by (simp add: LDA_indirectY_def mode_defs Let_def)

lemma LDX_immediate_ok: "handler_ok LDX_immediate"
  unfolding handler_ok_def by (simp add: LDX_immediate_def mode_defs Let_def)

lemma LDX_zeropage_ok: "handler_ok LDX_zeropage"
  unfolding handler_ok_def by (simp add: LDX_zeropage_def mode_defs Let_def)

lemma LDX_zeropageY_ok: "handler_ok LDX_zeropageY"
  unfolding handler_ok_def by (simp add: LDX_zeropageY_def mode_defs Let_def)

lemma LDX_absolute_ok: "handler_ok LDX_absolute"
  unfolding handler_ok_def by (simp add: LDX_absolute_def mode_defs Let_def)

lemma LDX_absoluteY_ok: "handler_ok LDX_absoluteY"
  unfolding handler_ok_def by (simp add: LDX_absoluteY_def mode_defs Let_def)

lemma LDY_immediate_ok: "handler_ok LDY_immediate"
  unfolding handler_ok_def by (simp add: LDY_immediate_def mode_defs Let_def)

lemma LDY_zeropage_ok: "handler_ok LDY_zeropage"
  unfolding handler_ok_def by (simp add: LDY_zeropage_def mode_defs Let_def)

lemma LDY_zeropageX_ok: "handler_ok LDY_zeropageX"
  unfolding handler_ok_def by (simp add: LDY_zeropageX_def mode_defs Let_def)

lemma LDY_absolute_ok: "handler_ok LDY_absolute"
  unfolding handler_ok_def by (simp add: LDY_absolute_def mode_defs Let_def)

lemma LDY_absoluteX_ok: "handler_ok LDY_absoluteX"
  unfolding handler_ok_def by (simp add: LDY_absoluteX_def mode_defs Let_def)

lemma STA_zeropage_ok: "handler_ok STA_zeropage"
  unfolding handler_ok_def by (simp add: STA_zeropage_def mode_defs Let_def)

lemma STA_zeropageX_ok: "handler_ok STA_zeropageX"
  unfolding handler_ok_def by (simp add: STA_zeropageX_def mode_defs Let_def)

lemma STA_absolute_ok: "handler_ok STA_absolute"
  unfolding handler_ok_def by (simp add: STA_absolute_def mode_defs Let_def)

lemma STA_absoluteX_ok: "handler_ok STA_absoluteX"
  unfolding handler_ok_def by (simp add: STA_absoluteX_def mode_defs Let_def)

lemma STA_absoluteY_ok: "handler_ok STA_absoluteY"
  unfolding handler_ok_def by (simp add: STA_absoluteY_def mode_defs Let_def)

lemma STA_indirectX_ok: "handler_ok STA_indirectX"
  unfolding handler_ok_def by (simp add: STA_indirectX_def mode_defs Let_def)

lemma STA_indirectY_ok: "handler_ok STA_indirectY"
  unfolding handler_ok_def by (simp add: STA_indirectY_def mode_defs Let_def)

lemma STX_zeropage_ok: "handler_ok STX_zeropage"
  unfolding handler_ok_def by (simp add: STX_zeropage_def mode_defs Let_def)

lemma STX_zeropageY_ok: "handler_ok STX_zeropageY"
  unfolding handler_ok_def by (simp add: STX_zeropageY_def mode_defs Let_def)

lemma STX_absolute_ok: "handler_ok STX_absolute"
  unfolding handler_ok_def by (simp add: STX_absolute_def mode_defs Let_def)

lemma STY_zeropage_ok: "handler_ok STY_zeropage"
  unfolding handler_ok_def by (simp add: STY_zeropage_def mode_defs Let_def)

lemma STY_zeropageX_ok: "handler_ok STY_zeropageX"
  unfolding handler_ok_def by (simp add: STY_zeropageX_def mode_defs Let_def)

lemma STY_absolute_ok: "handler_ok STY_absolute"
  unfolding handler_ok_def by (simp add: STY_absolute_def mode_defs Let_def)

lemma TAX_ok: "handler_ok TAX"
  unfolding handler_ok_def by (simp add: TAX_def mode_defs Let_def)

lemma TXA_ok: "handler_ok TXA"
  unfolding handler_ok_def by (simp add: TXA_def mode_defs Let_def)

lemma TAY_ok: "handler_ok TAY"
  unfolding handler_ok_def by (simp add: TAY_def mode_defs Let_def)

lemma TYA_ok: "handler_ok TYA"
  unfolding handler_ok_def by (simp add: TYA_def mode_defs Let_def)

lemma TSX_ok: "handler_ok TSX"
  unfolding handler_ok_def by (simp add: TSX_def mode_defs Let_def)

lemma TXS_ok: "handler_ok TXS"
  unfolding handler_ok_def by (simp add: TXS_def mode_defs Let_def)

lemma PHA_ok: "handler_ok PHA"
  unfolding handler_ok_def by (simp add: PHA_def mode_defs Let_def)

lemma PLA_ok: "handler_ok PLA"
  unfolding handler_ok_def by (simp add: PLA_def mode_defs Let_def)

lemma PHP_ok: "handler_ok PHP"
  unfolding handler_ok_def by (simp add: PHP_def mode_defs Let_def)

lemma PLP_ok: "handler_ok PLP"
  unfolding handler_ok_def by (simp add: PLP_def mode_defs Let_def)

lemma AND_immediate_ok: "handler_ok AND_immediate"
  unfolding handler_ok_def by (simp add: AND_immediate_def mode_defs Let_def)

lemma AND_zeropage_ok: "handler_ok AND_zeropage"
  unfolding handler_ok_def by (simp add: AND_zeropage_def mode_defs Let_def)

lemma AND_zeropageX_ok: "handler_ok AND_zeropageX"
  unfolding handler_ok_def by (simp add: AND_zeropageX_def mode_defs Let_def)

lemma AND_absolute_ok: "handler_ok AND_absolute"
  unfolding handler_ok_def by (simp add: AND_absolute_def mode_defs Let_def)

lemma AND_absoluteX_ok: "handler_ok AND_absoluteX"
  unfolding handler_ok_def by (simp add: AND_absoluteX_def mode_defs Let_def)

lemma AND_absoluteY_ok: "handler_ok AND_absoluteY"
  unfolding handler_ok_def by (simp add: AND_absoluteY_def mode_defs Let_def)

lemma AND_indirectX_ok: "handler_ok AND_indirectX"
  unfolding handler_ok_def by (simp add: AND_indirectX_def mode_defs Let_def)

lemma AND_indirectY_ok: "handler_ok AND_indirectY"
  unfolding handler_ok_def by (simp add: AND_indirectY_def mode_defs Let_def)

lemma ORA_immediate_ok: "handler_ok ORA_immediate"
  unfolding handler_ok_def by (simp add: ORA_immediate_def mode_defs Let_def)

lemma ORA_zeropage_ok: "handler_ok ORA_zeropage"
  unfolding handler_ok_def by (simp add: ORA_zeropage_def mode_defs Let_def)

lemma ORA_zeropageX_ok: "handler_ok ORA_zeropageX"
  unfolding handler_ok_def by (simp add: ORA_zeropageX_def mode_defs Let_def)

lemma ORA_absolute_ok: "handler_ok ORA_absolute"
  unfolding handler_ok_def by (simp add: ORA_absolute_def mode_defs Let_def)

lemma ORA_absoluteX_ok: "handler_ok ORA_absoluteX"
  unfolding handler_ok_def by (simp add: ORA_absoluteX_def mode_defs Let_def)

lemma ORA_absoluteY_ok: "handler_ok ORA_absoluteY"
  unfolding handler_ok_def by (simp add: ORA_absoluteY_def mode_defs Let_def)

lemma ORA_indirectX_ok: "handler_ok ORA_indirectX"
  unfolding handler_ok_def by (simp add: ORA_indirectX_def mode_defs Let_def)

lemma ORA_indirectY_ok: "handler_ok ORA_indirectY"
  unfolding handler_ok_def by (simp add: ORA_indirectY_def mode_defs Let_def)

lemma EOR_immediate_ok: "handler_ok EOR_immediate"
  unfolding handler_ok_def by (simp add: EOR_immediate_def mode_defs Let_def)

lemma EOR_zeropage_ok: "handler_ok EOR_zeropage"
  unfolding handler_ok_def by (simp add: EOR_zeropage_def mode_defs Let_def)

lemma EOR_zeropageX_ok: "handler_ok EOR_zeropageX"
  unfolding handler_ok_def by (simp add: EOR_zeropageX_def mode_defs Let_def)

lemma EOR_absolute_ok: "handler_ok EOR_absolute"
  unfolding handler_ok_def by (simp add: EOR_absolute_def mode_defs Let_def)

lemma EOR_absoluteX_ok: "handler_ok EOR_absoluteX"
  unfolding handler_ok_def by (simp add: EOR_absoluteX_def mode_defs Let_def)

lemma EOR_absoluteY_ok: "handler_ok EOR_absoluteY"
  unfolding handler_ok_def by (simp add: EOR_absoluteY_def mode_defs Let_def)

lemma EOR_indirectX_ok: "handler_ok EOR_indirectX"
  unfolding handler_ok_def by (simp add: EOR_indirectX_def mode_defs Let_def)

lemma EOR_indirectY_ok: "handler_ok EOR_indirectY"
  unfolding handler_ok_def by (simp add: EOR_indirectY_def mode_defs Let_def)

lemma BIT_zeropage_ok: "handler_ok BIT_zeropage"
  unfolding handler_ok_def by (simp add: BIT_zeropage_def mode_defs Let_def)

lemma BIT_absolute_ok: "handler_ok BIT_absolute"
  unfolding handler_ok_def by (simp add: BIT_absolute_def mode_defs Let_def)

lemma ADC_immediate_ok: "handler_ok ADC_immediate"
  unfolding handler_ok_def by (simp add: ADC_immediate_def mode_defs Let_def)

lemma ADC_zeropage_ok: "handler_ok ADC_zeropage"
  unfolding handler_ok_def by (simp add: ADC_zeropage_def mode_defs Let_def)

lemma ADC_zeropageX_ok: "handler_ok ADC_zeropageX"
  unfolding handler_ok_def by (simp add: ADC_zeropageX_def mode_defs Let_def)

lemma ADC_absolute_ok: "handler_ok ADC_absolute"
  unfolding handler_ok_def by (simp add: ADC_absolute_def mode_defs Let_def)

lemma ADC_absoluteX_ok: "handler_ok ADC_absoluteX"
  unfolding handler_ok_def by (simp add: ADC_absoluteX_def mode_defs Let_def)

lemma ADC_absoluteY_ok: "handler_ok ADC_absoluteY"
  unfolding handler_ok_def by (simp add: ADC_absoluteY_def mode_defs Let_def)

lemma ADC_indirectX_ok: "handler_ok ADC_indirectX"
  unfolding handler_ok_def by (simp add: ADC_indirectX_def mode_defs Let_def)

lemma ADC_indirectY_ok: "handler_ok ADC_indirectY"
  unfolding handler_ok_def by (simp add: ADC_indirectY_def mode_defs Let_def)

lemma SBC_immediate_ok: "handler_ok SBC_immediate"
  unfolding handler_ok_def by (simp add: SBC_immediate_def mode_defs Let_def)

lemma SBC_zeropage_ok: "handler_ok SBC_zeropage"
  unfolding handler_ok_def by (simp add: SBC_zeropage_def mode_defs Let_def)

lemma SBC_zeropageX_ok: "handler_ok SBC_zeropageX"
  unfolding handler_ok_def by (simp add: SBC_zeropageX_def mode_defs Let_def)

lemma SBC_absolute_ok: "handler_ok SBC_absolute"
  unfolding handler_ok_def by (simp add: SBC_absolute_def mode_defs Let_def)

lemma SBC_absoluteX_ok: "handler_ok SBC_absoluteX"
  unfolding handler_ok_def by (simp add: SBC_absoluteX_def mode_defs Let_def)

lemma SBC_absoluteY_ok: "handler_ok SBC_absoluteY"
  unfolding handler_ok_def by (simp add: SBC_absoluteY_def mode_defs Let_def)

lemma SBC_indirectX_ok: "handler_ok SBC_indirectX"
  unfolding handler_ok_def by (simp add: SBC_indirectX_def mode_defs Let_def)

lemma SBC_indirectY_ok: "handler_ok SBC_indirectY"
  unfolding handler_ok_def by (simp add: SBC_indirectY_def mode_defs Let_def)

lemma CMP_immediate_ok: "handler_ok CMP_immediate"
  unfolding handler_ok_def by (simp add: CMP_immediate_def mode_defs Let_def)

lemma CMP_zeropage_ok: "handler_ok CMP_zeropage"
  unfolding handler_ok_def by (simp add: CMP_zeropage_def mode_defs Let_def)

lemma CMP_zeropageX_ok: "handler_ok CMP_zeropageX"
  unfolding handler_ok_def by (simp add: CMP_zeropageX_def mode_defs Let_def)

lemma CMP_absolute_ok: "handler_ok CMP_absolute"
  unfolding handler_ok_def by (simp add: CMP_absolute_def mode_defs Let_def)

lemma CMP_absoluteX_ok: "handler_ok CMP_absoluteX"
  unfolding handler_ok_def by (simp add: CMP_absoluteX_def mode_defs Let_def)

lemma CMP_absoluteY_ok: "handler_ok CMP_absoluteY"
  unfolding handler_ok_def by (simp add: CMP_absoluteY_def mode_defs Let_def)

lemma CMP_indirectX_ok: "handler_ok CMP_indirectX"
  unfolding handler_ok_def by (simp add: CMP_indirectX_def mode_defs Let_def)

lemma CMP_indirectY_ok: "handler_ok CMP_indirectY"
  unfolding handler_ok_def by (simp add: CMP_indirectY_def mode_defs Let_def)

lemma CPX_immediate_ok: "handler_ok CPX_immediate"
  unfolding handler_ok_def by (simp add: CPX_immediate_def mode_defs Let_def)

lemma CPX_zeropage_ok: "handler_ok CPX_zeropage"
  unfolding handler_ok_def by (simp add: CPX_zeropage_def mode_defs Let_def)

lemma CPX_absolute_ok: "handler_ok CPX_absolute"
  unfolding handler_ok_def by (simp add: CPX_absolute_def mode_defs Let_def)

lemma CPY_immediate_ok: "handler_ok CPY_immediate"
  unfolding handler_ok_def by (simp add: CPY_immediate_def mode_defs Let_def)

lemma CPY_zeropage_ok: "handler_ok CPY_zeropage"
  unfolding handler_ok_def by (simp add: CPY_zeropage_def mode_defs Let_def)

lemma CPY_absolute_ok: "handler_ok CPY_absolute"
  unfolding handler_ok_def by (simp add: CPY_absolute_def mode_defs Let_def)

lemma INC_zeropage_ok: "handler_ok INC_zeropage"
  unfolding handler_ok_def by (simp add: INC_zeropage_def mode_defs Let_def)

lemma INC_zeropageX_ok: "handler_ok INC_zeropageX"
  unfolding handler_ok_def by (simp add: INC_zeropageX_def mode_defs Let_def)

lemma INC_absolute_ok: "handler_ok INC_absolute"
  unfolding handler_ok_def by (simp add: INC_absolute_def mode_defs Let_def)

lemma INC_absoluteX_ok: "handler_ok INC_absoluteX"
  unfolding handler_ok_def by (simp add: INC_absoluteX_def mode_defs Let_def)

lemma INX_ok: "handler_ok INX"
  unfolding handler_ok_def by (simp add: INX_def mode_defs Let_def)

lemma INY_ok: "handler_ok INY"
  unfolding handler_ok_def by (simp add: INY_def mode_defs Let_def)

lemma DEC_zeropage_ok: "handler_ok DEC_zeropage"
  unfolding handler_ok_def by (simp add: DEC_zeropage_def mode_defs Let_def)

lemma DEC_zeropageX_ok: "handler_ok DEC_zeropageX"
  unfolding handler_ok_def by (simp add: DEC_zeropageX_def mode_defs Let_def)

lemma DEC_absolute_ok: "handler_ok DEC_absolute"
  unfolding handler_ok_def by (simp add: DEC_absolute_def mode_defs Let_def)

lemma DEC_absoluteX_ok: "handler_ok DEC_absoluteX"
  unfolding handler_ok_def by (simp add: DEC_absoluteX_def mode_defs Let_def)

lemma DEX_ok: "handler_ok DEX"
  unfolding handler_ok_def by (simp add: DEX_def mode_defs Let_def)

lemma DEY_ok: "handler_ok DEY"
  unfolding handler_ok_def by (simp add: DEY_def mode_defs Let_def)

lemma ASL_accumulator_ok: "handler_ok ASL_accumulator"
  unfolding handler_ok_def by (simp add: ASL_accumulator_def mode_defs Let_def)

lemma ASL_zeropage_ok: "handler_ok ASL_zeropage"
  unfolding handler_ok_def by (simp add: ASL_zeropage_def mode_defs Let_def)

lemma ASL_zeropageX_ok: "handler_ok ASL_zeropageX"
  unfolding handler_ok_def by (simp add: ASL_zeropageX_def mode_defs Let_def)

lemma ASL_absolute_ok: "handler_ok ASL_absolute"
  unfolding handler_ok_def by (simp add: ASL_absolute_def mode_defs Let_def)

lemma ASL_absoluteX_ok: "handler_ok ASL_absoluteX"
  unfolding handler_ok_def by (simp add: ASL_absoluteX_def mode_defs Let_def)

lemma LSR_accumulator_ok: "handler_ok LSR_accumulator"
  unfolding handler_ok_def by (simp add: LSR_accumulator_def mode_defs Let_def)

lemma LSR_zeropage_ok: "handler_ok LSR_zeropage"
  unfolding handler_ok_def by (simp add: LSR_zeropage_def mode_defs Let_def)

lemma LSR_zeropageX_ok: "handler_ok LSR_zeropageX"
  unfolding handler_ok_def by (simp add: LSR_zeropageX_def mode_defs Let_def)

lemma LSR_absolute_ok: "handler_ok LSR_absolute"
  unfolding handler_ok_def by (simp add: LSR_absolute_def mode_defs Let_def)

lemma LSR_absoluteX_ok: "handler_ok LSR_absoluteX"
  unfolding handler_ok_def by (simp add: LSR_absoluteX_def mode_defs Let_def)

lemma ROL_accumulator_ok: "handler_ok ROL_accumulator"
  unfolding handler_ok_def by (simp add: ROL_accumulator_def mode_defs Let_def)

lemma ROL_zeropage_ok: "handler_ok ROL_zeropage"
  unfolding handler_ok_def by (simp add: ROL_zeropage_def mode_defs Let_def)

lemma ROL_zeropageX_ok: "handler_ok ROL_zeropageX"
  unfolding handler_ok_def by (simp add: ROL_zeropageX_def mode_defs Let_def)

lemma ROL_absolute_ok: "handler_ok ROL_absolute"
  unfolding handler_ok_def by (simp add: ROL_absolute_def mode_defs Let_def)

lemma ROL_absoluteX_ok: "handler_ok ROL_absoluteX"
  unfolding handler_ok_def by (simp add: ROL_absoluteX_def mode_defs Let_def)

lemma ROR_accumulator_ok: "handler_ok ROR_accumulator"
  unfolding handler_ok_def by (simp add: ROR_accumulator_def mode_defs Let_def)

lemma ROR_zeropage_ok: "handler_ok ROR_zeropage"
  unfolding handler_ok_def by (simp add: ROR_zeropage_def mode_defs Let_def)

lemma ROR_zeropageX_ok: "handler_ok ROR_zeropageX"
  unfolding handler_ok_def by (simp add: ROR_zeropageX_def mode_defs Let_def)

lemma ROR_absolute_ok: "handler_ok ROR_absolute"
  unfolding handler_ok_def by (simp add: ROR_absolute_def mode_defs Let_def)

lemma ROR_absoluteX_ok: "handler_ok ROR_absoluteX"
  unfolding handler_ok_def by (simp add: ROR_absoluteX_def mode_defs Let_def)

lemma JMP_absolute_ok: "handler_ok JMP_absolute"
  unfolding handler_ok_def by (simp add: JMP_absolute_def mode_defs Let_def)

lemma JMP_indirect_ok: "handler_ok JMP_indirect"
  unfolding handler_ok_def by (simp add: JMP_indirect_def mode_defs Let_def)

lemma JSR_absolute_ok: "handler_ok JSR_absolute"
  unfolding handler_ok_def by (simp add: JSR_absolute_def mode_defs Let_def)

lemma RTS_ok: "handler_ok RTS"
  unfolding handler_ok_def by (simp add: RTS_def mode_defs Let_def)

lemma BCC_ok: "handler_ok BCC"
  unfolding handler_ok_def by (simp add: BCC_def branch_def mode_defs Let_def)

lemma BCS_ok: "handler_ok BCS"
  unfolding handler_ok_def by (simp add: BCS_def branch_def mode_defs Let_def)

lemma BEQ_ok: "handler_ok BEQ"
  unfolding handler_ok_def by (simp add: BEQ_def branch_def mode_defs Let_def)

lemma BMI_ok: "handler_ok BMI"
  unfolding handler_ok_def by (simp add: BMI_def branch_def mode_defs Let_def)

lemma BNE_ok: "handler_ok BNE"
  unfolding handler_ok_def by (simp add: BNE_def branch_def mode_defs Let_def)

lemma BPL_ok: "handler_ok BPL"
  unfolding handler_ok_def by (simp add: BPL_def branch_def mode_defs Let_def)

lemma BVC_ok: "handler_ok BVC"
  unfolding handler_ok_def by (simp add: BVC_def branch_def mode_defs Let_def)

lemma BVS_ok: "handler_ok BVS"
  unfolding handler_ok_def by (simp add: BVS_def branch_def mode_defs Let_def)

lemma CLC_ok: "handler_ok CLC"
  unfolding handler_ok_def by (simp add: CLC_def mode_defs Let_def)

lemma SEC_ok: "handler_ok SEC"
  unfolding handler_ok_def by (simp add: SEC_def mode_defs Let_def)

lemma CLI_ok: "handler_ok CLI"
  unfolding handler_ok_def by (simp add: CLI_def mode_defs Let_def)

lemma SEI_ok: "handler_ok SEI"
  unfolding handler_ok_def by (simp add: SEI_def mode_defs Let_def)

lemma CLV_ok: "handler_ok CLV"
  unfolding handler_ok_def by (simp add: CLV_def mode_defs Let_def)

lemma CLD_ok: "handler_ok CLD"
  unfolding handler_ok_def by (simp add: CLD_def mode_defs Let_def)

lemma SED_ok: "handler_ok SED"
  unfolding handler_ok_def by (simp add: SED_def mode_defs Let_def)

lemma BRK_ok: "handler_ok BRK"
  unfolding handler_ok_def by (simp add: BRK_def mode_defs Let_def)

lemma RTI_ok: "handler_ok RTI"
  unfolding handler_ok_def by (simp add: RTI_def mode_defs Let_def)

lemma NOP_ok: "handler_ok NOP"
  unfolding handler_ok_def by (simp add: NOP_def mode_defs Let_def)

lemmas handlers_ok =
  LDA_immediate_ok LDA_zeropage_ok LDA_zeropageX_ok LDA_absolute_ok LDA_absoluteX_ok
  LDA_absoluteY_ok LDA_indirectX_ok LDA_indirectY_ok LDX_immediate_ok LDX_zeropage_ok
  LDX_zeropageY_ok LDX_absolute_ok LDX_absoluteY_ok LDY_immediate_ok LDY_zeropage_ok
  LDY_zeropageX_ok LDY_absolute_ok LDY_absoluteX_ok STA_zeropage_ok STA_zeropageX_ok
  STA_absolute_ok STA_absoluteX_ok STA_absoluteY_ok STA_indirectX_ok STA_indirectY_ok
  STX_zeropage_ok STX_zeropageY_ok STX_absolute_ok STY_zeropage_ok STY_zeropageX_ok
  STY_absolute_ok TAX_ok TXA_ok TAY_ok TYA_ok TSX_ok TXS_ok PHA_ok PLA_ok PHP_ok PLP_ok
  AND_immediate_ok AND_zeropage_ok AND_zeropageX_ok AND_absolute_ok AND_absoluteX_ok
  AND_absoluteY_ok AND_indirectX_ok AND_indirectY_ok ORA_immediate_ok ORA_zeropage_ok
  ORA_zeropageX_ok ORA_absolute_ok ORA_absoluteX_ok ORA_absoluteY_ok ORA_indirectX_ok
  ORA_indirectY_ok EOR_immediate_ok EOR_zeropage_ok EOR_zeropageX_ok EOR_absolute_ok
  EOR_absoluteX_ok EOR_absoluteY_ok EOR_indirectX_ok EOR_indirectY_ok BIT_zeropage_ok
  BIT_absolute_ok ADC_immediate_ok ADC_zeropage_ok ADC_zeropageX_ok ADC_absolute_ok
  ADC_absoluteX_ok ADC_absoluteY_ok ADC_indirectX_ok ADC_indirectY_ok SBC_immediate_ok
  SBC_zeropage_ok SBC_zeropageX_ok SBC_absolute_ok SBC_absoluteX_ok SBC_absoluteY_ok
  SBC_indirectX_ok SBC_indirectY_ok CMP_immediate_ok CMP_zeropage_ok CMP_zeropageX_ok
  CMP_absolute_ok CMP_absoluteX_ok CMP_absoluteY_ok CMP_indirectX_ok CMP_indirectY_ok
  CPX_immediate_ok CPX_zeropage_ok CPX_absolute_ok CPY_immediate_ok CPY_zeropage_ok
  CPY_absolute_ok INC_zeropage_ok INC_zeropageX_ok INC_absolute_ok INC_absoluteX_ok INX_ok
  INY_ok DEC_zeropage_ok DEC_zeropageX_ok DEC_absolute_ok DEC_absoluteX_ok DEX_ok DEY_ok
  ASL_accumulator_ok ASL_zeropage_ok ASL_zeropageX_ok ASL_absolute_ok ASL_absoluteX_ok
  LSR_accumulator_ok LSR_zeropage_ok LSR_zeropageX_ok LSR_absolute_ok LSR_absoluteX_ok
  ROL_accumulator_ok ROL_zeropage_ok ROL_zeropageX_ok ROL_absolute_ok ROL_absoluteX_ok
  ROR_accumulator_ok ROR_zeropage_ok ROR_zeropageX_ok ROR_absolute_ok ROR_absoluteX_ok
  JMP_absolute_ok JMP_indirect_ok JSR_absolute_ok RTS_ok BCC_ok BCS_ok BEQ_ok BMI_ok BNE_ok
  BPL_ok BVC_ok BVS_ok CLC_ok SEC_ok CLI_ok SEI_ok CLV_ok CLD_ok SED_ok BRK_ok RTI_ok NOP_ok

lemma instructions_ok: "instructions opcode = Some h \<Longrightarrow> handler_ok h"
  unfolding instructions_def by (drule map_of_SomeD) (auto simp: handlers_ok)

lemma interrupt_entry_ok:
  assumes "regs_in_range cpu" and "byte_ram mem"
  shows "case handle_nmi cpu mem of
           Inl e \<Rightarrow> False
         | Inr (cpu', mem') \<Rightarrow>
             regs_in_range cpu' \<and> byte_ram mem' \<and> 0 \<le> PC cpu' \<and> PC cpu' \<le> 65535"
    and "case handle_irq cpu mem of
           Inl e \<Rightarrow> False
         | Inr (cpu', mem') \<Rightarrow>
             regs_in_range cpu' \<and> byte_ram mem' \<and> 0 \<le> PC cpu' \<and> PC cpu' \<le> 65535"
  using assms by (simp_all add: handle_nmi_def handle_irq_def Let_def)

lemma step_register_bounds:
  fixes mem :: "'d Memory"
  assumes r: "regs_in_range cpu" and m: "byte_ram mem" and p: "0 \<le> PC cpu" "PC cpu \<le> 65535"
  shows "case step cpu mem of
           Inl e \<Rightarrow> False
         | Inr (c, cpu', mem') \<Rightarrow>
             regs_in_range cpu' \<and> byte_ram mem' \<and> 0 \<le> PC cpu' \<and> PC cpu' \<le> 65538"
proof -
  define pre where "pre = (if nmi_pending cpu then handle_nmi cpu mem
            else if irq_pending cpu \<and> I cpu = 0 then handle_irq cpu mem
            else Inr (cpu, mem))"
  have "case pre of Inl e \<Rightarrow> False
         | Inr (cpu', mem') \<Rightarrow>
             regs_in_range cpu' \<and> byte_ram mem' \<and> 0 \<le> PC cpu' \<and> PC cpu' \<le> 65535"
    unfolding pre_def using interrupt_entry_ok [OF r m] r m p by simp
  then obtain cpu1 mem1 where pre: "pre = Inr (cpu1, mem1)"
    and r1: "regs_in_range cpu1" and m1: "byte_ram mem1"
    and p1: "0 \<le> PC cpu1" "PC cpu1 \<le> 65535"
    by (auto split: sum.splits)
  define opcode where "opcode = peek mem1 (PC cpu1)"
  define cpu2 where "cpu2 = cpu1\<lparr>PC := PC cpu1 + 1, cycles := 0\<rparr>"
  have r2: "regs_in_range cpu2" and p2: "0 \<le> PC cpu2" "PC cpu2 \<le> 65536"
    using r1 p1 by (simp_all add: cpu2_def)
  define run where "run = (case (instructions opcode :: 'd handler option) of
              Some h \<Rightarrow> h cpu2 mem1
            | None \<Rightarrow> Inr (cpu2\<lparr>cycles := cycles cpu2 + 2\<rparr>, mem1))"
  have "case run of Inl e \<Rightarrow> False
         | Inr (cpu', mem') \<Rightarrow>
             regs_in_range cpu' \<and> byte_ram mem' \<and> 0 \<le> PC cpu' \<and> PC cpu' \<le> 65538"
  proof (cases "instructions opcode :: 'd handler option")
    case None
    with r2 m1 p2 show ?thesis by (simp add: run_def None)
  next
    case (Some h)
    from instructions_ok [OF Some] r2 m1 p2
    have "case h cpu2 mem1 of
           Inl e \<Rightarrow> False
         | Inr (cpu', mem') \<Rightarrow>
             regs_in_range cpu' \<and> byte_ram mem' \<and> 0 \<le> PC cpu' \<and>
             (PC cpu' \<le> PC cpu2 + 2 \<or> PC cpu' \<le> 65536)"
      unfolding handler_ok_def by blast
    with Some p2 show ?thesis
      by (auto simp: run_def split: sum.splits)
  qed
  then obtain cpu3 mem3 where run: "run = Inr (cpu3, mem3)"
    and r3: "regs_in_range cpu3" and m3: "byte_ram mem3"
    and p3: "0 \<le> PC cpu3" "PC cpu3 \<le> 65538"
    by (auto split: sum.splits)
  have "step cpu mem =
      bindE run (\<lambda>(c, m). Inr (cycles c, c\<lparr>total_cycles := total_cycles c + cycles c\<rparr>, m))"
    using pre m1 unfolding pre_def
    by (simp add: step_def Let_def run_def cpu2_def opcode_def split: option.split)
  then have "step cpu mem =
      Inr (cycles cpu3, cpu3\<lparr>total_cycles := total_cycles cpu3 + cycles cpu3\<rparr>, mem3)"
    by (simp add: run)
  with r3 m3 p3 show ?thesis by simp
qed

lemma rts_scenario:
  "step rts_cpu rts_mem =
     Inr (6, rts_cpu\<lparr>PC := 0x10000, SP := 0xFF, cycles := 6, total_cycles := 6\<rparr>, rts_mem)"
  by (simp add: step_def rts_cpu_def rts_mem_def instr_60 RTS_def eval_defs)

lemma top_scenario:
  "step top_cpu top_mem =
     Inr (2, top_cpu\<lparr>PC := 0x10000, cycles := 2, total_cycles := 2\<rparr>, top_mem)"
  by (simp add: step_def top_cpu_def top_mem_def instr_EA NOP_def eval_defs)

lemma byte_ram_scenarios: "byte_ram rts_mem" "byte_ram top_mem"
  by (auto simp: byte_ram_def plain_ram_def rts_mem_def top_mem_def mem64k_def list_all_length
      nth_list_update byte_def)

lemma regs_in_range_scenarios: "regs_in_range rts_cpu" "regs_in_range top_cpu"
  by (simp_all add: regs_in_range_def rts_cpu_def top_cpu_def CPU6502_init_def byte_def)

text \<open>
  Claim C2. After any step from a state within the bounds, \<open>A\<close>, \<open>X\<close>, \<open>Y\<close>, \<open>SP\<close> should lie
  in \<open>[0, 255]\<close>, \<open>PC\<close> in \<open>[0, 65535]\<close> and every flag in \<open>{0, 1}\<close>. \<open>RTS\<close> adds 1 to the
  pulled address without masking it (a taken branch masks its target with \<open>0xFFFF\<close>):
  from registers within the bounds, \<open>PC = $0200\<close> and a RAM of bytes with \<open>$FF, $FF\<close> on the
  stack, the step leaves \<open>PC = 65536\<close>. The opcode fetch does the same at \<open>PC = $FFFF\<close>.
  The bounds of \<open>A\<close>, \<open>X\<close>, \<open>Y\<close>, \<open>SP\<close> and the flags are kept, and \<open>PC\<close> stays in
  \<open>[0, 65538]\<close> (\<open>step_register_bounds\<close>).
\<close>

theorem step_PC_exceeds_16_bits:
  "regs_in_range rts_cpu \<and> byte_ram rts_mem \<and> PC rts_cpu = 0x0200
   \<and> step rts_cpu rts_mem =
     Inr (6, rts_cpu\<lparr>PC := 65536, SP := 0xFF, cycles := 6, total_cycles := 6\<rparr>, rts_mem)
   \<and> regs_in_range top_cpu \<and> byte_ram top_mem \<and> PC top_cpu = 0xFFFF
   \<and> step top_cpu top_mem =
     Inr (2, top_cpu\<lparr>PC := 65536, cycles := 2, total_cycles := 2\<rparr>, top_mem)"
  by (simp add: rts_scenario top_scenario byte_ram_scenarios regs_in_range_scenarios)
     (simp add: rts_cpu_def top_cpu_def)

section \<open>Decimal mode\<close>

lemma add_with_carry_decimal_A: "D cpu \<noteq> 0 \<Longrightarrow> A (add_with_carry cpu v) = A cpu"
  by (simp add: add_with_carry_def Let_def split_beta)

lemma subtract_with_carry_decimal_A: "D cpu \<noteq> 0 \<Longrightarrow> A (subtract_with_carry cpu v) = A cpu"
  by (simp add: subtract_with_carry_def Let_def split_beta)

lemma bcd_add_scenario:
  "step bcd_add_cpu bcd_add_mem =
     Inr (2, bcd_add_cpu\<lparr>PC := 0x0202, cycles := 2, total_cycles := 2\<rparr>, bcd_add_mem)"
  by (simp add: step_def bcd_add_cpu_def bcd_add_mem_def instr_69 ADC_immediate_def immediate_def
      add_with_carry_def eval_defs)

lemma bcd_sub_scenario:
  "step bcd_sub_cpu bcd_sub_mem =
     Inr (2, bcd_sub_cpu\<lparr>PC := 0x0202, cycles := 2, total_cycles := 2\<rparr>, bcd_sub_mem)"
  by (simp add: step_def bcd_sub_cpu_def bcd_sub_mem_def instr_E9 SBC_immediate_def immediate_def
      subtract_with_carry_def eval_defs)

text \<open>
  Claim C3. With \<open>D = 1\<close>, \<open>ADC\<close> should leave the BCD sum in the accumulator and \<open>SBC\<close> the
  BCD difference. The code computes the BCD result, sets \<open>C\<close>, \<open>Z\<close>, \<open>N\<close> and \<open>V\<close> from it
  and never stores it: \<open>ADC #$27\<close> with \<open>A = $15\<close> and \<open>C = 0\<close> leaves \<open>A = $15\<close> (the BCD
  sum is \<open>$42\<close>), and \<open>SBC #$15\<close> with \<open>A = $42\<close> and \<open>C = 1\<close> leaves \<open>A = $42\<close> (the BCD
  difference is \<open>$27\<close>). In both runs only \<open>PC\<close> and the cycle counters change.
\<close>

theorem decimal_mode_leaves_accumulator:
  "step bcd_add_cpu bcd_add_mem =
     Inr (2, bcd_add_cpu\<lparr>PC := 0x0202, cycles := 2, total_cycles := 2\<rparr>, bcd_add_mem)
   \<and> A bcd_add_cpu = 0x15
   \<and> step bcd_sub_cpu bcd_sub_mem =
     Inr (2, bcd_sub_cpu\<lparr>PC := 0x0202, cycles := 2, total_cycles := 2\<rparr>, bcd_sub_mem)
   \<and> A bcd_sub_cpu = 0x42"
  by (simp add: bcd_add_scenario bcd_sub_scenario) (simp add: bcd_add_cpu_def bcd_sub_cpu_def)

section \<open>BRK\<close>

lemma BRK_bus:
  assumes "Memory_write mem (0x100 + SP cpu) (drop_bit 8 (PC cpu + 1) AND 0xFF) = Inr m1"
    and "Memory_write m1 (0x100 + ((SP cpu - 1) AND 0xFF)) ((PC cpu + 1) AND 0xFF) = Inr m2"
    and "Memory_write m2 (0x100 + ((SP cpu - 2) AND 0xFF)) (get_status cpu OR 0x10) = Inr m3"
    and "Memory_read m3 0xFFFE = Inr (low, m4)"
    and "Memory_read m4 0xFFFF = Inr (high, m5)"
  shows "BRK cpu mem =
     Inr (cpu\<lparr>SP := (SP cpu - 3) AND 0xFF, I := 1, PC := low OR push_bit 8 high,
              cycles := cycles cpu + 7\<rparr>, m5)"
proof -
  have s2: "(((SP cpu - 1) AND 0xFF) - 1) AND 0xFF = (SP cpu - 2) AND 0xFF"
    by (simp add: dec_byte)
  have s3: "(((SP cpu - 2) AND 0xFF) - 1) AND 0xFF = (SP cpu - 3) AND 0xFF"
    by (simp add: dec_byte)
  have gs: "get_status (cpu\<lparr>SP := (SP cpu - 2) AND 0xFF\<rparr>) = get_status cpu"
    by (simp add: get_status_def)
  show ?thesis
    unfolding BRK_def using assms
    by (simp add: Let_def s2 s3 gs)
qed

lemma BRK_plain:
  assumes p: "plain_ram mem" and sp: "0 \<le> SP cpu" "SP cpu \<le> 255"
  shows "BRK cpu mem =
     Inr (cpu\<lparr>SP := (SP cpu - 3) AND 0xFF, I := 1,
              PC := ram mem ! 0xFFFE OR push_bit 8 (ram mem ! 0xFFFF),
              cycles := cycles cpu + 7\<rparr>,
          mem\<lparr>ram := (ram mem)
             [nat (0x100 + SP cpu) := drop_bit 8 (PC cpu + 1) AND 0xFF,
              nat (0x100 + ((SP cpu - 1) AND 0xFF)) := (PC cpu + 1) AND 0xFF,
              nat (0x100 + ((SP cpu - 2) AND 0xFF)) := (get_status cpu OR 0x10) AND 0xFF]\<rparr>)"
proof -
  define s1 where "s1 = (SP cpu - 1) AND 0xFF"
  define s2 where "s2 = (SP cpu - 2) AND 0xFF"
  define m1 where
    "m1 = mem\<lparr>ram := (ram mem)[nat (0x100 + SP cpu) := drop_bit 8 (PC cpu + 1) AND 0xFF]\<rparr>"
  define m2 where "m2 = m1\<lparr>ram := (ram m1)[nat (0x100 + s1) := (PC cpu + 1) AND 0xFF]\<rparr>"
  define m3 where
    "m3 = m2\<lparr>ram := (ram m2)[nat (0x100 + s2) := (get_status cpu OR 0x10) AND 0xFF]\<rparr>"
  have b1: "0 \<le> s1" "s1 \<le> 255" and b2: "0 \<le> s2" "s2 \<le> 255"
    by (simp_all add: s1_def s2_def byte_bounds)
  have s12: "(s1 - 1) AND 0xFF = s2"
    by (simp add: s1_def s2_def dec_byte)
  have s23: "(s2 - 1) AND 0xFF = (SP cpu - 3) AND 0xFF"
    by (simp add: s2_def dec_byte)
  have p1: "plain_ram m1" and p2: "plain_ram m2" and p3: "plain_ram m3"
    using p by (simp_all add: m1_def m2_def m3_def)
  have w1: "Memory_write mem (0x100 + SP cpu) (drop_bit 8 (PC cpu + 1) AND 0xFF) = Inr m1"
    using sp by (simp add: write_plain [OF p] m1_def byte_idem)
  have w2: "Memory_write m1 (0x100 + s1) ((PC cpu + 1) AND 0xFF) = Inr m2"
    using b1 by (simp add: write_plain [OF p1] m2_def byte_idem)
  have w3: "Memory_write m2 (0x100 + s2) (get_status cpu OR 0x10) = Inr m3"
    using b2 by (simp add: write_plain [OF p2] m3_def)
  have r1: "Memory_read m3 0xFFFE = Inr (ram mem ! 0xFFFE, m3)"
    using sp b1 b2 by (simp add: read_plain [OF p3]) (simp add: m3_def m2_def m1_def)
  have r2: "Memory_read m3 0xFFFF = Inr (ram mem ! 0xFFFF, m3)"
    using sp b1 b2 by (simp add: read_plain [OF p3]) (simp add: m3_def m2_def m1_def)
  have gs: "get_status (cpu\<lparr>SP := s2\<rparr>) = get_status cpu"
    by (simp add: get_status_def)
  show ?thesis
    unfolding BRK_def
    by (simp add: Let_def w1 w2 w3 r1 r2 s12 s23 gs flip: s1_def)
       (simp add: m3_def m2_def m1_def s1_def s2_def)
qed

lemma brk_scenario:
  "step brk_cpu brk_mem =
     Inr (7, brk_cpu\<lparr>PC := 0x1234, SP := 0xFC, I := 1, cycles := 7, total_cycles := 7\<rparr>,
          brk_mem\<lparr>ram := (ram brk_mem)[0x01FF := 0x02, 0x01FE := 0x02, 0x01FD := 0x30]\<rparr>)"
  by (simp add: step_def brk_cpu_def brk_mem_def instr_00 BRK_def get_status_def eval_defs)

lemma brk_stack_bytes:
  "(ram brk_mem)[0x01FF := 0x02, 0x01FE := 0x02, 0x01FD := 0x30] ! 0x01FD = 0x30"
  "(ram brk_mem)[0x01FF := 0x02, 0x01FE := 0x02, 0x01FD := 0x30] ! 0x01FE = 0x02"
  "(ram brk_mem)[0x01FF := 0x02, 0x01FE := 0x02, 0x01FD := 0x30] ! 0x01FF = 0x02"
  by (simp_all add: brk_mem_def mem64k_def)

text \<open>
  Claim C4, as stated, at the scenario of the specification: after the step the three
  bytes on the stack are not \<open>status|$10, $02, $03\<close>. \<open>BRK\<close> at \<open>$0200\<close> pushes \<open>$0202\<close>
  (the program counter after the fetch, plus one): the bytes at \<open>$01FD\<close>, \<open>$01FE\<close> and
  \<open>$01FF\<close> are \<open>$30\<close>, \<open>$02\<close>, \<open>$02\<close>, and no byte \<open>$03\<close> is among them.
\<close>

theorem BRK_scenario_counterexample:
  "step brk_cpu brk_mem =
     Inr (7, brk_cpu\<lparr>PC := 0x1234, SP := 0xFC, I := 1, cycles := 7, total_cycles := 7\<rparr>,
          brk_mem\<lparr>ram := (ram brk_mem)[0x01FF := 0x02, 0x01FE := 0x02, 0x01FD := 0x30]\<rparr>)
   \<and> (ram brk_mem)[0x01FF := 0x02, 0x01FE := 0x02, 0x01FD := 0x30] ! 0x01FD = 0x30
   \<and> (ram brk_mem)[0x01FF := 0x02, 0x01FE := 0x02, 0x01FD := 0x30] ! 0x01FE = 0x02
   \<and> (ram brk_mem)[0x01FF := 0x02, 0x01FE := 0x02, 0x01FD := 0x30] ! 0x01FF = 0x02
   \<and> (ram brk_mem)[0x01FF := 0x02, 0x01FE := 0x02, 0x01FD := 0x30] ! 0x01FE \<noteq> 0x03
   \<and> (ram brk_mem)[0x01FF := 0x02, 0x01FE := 0x02, 0x01FD := 0x30] ! 0x01FF \<noteq> 0x03"
  by (simp only: brk_scenario brk_stack_bytes) simp

text \<open>
  Claim C4, amended. \<open>BRK\<close> writes the high and then the low byte of \<open>PC + 1\<close> (\<open>PC\<close> being
  the program counter after the opcode fetch) and then the status with bit 4 set to the
  stack page, at \<open>$0100 + SP\<close> with \<open>SP\<close> decremented modulo 256 after each write; it sets
  \<open>I\<close>, loads \<open>PC\<close> from the bytes read at \<open>$FFFE\<close> and \<open>$FFFF\<close> and adds 7 cycles. This
  holds on every bus on which these accesses succeed; on a bus of plain RAM, with \<open>SP\<close>
  in \<open>[0, 255]\<close>, they succeed and RAM changes in the three stack cells only. In the
  scenario (\<open>$FFFE = $34\<close>, \<open>$FFFF = $12\<close>, \<open>I = 0\<close>, \<open>00 00\<close> at \<open>$0200\<close>) one step returns
  7 and leaves \<open>PC = $1234\<close>, \<open>I = 1\<close>, \<open>SP = $FC\<close> and, from the top of the stack upwards,
  the bytes \<open>$30\<close> (status with bits 4 and 5), \<open>$02\<close>, \<open>$02\<close>: the return address pushed
  is \<open>$0202\<close>.
\<close>

theorem BRK_pushes_and_vectors:
  "(\<forall>cpu (mem :: 'd Memory) m1 m2 m3 low m4 high m5.
      Memory_write mem (0x100 + SP cpu) (drop_bit 8 (PC cpu + 1) AND 0xFF) = Inr m1 \<and>
      Memory_write m1 (0x100 + ((SP cpu - 1) AND 0xFF)) ((PC cpu + 1) AND 0xFF) = Inr m2 \<and>
      Memory_write m2 (0x100 + ((SP cpu - 2) AND 0xFF)) (get_status cpu OR 0x10) = Inr m3 \<and>
      Memory_read m3 0xFFFE = Inr (low, m4) \<and>
      Memory_read m4 0xFFFF = Inr (high, m5) \<longrightarrow>
      BRK cpu mem =
        Inr (cpu\<lparr>SP := (SP cpu - 3) AND 0xFF, I := 1, PC := low OR push_bit 8 high,
                 cycles := cycles cpu + 7\<rparr>, m5))
   \<and> (\<forall>cpu (mem :: 'd Memory). plain_ram mem \<and> 0 \<le> SP cpu \<and> SP cpu \<le> 255 \<longrightarrow>
      BRK cpu mem =
        Inr (cpu\<lparr>SP := (SP cpu - 3) AND 0xFF, I := 1,
                 PC := ram mem ! 0xFFFE OR push_bit 8 (ram mem ! 0xFFFF),
                 cycles := cycles cpu + 7\<rparr>,
             mem\<lparr>ram := (ram mem)
                [nat (0x100 + SP cpu) := drop_bit 8 (PC cpu + 1) AND 0xFF,
                 nat (0x100 + ((SP cpu - 1) AND 0xFF)) := (PC cpu + 1) AND 0xFF,
                 nat (0x100 + ((SP cpu - 2) AND 0xFF)) := (get_status cpu OR 0x10) AND 0xFF]\<rparr>))
   \<and> step brk_cpu brk_mem =
       Inr (7, brk_cpu\<lparr>PC := 0x1234, SP := 0xFC, I := 1, cycles := 7, total_cycles := 7\<rparr>,
            brk_mem\<lparr>ram := (ram brk_mem)[0x01FF := 0x02, 0x01FE := 0x02, 0x01FD := 0x30]\<rparr>)"
proof (intro conjI allI impI)
  fix cpu :: CPU6502 and mem :: "'d Memory" and m1 m2 m3 low m4 high m5
  assume "Memory_write mem (0x100 + SP cpu) (drop_bit 8 (PC cpu + 1) AND 0xFF) = Inr m1 \<and>
      Memory_write m1 (0x100 + ((SP cpu - 1) AND 0xFF)) ((PC cpu + 1) AND 0xFF) = Inr m2 \<and>
      Memory_write m2 (0x100 + ((SP cpu - 2) AND 0xFF)) (get_status cpu OR 0x10) = Inr m3 \<and>
      Memory_read m3 0xFFFE = Inr (low, m4) \<and>
      Memory_read m4 0xFFFF = Inr (high, m5)"
  then show "BRK cpu mem =
        Inr (cpu\<lparr>SP := (SP cpu - 3) AND 0xFF, I := 1, PC := low OR push_bit 8 high,
                 cycles := cycles cpu + 7\<rparr>, m5)"
    by (elim conjE) (rule BRK_bus)
next
  fix cpu :: CPU6502 and mem :: "'d Memory"
  assume "plain_ram mem \<and> 0 \<le> SP cpu \<and> SP cpu \<le> 255"
  then show "BRK cpu mem =
        Inr (cpu\<lparr>SP := (SP cpu - 3) AND 0xFF, I := 1,
                 PC := ram mem ! 0xFFFE OR push_bit 8 (ram mem ! 0xFFFF),
                 cycles := cycles cpu + 7\<rparr>,
             mem\<lparr>ram := (ram mem)
                [nat (0x100 + SP cpu) := drop_bit 8 (PC cpu + 1) AND 0xFF,
                 nat (0x100 + ((SP cpu - 1) AND 0xFF)) := (PC cpu + 1) AND 0xFF,
                 nat (0x100 + ((SP cpu - 2) AND 0xFF)) := (get_status cpu OR 0x10) AND 0xFF]\<rparr>)"
    by (intro BRK_plain) simp_all
next
  show "step brk_cpu brk_mem =
       Inr (7, brk_cpu\<lparr>PC := 0x1234, SP := 0xFC, I := 1, cycles := 7, total_cycles := 7\<rparr>,
            brk_mem\<lparr>ram := (ram brk_mem)[0x01FF := 0x02, 0x01FE := 0x02, 0x01FD := 0x30]\<rparr>)"
    by (rule brk_scenario)
qed

theorem BRK_pushes_and_vectors_witness:
  "BRK (brk_cpu\<lparr>PC := 0x0201\<rparr>) brk_mem =
     Inr (brk_cpu\<lparr>PC := 0x1234, SP := 0xFC, I := 1, cycles := 7\<rparr>,
          brk_mem\<lparr>ram := (ram brk_mem)[0x01FF := 0x02, 0x01FE := 0x02, 0x01FD := 0x30]\<rparr>)"
proof -
  have p: "plain_ram brk_mem"
    by (simp add: brk_mem_def plain_ram_def mem64k_def)
  have "plain_ram brk_mem \<and> 0 \<le> SP (brk_cpu\<lparr>PC := 0x0201\<rparr>) \<and> SP (brk_cpu\<lparr>PC := 0x0201\<rparr>) \<le> 255"
    using p by (simp add: brk_cpu_def CPU6502_init_def)
  from BRK_pushes_and_vectors [THEN conjunct2, THEN conjunct1, rule_format, OF this]
  show ?thesis
    by (simp add: brk_cpu_def brk_mem_def get_status_def eval_defs)
qed

section \<open>Indirect JMP\<close>

lemma jmp_scenario:
  "step jmp_cpu jmp_mem =
     Inr (5, jmp_cpu\<lparr>PC := 0x8040, cycles := 5, total_cycles := 5\<rparr>, jmp_mem)"
  by (simp add: step_def jmp_cpu_def jmp_mem_def instr_6C JMP_indirect_def indirect_def
      absolute_def eval_defs)

text \<open>
  Claim C5. When the low byte of the pointer (the operand of \<open>JMP (ptr)\<close>) is \<open>$FF\<close>, the
  low byte of the target is read from \<open>ptr\<close> and the high byte from \<open>ptr & 0xFF00\<close>, not
  from \<open>ptr + 1\<close>; the jump costs 5 cycles. With \<open>$30FF = $40\<close>, \<open>$3000 = $80\<close> (and
  \<open>$3100 = $99\<close>), one step over \<open>6C FF 30\<close> returns 5 and leaves \<open>PC = $8040\<close>.
\<close>

theorem JMP_indirect_page_wrap:
  "(\<forall>cpu (mem :: 'd Memory) ptr cpu1 mem1 low mem2 high mem3.
      absolute cpu mem = Inr (ptr, cpu1, mem1) \<and> ptr AND 0xFF = 0xFF \<and>
      Memory_read mem1 ptr = Inr (low, mem2) \<and>
      Memory_read mem2 (ptr AND 0xFF00) = Inr (high, mem3)
      \<longrightarrow> JMP_indirect cpu mem =
            Inr (cpu1\<lparr>PC := push_bit 8 high OR low, cycles := cycles cpu1 + 5\<rparr>, mem3))
   \<and> step jmp_cpu jmp_mem =
       Inr (5, jmp_cpu\<lparr>PC := 0x8040, cycles := 5, total_cycles := 5\<rparr>, jmp_mem)"
proof (intro conjI allI impI)
  fix cpu and mem :: "'d Memory" and ptr cpu1 mem1 low mem2 high mem3
  assume "absolute cpu mem = Inr (ptr, cpu1, mem1) \<and> ptr AND 0xFF = 0xFF \<and>
      Memory_read mem1 ptr = Inr (low, mem2) \<and>
      Memory_read mem2 (ptr AND 0xFF00) = Inr (high, mem3)"
  then show "JMP_indirect cpu mem =
            Inr (cpu1\<lparr>PC := push_bit 8 high OR low, cycles := cycles cpu1 + 5\<rparr>, mem3)"
    by (simp add: JMP_indirect_def indirect_def)
next
  show "step jmp_cpu jmp_mem =
       Inr (5, jmp_cpu\<lparr>PC := 0x8040, cycles := 5, total_cycles := 5\<rparr>, jmp_mem)"
    by (rule jmp_scenario)
qed

theorem JMP_indirect_page_wrap_witness:
  "JMP_indirect (jmp_cpu\<lparr>PC := 0x0201\<rparr>) jmp_mem =
     Inr (jmp_cpu\<lparr>PC := 0x8040, cycles := 5\<rparr>, jmp_mem)"
proof -
  have "absolute (jmp_cpu\<lparr>PC := 0x0201\<rparr>) jmp_mem = Inr (0x30FF, jmp_cpu\<lparr>PC := 0x0203\<rparr>, jmp_mem)
      \<and> (0x30FF :: int) AND 0xFF = 0xFF
      \<and> Memory_read jmp_mem 0x30FF = Inr (0x40, jmp_mem)
      \<and> Memory_read jmp_mem (0x30FF AND 0xFF00) = Inr (0x80, jmp_mem)"
    by (simp add: jmp_cpu_def jmp_mem_def absolute_def eval_defs)
  from JMP_indirect_page_wrap [THEN conjunct1, rule_format, OF this]
  show ?thesis by (simp add: jmp_cpu_def CPU6502_init_def)
qed

section \<open>Binary ADC\<close>

lemma add_with_carry_binary:
  "D cpu = 0 \<Longrightarrow> add_with_carry cpu v =
     (let t = A cpu + v + C cpu in
      cpu\<lparr>C := (if t > 0xFF then 1 else 0),
          V := (if ((NOT (A cpu XOR v)) AND (A cpu XOR t)) AND 0x80 \<noteq> 0 then 1 else 0),
          A := t AND 0xFF,
          Z := (if (t AND 0xFF) AND 0xFF = 0 then 1 else 0),
          N := (if (t AND 0xFF) AND 0x80 \<noteq> 0 then 1 else 0)\<rparr>)"
  by (simp add: add_with_carry_def update_ZN_def Let_def)

lemma step_CLC:
  "\<not> nmi_pending cpu \<Longrightarrow> \<not> (irq_pending cpu \<and> I cpu = 0) \<Longrightarrow>
   Memory_read mem (PC cpu) = Inr (0x18, mem) \<Longrightarrow>
   step cpu mem =
     Inr (2, cpu\<lparr>PC := PC cpu + 1, C := 0, cycles := 2, total_cycles := total_cycles cpu + 2\<rparr>, mem)"
  by (simp add: step_no_interrupt instr_18 CLC_def Let_def)

lemma step_LDA_immediate:
  "\<not> nmi_pending cpu \<Longrightarrow> \<not> (irq_pending cpu \<and> I cpu = 0) \<Longrightarrow>
   Memory_read mem (PC cpu) = Inr (0xA9, mem) \<Longrightarrow>
   Memory_read mem (PC cpu + 1) = Inr (a, mem) \<Longrightarrow>
   step cpu mem = Inr (2, cpu\<lparr>PC := PC cpu + 2, A := a,
                            Z := (if a AND 0xFF = 0 then 1 else 0),
                            N := (if a AND 0x80 \<noteq> 0 then 1 else 0),
                            cycles := 2, total_cycles := total_cycles cpu + 2\<rparr>, mem)"
  by (simp add: step_no_interrupt instr_A9 LDA_immediate_def immediate_def update_ZN_def Let_def)

lemma step_ADC_immediate:
  "\<not> nmi_pending cpu \<Longrightarrow> \<not> (irq_pending cpu \<and> I cpu = 0) \<Longrightarrow> D cpu = 0 \<Longrightarrow>
   Memory_read mem (PC cpu) = Inr (0x69, mem) \<Longrightarrow>
   Memory_read mem (PC cpu + 1) = Inr (b, mem) \<Longrightarrow>
   step cpu mem =
     Inr (2, cpu\<lparr>PC := PC cpu + 2,
                  C := (if A cpu + b + C cpu > 0xFF then 1 else 0),
                  V := (if ((NOT (A cpu XOR b)) AND (A cpu XOR (A cpu + b + C cpu))) AND 0x80 \<noteq> 0
                        then 1 else 0),
                  A := (A cpu + b + C cpu) AND 0xFF,
                  Z := (if ((A cpu + b + C cpu) AND 0xFF) AND 0xFF = 0 then 1 else 0),
                  N := (if ((A cpu + b + C cpu) AND 0xFF) AND 0x80 \<noteq> 0 then 1 else 0),
                  cycles := 2, total_cycles := total_cycles cpu + 2\<rparr>, mem)"
  by (simp add: step_no_interrupt instr_69 ADC_immediate_def immediate_def add_with_carry_binary
      Let_def)

text \<open>
  Claim C6. For bytes \<open>a\<close> and \<open>b\<close>, with \<open>D = 0\<close> and no interrupt to service, the three
  steps over \<open>CLC; LDA #a; ADC #b\<close> (the bytes \<open>18 A9 a 69 b\<close> at \<open>PC\<close>) succeed and leave
  \<open>A = (a + b) mod 256\<close> and \<open>C = 1\<close> exactly when \<open>a + b \<ge> 256\<close> (and \<open>C = 0\<close> otherwise).
  In general, with \<open>D = 0\<close>, \<open>ADC\<close> of \<open>M\<close> computes \<open>t = A + M + C\<close> and sets \<open>C\<close> to
  \<open>t > $FF\<close>, \<open>V\<close> to \<open>((~(A ^ M) & (A ^ t)) & $80) \<noteq> 0\<close>, \<open>A\<close> to \<open>t & $FF\<close>, and \<open>Z\<close>, \<open>N\<close>
  from the new \<open>A\<close>.
\<close>

theorem ADC_binary:
  "(\<forall>a b cpu (mem :: 'd Memory).
      0 \<le> a \<and> a \<le> 255 \<and> 0 \<le> b \<and> b \<le> 255 \<and> D cpu = 0 \<and>
      \<not> nmi_pending cpu \<and> \<not> (irq_pending cpu \<and> I cpu = 0) \<and>
      Memory_read mem (PC cpu) = Inr (0x18, mem) \<and>
      Memory_read mem (PC cpu + 1) = Inr (0xA9, mem) \<and>
      Memory_read mem (PC cpu + 2) = Inr (a, mem) \<and>
      Memory_read mem (PC cpu + 3) = Inr (0x69, mem) \<and>
      Memory_read mem (PC cpu + 4) = Inr (b, mem)
      \<longrightarrow> (\<exists>c cpu3.
             bindE (step cpu mem) (\<lambda>(c1, cpu1, mem1).
             bindE (step cpu1 mem1) (\<lambda>(c2, cpu2, mem2). step cpu2 mem2)) = Inr (c, cpu3, mem) \<and>
             A cpu3 = (a + b) mod 256 \<and>
             (C cpu3 = 1) = (a + b \<ge> 256) \<and> (C cpu3 = 0 \<or> C cpu3 = 1)))
   \<and> (\<forall>cpu v. D cpu = 0 \<longrightarrow>
        add_with_carry cpu v =
          (let t = A cpu + v + C cpu in
           cpu\<lparr>C := (if t > 0xFF then 1 else 0),
               V := (if ((NOT (A cpu XOR v)) AND (A cpu XOR t)) AND 0x80 \<noteq> 0 then 1 else 0),
               A := t AND 0xFF,
               Z := (if (t AND 0xFF) AND 0xFF = 0 then 1 else 0),
               N := (if (t AND 0xFF) AND 0x80 \<noteq> 0 then 1 else 0)\<rparr>))"
proof (intro conjI allI impI)
  fix a b and cpu :: CPU6502 and mem :: "'d Memory"
  assume h: "0 \<le> a \<and> a \<le> 255 \<and> 0 \<le> b \<and> b \<le> 255 \<and> D cpu = 0 \<and>
      \<not> nmi_pending cpu \<and> \<not> (irq_pending cpu \<and> I cpu = 0) \<and>
      Memory_read mem (PC cpu) = Inr (0x18, mem) \<and>
      Memory_read mem (PC cpu + 1) = Inr (0xA9, mem) \<and>
      Memory_read mem (PC cpu + 2) = Inr (a, mem) \<and>
      Memory_read mem (PC cpu + 3) = Inr (0x69, mem) \<and>
      Memory_read mem (PC cpu + 4) = Inr (b, mem)"
  define cpu1 :: CPU6502
    where "cpu1 = cpu\<lparr>PC := PC cpu + 1, C := 0, cycles := 2, total_cycles := total_cycles cpu + 2\<rparr>"
  define cpu2 :: CPU6502
    where "cpu2 = cpu1\<lparr>PC := PC cpu1 + 2, A := a,
                            Z := (if a AND 0xFF = 0 then 1 else 0),
                            N := (if a AND 0x80 \<noteq> 0 then 1 else 0),
                            cycles := 2, total_cycles := total_cycles cpu1 + 2\<rparr>"
  define cpu3 :: CPU6502
    where "cpu3 = cpu2\<lparr>PC := PC cpu2 + 2,
                  C := (if A cpu2 + b + C cpu2 > 0xFF then 1 else 0),
                  V := (if ((NOT (A cpu2 XOR b)) AND (A cpu2 XOR (A cpu2 + b + C cpu2))) AND 0x80 \<noteq> 0
                        then 1 else 0),
                  A := (A cpu2 + b + C cpu2) AND 0xFF,
                  Z := (if ((A cpu2 + b + C cpu2) AND 0xFF) AND 0xFF = 0 then 1 else 0),
                  N := (if ((A cpu2 + b + C cpu2) AND 0xFF) AND 0x80 \<noteq> 0 then 1 else 0),
                  cycles := 2, total_cycles := total_cycles cpu2 + 2\<rparr>"
  have s1: "step cpu mem = Inr (2, cpu1, mem)"
    unfolding cpu1_def using h by (intro step_CLC) simp_all
  have s2: "step cpu1 mem = Inr (2, cpu2, mem)"
    unfolding cpu2_def using h by (intro step_LDA_immediate) (simp_all add: cpu1_def ac_simps)
  have s3: "step cpu2 mem = Inr (2, cpu3, mem)"
    unfolding cpu3_def using h
    by (intro step_ADC_immediate) (simp_all add: cpu1_def cpu2_def ac_simps)
  have ac: "A cpu2 = a" "C cpu2 = 0"
    by (simp_all add: cpu2_def cpu1_def)
  have a3: "A cpu3 = (a + b) mod 256"
    by (simp add: cpu3_def and_mask8 ac)
  have c3: "C cpu3 = (if a + b > 255 then 1 else 0)"
    by (simp add: cpu3_def ac)
  from s1 s2 s3 a3 c3
  show "\<exists>c cpu3.
             bindE (step cpu mem) (\<lambda>(c1, cpu1, mem1).
             bindE (step cpu1 mem1) (\<lambda>(c2, cpu2, mem2). step cpu2 mem2)) = Inr (c, cpu3, mem) \<and>
             A cpu3 = (a + b) mod 256 \<and>
             (C cpu3 = 1) = (a + b \<ge> 256) \<and> (C cpu3 = 0 \<or> C cpu3 = 1)"
    by (intro exI [of _ 2] exI [of _ cpu3]) simp
next
  fix cpu :: CPU6502 and v
  assume "D cpu = 0"
  then show "add_with_carry cpu v =
          (let t = A cpu + v + C cpu in
           cpu\<lparr>C := (if t > 0xFF then 1 else 0),
               V := (if ((NOT (A cpu XOR v)) AND (A cpu XOR t)) AND 0x80 \<noteq> 0 then 1 else 0),
               A := t AND 0xFF,
               Z := (if (t AND 0xFF) AND 0xFF = 0 then 1 else 0),
               N := (if (t AND 0xFF) AND 0x80 \<noteq> 0 then 1 else 0)\<rparr>)"
    by (rule add_with_carry_binary)
qed

theorem ADC_binary_witness:
  "\<exists>c cpu3.
     bindE (step adc_cpu adc_mem) (\<lambda>(c1, cpu1, mem1).
     bindE (step cpu1 mem1) (\<lambda>(c2, cpu2, mem2). step cpu2 mem2)) = Inr (c, cpu3, adc_mem) \<and>
     A cpu3 = 44 \<and> C cpu3 = 1"
proof -
  have "(0::int) \<le> 200 \<and> (200::int) \<le> 255 \<and> (0::int) \<le> 100 \<and> (100::int) \<le> 255 \<and> D adc_cpu = 0 \<and>
      \<not> nmi_pending adc_cpu \<and> \<not> (irq_pending adc_cpu \<and> I adc_cpu = 0) \<and>
      Memory_read adc_mem (PC adc_cpu) = Inr (0x18, adc_mem) \<and>
      Memory_read adc_mem (PC adc_cpu + 1) = Inr (0xA9, adc_mem) \<and>
      Memory_read adc_mem (PC adc_cpu + 2) = Inr (200, adc_mem) \<and>
      Memory_read adc_mem (PC adc_cpu + 3) = Inr (0x69, adc_mem) \<and>
      Memory_read adc_mem (PC adc_cpu + 4) = Inr (100, adc_mem)"
    by (simp add: adc_cpu_def adc_mem_def eval_defs)
  from ADC_binary [THEN conjunct1, rule_format, OF this]
  obtain c cpu3 where
    "bindE (step adc_cpu adc_mem) (\<lambda>(c1, cpu1, mem1).
     bindE (step cpu1 mem1) (\<lambda>(c2, cpu2, mem2). step cpu2 mem2)) = Inr (c, cpu3, adc_mem)"
    and "A cpu3 = (200 + 100) mod 256" and "(C cpu3 = 1) = ((200::int) + 100 \<ge> 256)"
    by blast
  then show ?thesis
    by (intro exI [of _ c] exI [of _ cpu3]) simp
qed

section \<open>Timer 1 of the VIA\<close>

lemma update_timers_result:
  "fst (update_timers via c) =
     ((0 < timer1_counter via \<and> timer1_counter via \<le> c \<and> irq_enable via AND 0x40 \<noteq> 0) \<or>
      (0 < timer2_counter via \<and> timer2_counter via \<le> c \<and> irq_enable via AND 0x20 \<noteq> 0))"
  by (simp add: update_timers_def Let_def)

lemma update_timers_irq_status:
  "irq_status (snd (update_timers via c)) =
     (irq_status via OR (if 0 < timer1_counter via \<and> timer1_counter via \<le> c then 0x40 else 0))
       OR (if 0 < timer2_counter via \<and> timer2_counter via \<le> c then 0x20 else 0)"
  by (simp add: update_timers_def Let_def)

lemma timer1_counter_after:
  "timer1_counter (snd (update_timers via c)) =
     (if 0 < timer1_counter via then
        (if timer1_counter via \<le> c then timer1_latch via else timer1_counter via - c)
      else timer1_counter via)"
  by (simp add: update_timers_def Let_def)

lemma and_96: "((e::int) AND 96 \<noteq> 0) = (e AND 64 \<noteq> 0 \<or> e AND 32 \<noteq> 0)"
proof -
  have "(96::int) = 64 OR 32" by simp
  then have "e AND 96 = e AND (64 OR 32)" by (simp only:)
  then have "e AND 96 = (e AND 64) OR (e AND 32)" by (simp only: bit.conj_disj_distrib)
  then show ?thesis by (simp add: or_eq_0_iff)
qed

lemma update_timers_result_mask:
  "fst (update_timers via c) =
     (irq_enable via AND
        ((if 0 < timer1_counter via \<and> timer1_counter via \<le> c then 0x40 else 0) OR
         (if 0 < timer2_counter via \<and> timer2_counter via \<le> c then 0x20 else 0)) \<noteq> 0)"
  by (auto simp: update_timers_result and_96)

lemma via_scenario:
  "bindE (VIA_write VIA_init 0xE 0xC0 ()) (\<lambda>(v1, e1).
   bindE (VIA_write v1 0x4 0x02 e1) (\<lambda>(v2, e2).
   bindE (VIA_write v2 0x5 0x00 e2) (\<lambda>(v3, e3). Inr (update_timers v3 3)))) =
   Inr (True, VIA_init\<lparr>registers := (replicate 16 0)[0xE := 0xC0, 0x4 := 0x02, 0x5 := 0x00],
                        timer1_counter := 0x0002, timer1_latch := 0x0002,
                        irq_status := 0x40, irq_enable := 0x40\<rparr>)"
  by (simp add: VIA_write_def VIA_init_def update_timers_def setitem_def Let_def)

text \<open>
  Claim C7. For every cycle count \<open>c\<close>: when the counter of timer 1 is positive and at most
  \<open>c\<close>, \<open>update_timers c\<close> sets bit 6 of the flag register and reloads the counter from
  the latch; when the counter is positive and greater than \<open>c\<close>, it is decremented by
  \<open>c\<close>. The bits the call sets in the flag register (\<open>bits\<close> below) are bit 6 when timer
  1 expires and bit 5 when timer 2 expires, and the call returns true exactly when one of
  them is enabled in the enable register. A bit the call sets may have been set before
  the call: the call sets it again and, if it is enabled, returns true. In the
  scenario, the enable register is written with \<open>$C0\<close>, the low latch byte \<open>$02\<close> with
  register 4 and the high byte \<open>$00\<close> with register 5 (which loads the counter); then
  \<open>update_timers 3\<close> returns true, bit 6 of the flag register is set and the counter is
  \<open>$0002\<close> again.
\<close>

theorem update_timers_timer1:
  "(\<forall>(via :: 'd VIA) c. 0 < timer1_counter via \<and> timer1_counter via \<le> c \<longrightarrow>
       irq_status (snd (update_timers via c)) AND 0x40 = 0x40 \<and>
       timer1_counter (snd (update_timers via c)) = timer1_latch via)
 \<and> (\<forall>(via :: 'd VIA) c. 0 < timer1_counter via \<and> c < timer1_counter via \<longrightarrow>
       timer1_counter (snd (update_timers via c)) = timer1_counter via - c)
 \<and> (\<forall>(via :: 'd VIA) c.
       (let bits = (if 0 < timer1_counter via \<and> timer1_counter via \<le> c then 0x40 else 0) OR
                   (if 0 < timer2_counter via \<and> timer2_counter via \<le> c then 0x20 else 0)
        in irq_status (snd (update_timers via c)) = irq_status via OR bits \<and>
           fst (update_timers via c) = (irq_enable via AND bits \<noteq> 0)))
 \<and> bindE (VIA_write VIA_init 0xE 0xC0 ()) (\<lambda>(v1, e1).
     bindE (VIA_write v1 0x4 0x02 e1) (\<lambda>(v2, e2).
     bindE (VIA_write v2 0x5 0x00 e2) (\<lambda>(v3, e3). Inr (update_timers v3 3)))) =
     Inr (True, VIA_init\<lparr>registers := (replicate 16 0)[0xE := 0xC0, 0x4 := 0x02, 0x5 := 0x00],
                          timer1_counter := 0x0002, timer1_latch := 0x0002,
                          irq_status := 0x40, irq_enable := 0x40\<rparr>)"
proof (intro conjI allI impI)
  fix via :: "'d VIA" and c
  assume h: "0 < timer1_counter via \<and> timer1_counter via \<le> c"
  then show "irq_status (snd (update_timers via c)) AND 0x40 = 0x40"
    using or_and_same [of "irq_status via" "0x40"] or_or_and_same [of "irq_status via" "0x40" "0x20"]
    by (simp add: update_timers_irq_status)
  from h show "timer1_counter (snd (update_timers via c)) = timer1_latch via"
    by (simp add: timer1_counter_after)
next
  fix via :: "'d VIA" and c
  assume "0 < timer1_counter via \<and> c < timer1_counter via"
  then show "timer1_counter (snd (update_timers via c)) = timer1_counter via - c"
    by (simp add: timer1_counter_after)
next
  fix via :: "'d VIA" and c
  show "let bits = (if 0 < timer1_counter via \<and> timer1_counter via \<le> c then 0x40 else 0) OR
                   (if 0 < timer2_counter via \<and> timer2_counter via \<le> c then 0x20 else 0)
        in irq_status (snd (update_timers via c)) = irq_status via OR bits \<and>
           fst (update_timers via c) = (irq_enable via AND bits \<noteq> 0)"
    unfolding Let_def
    by (intro conjI) (simp add: update_timers_irq_status or.assoc, rule update_timers_result_mask)
next
  show "bindE (VIA_write VIA_init 0xE 0xC0 ()) (\<lambda>(v1, e1).
     bindE (VIA_write v1 0x4 0x02 e1) (\<lambda>(v2, e2).
     bindE (VIA_write v2 0x5 0x00 e2) (\<lambda>(v3, e3). Inr (update_timers v3 3)))) =
     Inr (True, VIA_init\<lparr>registers := (replicate 16 0)[0xE := 0xC0, 0x4 := 0x02, 0x5 := 0x00],
                          timer1_counter := 0x0002, timer1_latch := 0x0002,
                          irq_status := 0x40, irq_enable := 0x40\<rparr>)"
    by (rule via_scenario)
qed

theorem update_timers_timer1_witness:
  "irq_status (snd (update_timers via_t1 3)) AND 0x40 = 0x40
   \<and> timer1_counter (snd (update_timers via_t1 3)) = 2
   \<and> fst (update_timers via_t1 3)
   \<and> timer1_counter (snd (update_timers via_t1 1)) = 1"
proof -
  have e: "0 < timer1_counter via_t1 \<and> timer1_counter via_t1 \<le> 3"
    by (simp add: via_t1_def VIA_init_def)
  have d: "0 < timer1_counter via_t1 \<and> 1 < timer1_counter via_t1"
    by (simp add: via_t1_def VIA_init_def)
  note t = update_timers_timer1 [where 'd = unit]
  from t [THEN conjunct1, rule_format, OF e]
    t [THEN conjunct2, THEN conjunct1, rule_format, OF d]
    t [THEN conjunct2, THEN conjunct2, THEN conjunct1, rule_format, of via_t1 3]
  show ?thesis
    by (simp add: via_t1_def VIA_init_def)
qed

section \<open>Resolution order of the bus\<close>

lemma find_rom_Some:
  "find_rom rs a = Some (base, data, size0) \<Longrightarrow>
     (base, data, size0) \<in> set rs \<and> base \<le> a \<and> a < base + size0"
  unfolding find_rom_def find_Some_iff by (auto dest: nth_mem)

lemma find_rom_None:
  "(find_rom rs a = None) =
     (\<forall>(base, data, size0) \<in> set rs. \<not> (base \<le> a \<and> a < base + size0))"
  by (auto simp: find_rom_def find_None_iff)

text \<open>
  Claim C8. For a 16-bit address: a write inside a registered overlay, at an address
  without a write handler, returns the bus unchanged; a read at an address with a read
  handler returns what the handler returns (and leaves the state the handler leaves),
  whatever RAM and the overlays hold; a read inside an overlay, at an address without a
  read handler, returns the byte of an overlay that contains the address (the first in
  registration order), whatever RAM holds. The overlays are as \<open>load_rom\<close> registers
  them, each with the length of its data.
\<close>

theorem Memory_overlay_resolution:
  assumes "0 \<le> addr" and "addr \<le> 0xFFFF"
  shows "(io_write_handlers m addr = None \<and>
          (\<exists>(base, data, size0) \<in> set (roms m). base \<le> addr \<and> addr < base + size0)
            \<longrightarrow> Memory_write m addr v = Inr m)
       \<and> (\<forall>h. io_read_handlers m addr = Some h
            \<longrightarrow> Memory_read m addr =
                  Inr (fst (h (io_state m)), m\<lparr>io_state := snd (h (io_state m))\<rparr>))
       \<and> (io_read_handlers m addr = None \<and>
          (\<forall>(base, data, size0) \<in> set (roms m). size0 = int (length data)) \<and>
          (\<exists>(base, data, size0) \<in> set (roms m). base \<le> addr \<and> addr < base + size0)
            \<longrightarrow> (\<exists>(base, data, size0) \<in> set (roms m). base \<le> addr \<and> addr < base + size0 \<and>
                   Memory_read m addr = Inr (data ! nat (addr - base), m)))"
proof (intro conjI impI allI)
  assume h: "io_write_handlers m addr = None \<and>
          (\<exists>(base, data, size0) \<in> set (roms m). base \<le> addr \<and> addr < base + size0)"
  then have "find_rom (roms m) addr \<noteq> None"
    unfolding find_rom_None by blast
  with h assms show "Memory_write m addr v = Inr m"
    by (auto simp: Memory_write_def mask16_id Let_def)
next
  fix h assume "io_read_handlers m addr = Some h"
  with assms
  show "Memory_read m addr = Inr (fst (h (io_state m)), m\<lparr>io_state := snd (h (io_state m))\<rparr>)"
    by (simp add: Memory_read_def mask16_id Let_def split_beta)
next
  assume h: "io_read_handlers m addr = None \<and>
          (\<forall>(base, data, size0) \<in> set (roms m). size0 = int (length data)) \<and>
          (\<exists>(base, data, size0) \<in> set (roms m). base \<le> addr \<and> addr < base + size0)"
  then have "find_rom (roms m) addr \<noteq> None"
    unfolding find_rom_None by blast
  then obtain base data size0 where f: "find_rom (roms m) addr = Some (base, data, size0)"
    by auto
  from find_rom_Some [OF f] have in_set: "(base, data, size0) \<in> set (roms m)"
    and lo: "base \<le> addr" and hi: "addr < base + size0" by simp_all
  from h in_set have "size0 = int (length data)" by auto
  with lo hi have "getitem data (addr - base) = Inr (data ! nat (addr - base))"
    by (simp add: getitem_in_range)
  with h f assms have "Memory_read m addr = Inr (data ! nat (addr - base), m)"
    by (simp add: Memory_read_def mask16_id Let_def)
  with in_set lo hi
  show "\<exists>(base, data, size0) \<in> set (roms m). base \<le> addr \<and> addr < base + size0 \<and>
                   Memory_read m addr = Inr (data ! nat (addr - base), m)"
    by blast
qed

theorem Memory_overlay_resolution_witness:
  "Memory_write rom_io_mem 0xC001 0x55 = Inr rom_io_mem
   \<and> Memory_read rom_io_mem 0x8000 = Inr (7, rom_io_mem\<lparr>io_state := 8\<rparr>)
   \<and> Memory_read rom_io_mem 0xC001 = Inr (0x93, rom_io_mem)"
proof -
  have w: "Memory_write rom_io_mem 0xC001 0x55 = Inr rom_io_mem"
    using Memory_overlay_resolution [of "0xC001" rom_io_mem "0x55"]
    by (simp add: rom_io_mem_def)
  have r: "Memory_read rom_io_mem 0x8000 = Inr (7, rom_io_mem\<lparr>io_state := 8\<rparr>)"
    using Memory_overlay_resolution [of "0x8000" rom_io_mem "0"]
    by (simp add: rom_io_mem_def)
  have o: "Memory_read rom_io_mem 0xC001 = Inr (0x93, rom_io_mem)"
    using Memory_overlay_resolution [of "0xC001" rom_io_mem "0"]
    by (simp add: rom_io_mem_def)
  from w r o show ?thesis by simp
qed

section \<open>Registering an overlay\<close>

lemma load_rom_loop_ok:
  "0 \<le> a \<Longrightarrow> list_all (\<lambda>b. 0 \<le> b \<and> b \<le> 255) bs \<Longrightarrow>
     \<exists>r'. load_rom_loop r a bs = Inr r' \<and> length r' = length r"
proof (induction bs arbitrary: r a)
  case Nil
  then show ?case by simp
next
  case (Cons b bs)
  show ?case
  proof (cases "a < int (length r)")
    case True
    with Cons.prems have "setitem r a b = Inr (r[nat a := b])"
      by (simp add: setitem_in_range)
    moreover from Cons.prems
    have "\<exists>r'. load_rom_loop (r[nat a := b]) (a + 1) bs = Inr r' \<and>
            length r' = length (r[nat a := b])"
      by (intro Cons.IH) simp_all
    ultimately show ?thesis using True by simp
  next
    case False
    moreover from Cons.prems
    have "\<exists>r'. load_rom_loop r (a + 1) bs = Inr r' \<and> length r' = length r"
      by (intro Cons.IH) simp_all
    ultimately show ?thesis by simp
  qed
qed

lemma load_rom_loop_nth:
  "list_all (\<lambda>b. 0 \<le> b \<and> b \<le> 255) bs \<Longrightarrow> load_rom_loop r (int n) bs = Inr r' \<Longrightarrow>
   k < length r \<Longrightarrow>
   r' ! k = (if n \<le> k \<and> k < n + length bs then bs ! (k - n) else r ! k)"
proof (induction bs arbitrary: r n)
  case Nil
  then show ?case by simp
next
  case (Cons b bs)
  have suc: "int n + 1 = int (Suc n)" by simp
  from Cons.prems have bs: "list_all (\<lambda>b. 0 \<le> b \<and> b \<le> 255) bs" and b: "0 \<le> b" "b \<le> 255"
    by simp_all
  show ?case
  proof (cases "n < length r")
    case True
    with b have "setitem r (int n) b = Inr (r[n := b])"
      by (simp add: setitem_in_range)
    with Cons.prems(2) True have l: "load_rom_loop (r[n := b]) (int (Suc n)) bs = Inr r'"
      by (simp add: suc del: of_nat_Suc)
    from Cons.prems(3) have k: "k < length (r[n := b])" by simp
    from Cons.IH [OF bs l k]
    have ih: "r' ! k = (if Suc n \<le> k \<and> k < Suc n + length bs then bs ! (k - Suc n) else r[n := b] ! k)" .
    show ?thesis
    proof (cases "k = n")
      case True
      with ih \<open>n < length r\<close> show ?thesis by simp
    next
      case False
      with ih show ?thesis by (auto simp: nth_Cons' Suc_diff_le)
    qed
  next
    case False
    with Cons.prems(2) have l: "load_rom_loop r (int (Suc n)) bs = Inr r'"
      by (simp add: suc del: of_nat_Suc)
    from Cons.IH [OF bs l Cons.prems(3)]
    have "r' ! k = (if Suc n \<le> k \<and> k < Suc n + length bs then bs ! (k - Suc n) else r ! k)" .
    with False Cons.prems(3) show ?thesis by auto
  qed
qed

text \<open>
  Claim C9, as stated: \<open>load_rom\<close> should reject an empty image and an image whose region
  crosses \<open>$FFFF\<close>. On a fresh bus both are accepted and registered: the empty image at
  \<open>$C000\<close> becomes the overlay \<open>($C000, ([], 0))\<close>, and the three bytes at \<open>$FFFE\<close> become
  an overlay of size 3 whose first two bytes are copied to RAM.
\<close>

theorem load_rom_counterexample:
  "load_rom mem64k [] 0xC000 = Inr (mem64k\<lparr>roms := [(0xC000, ([], 0))]\<rparr>)
   \<and> load_rom mem64k [1, 2, 3] 0xFFFE =
       Inr (mem64k\<lparr>roms := [(0xFFFE, ([1, 2, 3], 3))],
                   ram := (ram mem64k)[0xFFFE := 1, 0xFFFF := 2]\<rparr>)"
  by (simp add: load_rom_def mem64k_def setitem_def Let_def)

text \<open>
  Claim C9, amended. \<open>load_rom\<close> validates neither the length nor the region: for every
  sequence of bytes (the empty one too) and every address from 0 on (also when the
  region crosses \<open>$FFFF\<close>), it succeeds and registers the overlay with the data and its
  length under the address. RAM keeps its length; the bytes of the image whose address
  is below that length are copied to RAM, the others are not, and no other cell changes.
\<close>

theorem load_rom_accepts:
  assumes "list_all (\<lambda>b. 0 \<le> b \<and> b \<le> 255) data" and "0 \<le> addr"
  shows "\<exists>r. load_rom m data addr =
            Inr (m\<lparr>roms := AList.update addr (data, int (length data)) (roms m), ram := r\<rparr>)
          \<and> length r = length (ram m)
          \<and> (\<forall>k < length (ram m).
                r ! k = (if nat addr \<le> k \<and> k < nat addr + length data
                         then data ! (k - nat addr) else ram m ! k))"
proof -
  from load_rom_loop_ok [OF assms(2) assms(1), of "ram m"]
  obtain r where l: "load_rom_loop (ram m) addr data = Inr r" and n: "length r = length (ram m)"
    by blast
  from l assms(2) have "load_rom_loop (ram m) (int (nat addr)) data = Inr r"
    by simp
  from load_rom_loop_nth [OF assms(1) this]
  have "\<forall>k < length (ram m).
          r ! k = (if nat addr \<le> k \<and> k < nat addr + length data
                   then data ! (k - nat addr) else ram m ! k)"
    by blast
  with l n assms show ?thesis
    by (intro exI [of _ r]) (simp add: load_rom_def Let_def)
qed

theorem load_rom_accepts_witness:
  "\<exists>r. load_rom mem64k [] 0xC000 = Inr (mem64k\<lparr>roms := [(0xC000, ([], 0))], ram := r\<rparr>)
        \<and> length r = 65536"
proof -
  from load_rom_accepts [of "[]" "0xC000" mem64k]
  obtain r where
    "load_rom mem64k [] 0xC000 =
       Inr (mem64k\<lparr>roms := AList.update 0xC000 ([], int (length ([] :: int list))) (roms mem64k),
                   ram := r\<rparr>)"
    and "length r = length (ram mem64k)"
    by auto
  then show ?thesis
    by (intro exI [of _ r]) (simp add: mem64k_def)
qed

section \<open>Bounds of the screen memory\<close>

lemma VideoRAM_init_wf: "VideoRAM_init w h = Inr v \<Longrightarrow> VideoRAM_wf v"
  by (auto simp: VideoRAM_init_def VideoRAM_wf_def split: if_splits)

lemma VideoRAM_write_wf:
  "VideoRAM_wf v \<Longrightarrow> VideoRAM_write v addr val = Inr v' \<Longrightarrow> VideoRAM_wf v'"
  by (auto simp: VideoRAM_write_def VideoRAM_wf_def getitem_def setitem_def Let_def
      split: if_splits)

text \<open>
  Claim C10. For an address outside \<open>[0, width * height)\<close>, \<open>read\<close> returns 0 and \<open>write\<close>
  returns the screen memory unchanged (array and dirty flag). An address inside the
  range is an index of the array: \<open>read\<close> returns the byte there, and \<open>write\<close> either
  leaves the memory as it is (equal byte), stores the byte and sets the dirty flag, or
  raises ValueError for a value that is no byte; no access raises IndexError.
\<close>

theorem VideoRAM_access_in_bounds:
  assumes "VideoRAM_wf v"
  shows "(\<not> (0 \<le> addr \<and> addr < width v * height v) \<longrightarrow>
            VideoRAM_read v addr = Inr 0 \<and> VideoRAM_write v addr val = Inr v)
       \<and> (0 \<le> addr \<and> addr < width v * height v \<longrightarrow>
            nat addr < length (memory v)
          \<and> VideoRAM_read v addr = Inr (memory v ! nat addr)
          \<and> VideoRAM_write v addr val =
              (if memory v ! nat addr = val then Inr v
               else if val < 0 \<or> 255 < val then Inl ValueError
               else Inr (v\<lparr>memory := (memory v)[nat addr := val], dirty := True\<rparr>)))"
  using assms
  by (auto simp: VideoRAM_wf_def VideoRAM_read_def VideoRAM_write_def getitem_in_range
      setitem_def Let_def)

theorem VideoRAM_access_in_bounds_witness:
  "VideoRAM_read video40x25 1000 = Inr 0
   \<and> VideoRAM_write video40x25 1000 0x41 = Inr video40x25
   \<and> VideoRAM_read video40x25 (- 1) = Inr 0
   \<and> VideoRAM_read video40x25 999 = Inr 0
   \<and> VideoRAM_write video40x25 999 0x41 =
       Inr (video40x25\<lparr>memory := (replicate 1000 0)[999 := 0x41], dirty := True\<rparr>)"
proof -
  have wf: "VideoRAM_wf video40x25"
    by (simp add: VideoRAM_wf_def video40x25_def)
  from VideoRAM_access_in_bounds [OF wf, of 1000 "0x41"]
    VideoRAM_access_in_bounds [OF wf, of "- 1" "0"]
    VideoRAM_access_in_bounds [OF wf, of 999 "0x41"]
  show ?thesis
    by (simp add: video40x25_def)
qed

end
